theory Spec2Isabelle
  imports Complex_Main
begin

section \<open>Python values used by the time ledger\<close>

text \<open>
  A Python \<open>dict\<close> keeps its keys in insertion order, and that order is observable
  (\<open>_encontrar_empresa_existente_por_norm\<close> returns the first key that matches).
  A dict is therefore an association list: assignment replaces the value of an
  existing key in place and appends a new key at the end, \<open>pop\<close> removes the key.
\<close>

type_synonym ('k, 'v) dict = "('k \<times> 'v) list"

fun dict_get :: "('k, 'v) dict \<Rightarrow> 'k \<Rightarrow> 'v option" where
  "dict_get [] k = None"
| "dict_get ((k', v) # d) k = (if k' = k then Some v else dict_get d k)"

fun dict_set :: "'k \<Rightarrow> 'v \<Rightarrow> ('k, 'v) dict \<Rightarrow> ('k, 'v) dict" where
  "dict_set k v [] = [(k, v)]"
| "dict_set k v ((k', v') # d) = (if k' = k then (k, v) # d else (k', v') # dict_set k v d)"

fun dict_pop :: "'k \<Rightarrow> ('k, 'v) dict \<Rightarrow> ('k, 'v) dict" where
  "dict_pop k [] = []"
| "dict_pop k ((k', v) # d) = (if k' = k then dict_pop k d else (k', v) # dict_pop k d)"

definition dict_get_or :: "('k, 'v) dict \<Rightarrow> 'k \<Rightarrow> 'v \<Rightarrow> 'v" where
  "dict_get_or d k dflt = (case dict_get d k of None \<Rightarrow> dflt | Some v \<Rightarrow> v)"

definition dict_keys :: "('k, 'v) dict \<Rightarrow> 'k list" where
  "dict_keys d = map fst d"

text \<open>The keys of a Python dict are pairwise different.\<close>

definition dict_ok :: "('k, 'v) dict \<Rightarrow> bool" where
  "dict_ok d = distinct (map fst d)"

text \<open>
  Month keys are \<open>int\<close> objects in \<open>meses\<close> and \<open>str\<close> objects in
  \<open>por_tecnico\<close>; the import pops both spellings, so both kinds of key are kept.
\<close>

datatype pykey = KInt int | KStr string

text \<open>\<open>str(n)\<close> for an \<open>int\<close>: decimal digits, with a leading minus sign.\<close>

definition digit_char :: "nat \<Rightarrow> char" where
  "digit_char n = char_of (48 + n)"

function str_nat :: "nat \<Rightarrow> string" where
  "str_nat n = (if n < 10 then [digit_char n] else str_nat (n div 10) @ [digit_char (n mod 10)])"
  by pat_completeness auto
termination
  by (relation "measure id") auto

declare str_nat.simps [simp del]

definition str_int :: "int \<Rightarrow> string" where
  "str_int i = (if i < 0 then CHR ''-'' # str_nat (nat (- i)) else str_nat (nat i))"

section \<open>The ledger\<close>

text \<open>
  One record per company and year, as \<open>timings.py\<close> builds it:
  \<^verbatim>\<open>{"meses": {...}, "extra_mensal": 0, "apagado": False, "por_tecnico": {...}}\<close>.
  The key \<open>por_tecnico\<close> can be missing (\<open>excluir_timing_empresa\<close> creates a
  record without it), so that field is optional.
\<close>

record time_record =
  meses :: "(pykey, int) dict"
  extra_mensal :: int
  apagado :: bool
  por_tecnico :: "(string, (pykey, int) dict) dict option"

type_synonym ano_dict = "(string, time_record) dict"
type_synonym timings = "(string, ano_dict) dict"

definition novo_registo :: time_record where
  "novo_registo = \<lparr>meses = [], extra_mensal = 0, apagado = False, por_tecnico = Some []\<rparr>"

text \<open>\<open>_obter_ano_dict\<close>: \<open>timings_dados.setdefault(str(ano), {})\<close>.\<close>

definition obter_ano_dict :: "timings \<Rightarrow> int \<Rightarrow> ano_dict" where
  "obter_ano_dict td ano = dict_get_or td (str_int ano) []"

section \<open>Strings\<close>

text \<open>
  A Python \<open>str\<close> is a sequence of code points. The model keeps the code points
  below 256 (Latin-1, which holds every accented letter of the names in
  \<open>timings.py\<close>): a \<open>char\<close> is one code point. Upper-casing U+00B5 and U+00FF leaves
  that range; the model leaves these two characters as they are.
\<close>

definition is_space :: "char \<Rightarrow> bool" where
  "is_space c = (let n = (of_char c :: nat) in
     if n < 33 then (9 \<le> n \<and> n \<le> 13) \<or> 28 \<le> n else n = 133 \<or> n = 160)"

definition is_digit :: "char \<Rightarrow> bool" where
  "is_digit c = (let n = (of_char c :: nat) in 48 \<le> n \<and> n \<le> 57)"

definition py_strip :: "string \<Rightarrow> string" where
  "py_strip s = rev (dropWhile is_space (rev (dropWhile is_space s)))"

text \<open>\<open>unicodedata.normalize("NFD", s)\<close> followed by the removal of the marks (category Mn).\<close>

definition strip_accent :: "char \<Rightarrow> char" where
  "strip_accent c = (let n = (of_char c :: nat) in
     if n < 192 then c
     else if n \<le> 197 then CHR ''A''
     else if n = 199 then CHR ''C''
     else if 200 \<le> n \<and> n \<le> 203 then CHR ''E''
     else if 204 \<le> n \<and> n \<le> 207 then CHR ''I''
     else if n = 209 then CHR ''N''
     else if 210 \<le> n \<and> n \<le> 214 then CHR ''O''
     else if 217 \<le> n \<and> n \<le> 220 then CHR ''U''
     else if n = 221 then CHR ''Y''
     else if 224 \<le> n \<and> n \<le> 229 then CHR ''a''
     else if n = 231 then CHR ''c''
     else if 232 \<le> n \<and> n \<le> 235 then CHR ''e''
     else if 236 \<le> n \<and> n \<le> 239 then CHR ''i''
     else if n = 241 then CHR ''n''
     else if 242 \<le> n \<and> n \<le> 246 then CHR ''o''
     else if 249 \<le> n \<and> n \<le> 252 then CHR ''u''
     else if n = 253 \<or> n = 255 then CHR ''y''
     else c)"

definition sem_acentos :: "string \<Rightarrow> string" where
  "sem_acentos s = map strip_accent s"

text \<open>
  Between a lower-case letter and its capital lies the bit of value 32: clearing it
  subtracts 32 from the code point, setting it adds 32.
\<close>

definition menos_32 :: "char \<Rightarrow> char" where
  "menos_32 c = (case c of Char b0 b1 b2 b3 b4 b5 b6 b7 \<Rightarrow> Char b0 b1 b2 b3 b4 False b6 b7)"

definition mais_32 :: "char \<Rightarrow> char" where
  "mais_32 c = (case c of Char b0 b1 b2 b3 b4 b5 b6 b7 \<Rightarrow> Char b0 b1 b2 b3 b4 True b6 b7)"

definition upper_char :: "char \<Rightarrow> string" where
  "upper_char c = (let n = (of_char c :: nat) in
     if n < 97 then [c]
     else if n \<le> 122 then [menos_32 c]
     else if n < 223 then [c]
     else if n = 223 then ''SS''
     else if n \<noteq> 247 \<and> n \<noteq> 255 then [menos_32 c]
     else [c])"

definition py_upper :: "string \<Rightarrow> string" where
  "py_upper s = concat (map upper_char s)"

definition lower_char :: "char \<Rightarrow> char" where
  "lower_char c = (let n = (of_char c :: nat) in
     if n < 65 then c
     else if n \<le> 90 then mais_32 c
     else if n < 192 then c
     else if n \<le> 222 \<and> n \<noteq> 215 then mais_32 c
     else c)"

definition py_lower :: "string \<Rightarrow> string" where
  "py_lower s = map lower_char s"

text \<open>
  The pieces between runs of white space, the empty ones left out: \<open>str.split()\<close>,
  and \<open>re.split(r"\s+", s)\<close> once its empty strings are filtered.
\<close>

fun split_ws_aux :: "string \<Rightarrow> string \<Rightarrow> string list" where
  "split_ws_aux cur [] = (if cur = [] then [] else [rev cur])"
| "split_ws_aux cur (c # cs) =
     (if is_space c then (if cur = [] then split_ws_aux [] cs else rev cur # split_ws_aux [] cs)
      else split_ws_aux (c # cur) cs)"

definition split_ws :: "string \<Rightarrow> string list" where
  "split_ws s = split_ws_aux [] s"

fun py_join :: "string \<Rightarrow> string list \<Rightarrow> string" where
  "py_join sep [] = []"
| "py_join sep [x] = x"
| "py_join sep (x # y # xs) = x @ sep @ py_join sep (y # xs)"

section \<open>Technician names\<close>

text \<open>\<open>_norm_nome_forte\<close>: upper case, no accents, no connecting particles.\<close>

definition stopwords :: "string list" where
  "stopwords = [''DE'', ''DA'', ''DO'', ''DOS'', ''DAS'', ''E'']"

definition norm_nome_forte :: "string option \<Rightarrow> string" where
  "norm_nome_forte so = (case so of None \<Rightarrow> [] | Some s \<Rightarrow>
     if s = [] then []
     else py_join '' '' (filter (\<lambda>t. t \<noteq> [] \<and> t \<notin> set stopwords)
            (split_ws (py_upper (sem_acentos (py_strip s))))))"

text \<open>\<open>registrar\<close> inside \<open>_build_aliases_canonicos\<close>: a later name overwrites an earlier one.\<close>

definition registrar :: "string \<Rightarrow> string list \<Rightarrow> (string, string) dict \<Rightarrow> (string, string) dict" where
  "registrar canonico variantes alias_map =
     fold (\<lambda>nome m. let norm = norm_nome_forte (Some nome) in
                     if norm \<noteq> [] then dict_set norm canonico m else m)
          (canonico # variantes) alias_map"

definition joao_pedro_alves :: string where
  "joao_pedro_alves = ''Jo'' @ [CHR 0xE3] @ ''o Pedro Alves''"

definition ALIASES_CANONICOS :: "(string, string) dict" where
  "ALIASES_CANONICOS =
    (registrar joao_pedro_alves
       [''Jo'' @ [CHR 0xE3] @ ''o Pedro Gon'' @ [CHR 0xE7] @ ''alves Alves'',
        ''Joao Pedro Goncalves Alves'', joao_pedro_alves, ''Joao Pedro Alves'']
    (registrar ''M Luzia Moreira''
       [''Luzia Maria Gon'' @ [CHR 0xE7] @ ''alves Moreira'', ''Luzia Maria Goncalves Moreira'',
        ''M Luzia Moreira'']
    (registrar ''M Albertina Alves'' [''Maria Albertina Pereira Alves'', ''M Albertina Alves'']
    (registrar ''Celine Santos''
       [''Celine'', ''Celine Rodrigues dos Santos'', ''Celine Santos'',
        ''ANTONIO CANDIDO GON'' @ [CHR 0xC7] @ ''ALVES DIAS'', ''ANTONIO CANDIDO GONCALVES DIAS'']
    (registrar ''Daniela Fernandes''
       [''Marta Daniela Francisco Fernandes'', ''Daniela Francisco Fernandes'']
    (registrar ''Ana Rodrigues''
       [''Ana Catarina Louren'' @ [CHR 0xE7] @ ''o Rodrigues'', ''Ana Catarina Lorenco Rodrigues'',
        ''Ana Rodrigues'']
    (registrar ''Pedro Fernandes'' [''Pedro Miguel da Silva Fernandes'', ''Pedro Fernandes'']
       [])))))))"

definition ARMANDO_NORMS :: "string list" where
  "ARMANDO_NORMS =
     [norm_nome_forte (Some (''Armando Palh'' @ [CHR 0xE3] @ ''o Dias'')),
      norm_nome_forte (Some ''Armando Palhao Dias''),
      norm_nome_forte (Some ''Armando Dias'')]"

text \<open>
  \<open>_resolver_tecnico\<close> classifies a name of the spreadsheet: the kind
  (\<open>"desconhecido"\<close>, \<open>"armando"\<close> or \<open>"canonico"\<close>) and the canonical name, if any.
\<close>

definition resolver_tecnico :: "string option \<Rightarrow> string \<times> string option" where
  "resolver_tecnico nome_excel =
     (if nome_excel = None \<or> nome_excel = Some [] then (''desconhecido'', None)
      else let norm_forte = norm_nome_forte nome_excel in
        if norm_forte = [] then (''desconhecido'', None)
        else if norm_forte \<in> set ARMANDO_NORMS then (''armando'', None)
        else (case dict_get ALIASES_CANONICOS norm_forte of
                Some canonico \<Rightarrow>
                  if canonico \<noteq> [] then (''canonico'', Some canonico) else (''desconhecido'', None)
              | None \<Rightarrow> (''desconhecido'', None)))"

definition sem_tecnico :: string where
  "sem_tecnico = ''Sem t'' @ [CHR 0xE9] @ ''cnico''"

text \<open>\<open>_canonical_tecnico_nome\<close>: the name under which minutes are booked.\<close>

definition canonical_tecnico_nome :: "string option \<Rightarrow> string" where
  "canonical_tecnico_nome so =
     (case so of None \<Rightarrow> sem_tecnico | Some s \<Rightarrow>
        if s = [] then sem_tecnico
        else (case resolver_tecnico (Some s) of (tipo, canonico) \<Rightarrow>
          if tipo = ''canonico'' \<and> canonico \<noteq> None \<and> canonico \<noteq> Some [] then the canonico
          else if tipo = ''armando'' then sem_tecnico
          else (let s' = py_strip s in if s' = [] then sem_tecnico else s')))"

section \<open>Booking minutes\<close>

text \<open>
  \<open>_adicionar_tempo_empresa\<close>. Nothing happens for \<open>minutos <= 0\<close>. Otherwise the
  company's record is created if needed, its \<open>apagado\<close> flag is cleared, the minutes are
  added to the month and, when a technician is given, to the technician's month
  (whose key is \<open>str(mes)\<close>).
\<close>

definition somar_mes :: "pykey \<Rightarrow> int \<Rightarrow> (pykey, int) dict \<Rightarrow> (pykey, int) dict" where
  "somar_mes k minutos d = dict_set k (dict_get_or d k 0 + minutos) d"

definition somar_tecnico ::
  "string \<Rightarrow> pykey \<Rightarrow> int \<Rightarrow> (string, (pykey, int) dict) dict \<Rightarrow> (string, (pykey, int) dict) dict" where
  "somar_tecnico tecnico_norm mes_key minutos tec_dict =
     dict_set tecnico_norm (somar_mes mes_key minutos (dict_get_or tec_dict tecnico_norm [])) tec_dict"

definition adicionar_registo :: "int \<Rightarrow> int \<Rightarrow> string option \<Rightarrow> time_record \<Rightarrow> time_record" where
  "adicionar_registo mes minutos tecnico emp_dict =
     (let emp1 = emp_dict\<lparr>apagado := False, meses := somar_mes (KInt mes) minutos (meses emp_dict)\<rparr>
      in if tecnico \<noteq> None \<and> tecnico \<noteq> Some [] then
           emp1\<lparr>por_tecnico := Some (somar_tecnico (canonical_tecnico_nome tecnico)
                      (KStr (str_int mes)) minutos
                      (case por_tecnico emp1 of None \<Rightarrow> [] | Some t \<Rightarrow> t))\<rparr>
         else emp1)"

definition adicionar_tempo_empresa ::
  "int \<Rightarrow> int \<Rightarrow> string \<Rightarrow> int \<Rightarrow> string option \<Rightarrow> timings \<Rightarrow> timings" where
  "adicionar_tempo_empresa ano mes empresa minutos tecnico td =
     (if minutos \<le> 0 then td
      else let ano_d = obter_ano_dict td ano;
               emp_dict = dict_get_or ano_d empresa novo_registo
           in dict_set (str_int ano)
                (dict_set empresa (adicionar_registo mes minutos tecnico emp_dict) ano_d) td)"

text \<open>
  \<open>excluir_timing_empresa\<close>: the soft delete. A company without a record gets an
  empty one that is already deleted.
\<close>

definition excluir_timing_empresa :: "int \<Rightarrow> string \<Rightarrow> timings \<Rightarrow> timings" where
  "excluir_timing_empresa ano empresa td =
     (let ano_d = dict_get_or td (str_int ano) [];
          reg = (case dict_get ano_d empresa of
                   None \<Rightarrow> \<lparr>meses = [], extra_mensal = 0, apagado = True, por_tecnico = None\<rparr>
                 | Some r \<Rightarrow> r\<lparr>apagado := True\<rparr>)
      in dict_set (str_int ano) (dict_set empresa reg ano_d) td)"

definition registo_de :: "timings \<Rightarrow> int \<Rightarrow> string \<Rightarrow> time_record option" where
  "registo_de td ano empresa = dict_get (dict_get_or td (str_int ano) []) empresa"

section \<open>The import\<close>

text \<open>
  A fact read from a workbook, the dict that \<open>_importar_excel_timings\<close> builds:
  the company as written, its normalised key, the kind of technician
  (\<open>"canonico"\<close>, \<open>"armando"\<close> or \<open>"resumo"\<close>), the canonical name and the minutes.
\<close>

record registo =
  r_empresa :: string
  r_empresa_norm :: string
  r_tipo :: string
  r_canonico :: "string option"
  r_minutos :: int

text \<open>
  \<open>_norm_empresa_forte\<close> rests on the Unicode tables and the regular expressions of the
  Python runtime. The import only compares its results, so it is a parameter \<open>nf\<close> of the
  model; the one thing used of it is that the empty name has the empty key
  (\<open>if not s: return ""\<close>).

  A sheet, once read by \<open>_processar_sheet_colunas\<close> or \<open>_processar_sheet_workload\<close>, is a
  list of detailed rows (company, kind, canonical name, minutes) and a dict of fallback
  totals. The end of \<open>_importar_excel_timings\<close> turns both into facts.
\<close>

type_synonym linha_sheet = "string \<times> string \<times> string option \<times> int"
type_synonym folha = "linha_sheet list \<times> (string, int) dict"

definition registos_da_folha :: "(string \<Rightarrow> string) \<Rightarrow> folha \<Rightarrow> registo list" where
  "registos_da_folha nf f = (case f of (registos_sheet, totais_sheet) \<Rightarrow>
     concat (map (\<lambda>(emp, tp, can, mins).
        if mins \<le> 0 then [] else if nf emp = [] then []
        else [\<lparr>r_empresa = emp, r_empresa_norm = nf emp, r_tipo = tp, r_canonico = can,
               r_minutos = mins\<rparr>]) registos_sheet)
     @ concat (map (\<lambda>(emp, mins).
        if mins \<le> 0 then [] else if nf emp = [] then []
        else [\<lparr>r_empresa = emp, r_empresa_norm = nf emp, r_tipo = ''resumo'', r_canonico = None,
               r_minutos = mins\<rparr>]) totais_sheet))"

definition registos_do_ficheiro :: "(string \<Rightarrow> string) \<Rightarrow> folha list \<Rightarrow> registo list" where
  "registos_do_ficheiro nf folhas = concat (map (registos_da_folha nf) folhas)"

subsection \<open>Deduplication inside a batch\<close>

text \<open>
  The state of the first loop of \<open>importar_timings\<close>. The two Python sets are lists
  without repetition, in the order of insertion.
\<close>

record lote =
  registos_unicos :: "registo list"
  seen_registos :: "(string \<times> string \<times> int \<times> int) list"
  empresa_display_por_norm :: "(string, string) dict"
  empresas_afetadas_norm :: "string list"
  duplicados_por_empresa :: "(string, int) dict"
  total_minutos_deduplicados :: int

definition lote_vazio :: lote where
  "lote_vazio = \<lparr>registos_unicos = [], seen_registos = [], empresa_display_por_norm = [],
     empresas_afetadas_norm = [], duplicados_por_empresa = [], total_minutos_deduplicados = 0\<rparr>"

definition dict_setdefault :: "'k \<Rightarrow> 'v \<Rightarrow> ('k, 'v) dict \<Rightarrow> ('k, 'v) dict" where
  "dict_setdefault k v d = (case dict_get d k of None \<Rightarrow> d @ [(k, v)] | Some _ \<Rightarrow> d)"

definition set_add :: "'a \<Rightarrow> 'a list \<Rightarrow> 'a list" where
  "set_add x xs = (if x \<in> set xs then xs else xs @ [x])"

definition dict_somar :: "'k \<Rightarrow> int \<Rightarrow> ('k, int) dict \<Rightarrow> ('k, int) dict" where
  "dict_somar k n d = dict_set k (dict_get_or d k 0 + n) d"

definition tipo_de :: "registo \<Rightarrow> string" where
  "tipo_de reg = (if r_tipo reg = [] then ''resumo'' else r_tipo reg)"

definition display_de :: "registo \<Rightarrow> string" where
  "display_de reg = (if r_empresa reg \<noteq> [] then r_empresa reg else r_empresa_norm reg)"

definition canonico_vazio :: "registo \<Rightarrow> bool" where
  "canonico_vazio reg = (r_canonico reg = None \<or> r_canonico reg = Some [])"

definition tecnico_chave :: "registo \<Rightarrow> string" where
  "tecnico_chave reg =
     (if tipo_de reg = ''canonico'' then norm_nome_forte (r_canonico reg)
      else if tipo_de reg = ''armando'' then ''__ARMANDO__''
      else ''__RESUMO__'')"

definition chave_registo :: "int \<Rightarrow> registo \<Rightarrow> string \<times> string \<times> int \<times> int" where
  "chave_registo mes reg = (r_empresa_norm reg, tecnico_chave reg, mes, r_minutos reg)"

definition dedup_passo :: "int \<Rightarrow> registo \<Rightarrow> lote \<Rightarrow> lote" where
  "dedup_passo mes reg st =
     (if r_minutos reg \<le> 0 then st
      else if r_empresa_norm reg = [] then st
      else
        let st1 = st\<lparr>empresa_display_por_norm :=
                     dict_setdefault (r_empresa_norm reg) (display_de reg) (empresa_display_por_norm st)\<rparr>
        in if tipo_de reg = ''canonico'' \<and> canonico_vazio reg then st1
           else if chave_registo mes reg \<in> set (seen_registos st1) then
             st1\<lparr>duplicados_por_empresa :=
                   dict_somar (dict_get_or (empresa_display_por_norm st1) (r_empresa_norm reg) (display_de reg))
                     (r_minutos reg) (duplicados_por_empresa st1),
                 total_minutos_deduplicados := total_minutos_deduplicados st1 + r_minutos reg\<rparr>
           else
             st1\<lparr>seen_registos := set_add (chave_registo mes reg) (seen_registos st1),
                 registos_unicos := registos_unicos st1 @ [reg],
                 empresas_afetadas_norm := set_add (r_empresa_norm reg) (empresas_afetadas_norm st1)\<rparr>)"

definition deduplicar :: "int \<Rightarrow> registo list \<Rightarrow> lote" where
  "deduplicar mes regs = fold (dedup_passo mes) regs lote_vazio"

subsection \<open>The client registry\<close>

record cliente =
  c_nome :: "string option"
  c_cliente :: "string option"
  c_empresa :: "string option"
  c_designacao :: "string option"
  c_tecnico :: "string option"
  c_carteira :: "string option"

text \<open>Python's \<open>a or b\<close> on optional strings: the first one that is neither \<open>None\<close> nor empty.\<close>

definition py_or :: "string option \<Rightarrow> string option \<Rightarrow> string option" where
  "py_or a b = (if a \<noteq> None \<and> a \<noteq> Some [] then a else b)"

definition truthy :: "string option \<Rightarrow> bool" where
  "truthy a = (a \<noteq> None \<and> a \<noteq> Some [])"

definition nome_cliente :: "cliente \<Rightarrow> string option" where
  "nome_cliente cli = py_or (c_nome cli) (py_or (c_cliente cli) (py_or (c_empresa cli) (c_designacao cli)))"

text \<open>\<open>_tecnico_inferido_empresa\<close>: the technician of the first client with the company's key.\<close>

fun tecnico_inferido_loop :: "(string \<Rightarrow> string) \<Rightarrow> string \<Rightarrow> cliente list \<Rightarrow> string option" where
  "tecnico_inferido_loop nf alvo_norm [] = None"
| "tecnico_inferido_loop nf alvo_norm (cli # clientes) =
     (if \<not> truthy (nome_cliente cli) then tecnico_inferido_loop nf alvo_norm clientes
      else if nf (the (nome_cliente cli)) \<noteq> alvo_norm then tecnico_inferido_loop nf alvo_norm clientes
      else let tecnico_raw = py_or (c_tecnico cli) (c_carteira cli) in
        if \<not> truthy tecnico_raw then None
        else (case resolver_tecnico tecnico_raw of (tipo, canonico) \<Rightarrow>
          if tipo = ''canonico'' \<and> truthy canonico then canonico
          else let tecnico_str = py_strip (the tecnico_raw) in
               if tecnico_str = [] then None else Some tecnico_str))"

definition tecnico_inferido_empresa :: "(string \<Rightarrow> string) \<Rightarrow> cliente list \<Rightarrow> string \<Rightarrow> string option" where
  "tecnico_inferido_empresa nf clientes empresa_norm =
     (if empresa_norm = [] then None
      else if nf empresa_norm = [] then None
      else tecnico_inferido_loop nf (nf empresa_norm) clientes)"

subsection \<open>Applying a batch to the ledger\<close>

text \<open>\<open>_encontrar_empresa_existente_por_norm\<close>: the first key of the year with that normalised name.\<close>

definition encontrar_empresa_existente_por_norm ::
  "(string \<Rightarrow> string) \<Rightarrow> ano_dict \<Rightarrow> string \<Rightarrow> string option" where
  "encontrar_empresa_existente_por_norm nf ano_d empresa_norm =
     find (\<lambda>nome. nf nome = empresa_norm) (map fst ano_d)"

definition nome_para_inserir ::
  "(string \<Rightarrow> string) \<Rightarrow> ano_dict \<Rightarrow> (string, string) dict \<Rightarrow> string \<Rightarrow> string" where
  "nome_para_inserir nf ano_d display empresa_norm =
     (case encontrar_empresa_existente_por_norm nf ano_d empresa_norm of
        Some existente \<Rightarrow>
          if existente \<noteq> [] then existente else dict_get_or display empresa_norm empresa_norm
      | None \<Rightarrow> dict_get_or display empresa_norm empresa_norm)"

definition empresa_nome_para_inserir ::
  "(string \<Rightarrow> string) \<Rightarrow> ano_dict \<Rightarrow> (string, string) dict \<Rightarrow> string list \<Rightarrow> (string, string) dict" where
  "empresa_nome_para_inserir nf ano_d display afetadas =
     fold (\<lambda>empresa_norm d. dict_set empresa_norm (nome_para_inserir nf ano_d display empresa_norm) d)
       afetadas []"

text \<open>The batch is authoritative for its month: the month is emptied before the facts are written.\<close>

definition pop_mes :: "int \<Rightarrow> (pykey, int) dict \<Rightarrow> (pykey, int) dict" where
  "pop_mes mes d = dict_pop (KInt mes) (dict_pop (KStr (str_int mes)) d)"

definition zerar_registo :: "int \<Rightarrow> time_record \<Rightarrow> time_record" where
  "zerar_registo mes reg =
     reg\<lparr>meses := dict_set (KInt mes) 0 (pop_mes mes (meses reg)),
         por_tecnico := map_option (map (\<lambda>(tecnico_key, tempos). (tecnico_key, pop_mes mes tempos)))
                          (por_tecnico reg)\<rparr>"

definition zerar_empresa :: "int \<Rightarrow> string \<Rightarrow> ano_dict \<Rightarrow> ano_dict" where
  "zerar_empresa mes empresa_nome ano_d =
     (case dict_get ano_d empresa_nome of
        None \<Rightarrow> ano_d
      | Some reg \<Rightarrow> dict_set empresa_nome (zerar_registo mes reg) ano_d)"

definition zerar_mes_lote :: "int \<Rightarrow> (string, string) dict \<Rightarrow> ano_dict \<Rightarrow> ano_dict" where
  "zerar_mes_lote mes nomes ano_d = fold (\<lambda>(empresa_norm, empresa_nome). zerar_empresa mes empresa_nome) nomes ano_d"

text \<open>
  One turn of the last loop: the technician of the fact is its canonical name, or for the
  special marker the technician inferred from the client registry; a marker without
  inferred technician is booked without technician and reported in \<open>armando_sem_inferido\<close>.
\<close>

definition tecnico_final_de ::
  "(string \<Rightarrow> string) \<Rightarrow> cliente list \<Rightarrow> registo \<Rightarrow> string option" where
  "tecnico_final_de nf clientes reg =
     (if tipo_de reg = ''canonico'' then r_canonico reg
      else if tipo_de reg = ''armando'' then
        (let inferido = tecnico_inferido_empresa nf clientes (r_empresa_norm reg)
         in if truthy inferido then inferido else None)
      else None)"

definition aplicar_registo ::
  "(string \<Rightarrow> string) \<Rightarrow> cliente list \<Rightarrow> int \<Rightarrow> int \<Rightarrow> (string, string) dict \<Rightarrow> registo
     \<Rightarrow> timings \<times> (string, int) dict \<Rightarrow> timings \<times> (string, int) dict" where
  "aplicar_registo nf clientes ano mes nomes reg st = (case st of (td, armando_sem_inferido) \<Rightarrow>
     let empresa_nome = dict_get_or nomes (r_empresa_norm reg) (display_de reg);
         sem = (tipo_de reg = ''armando''
                \<and> \<not> truthy (tecnico_inferido_empresa nf clientes (r_empresa_norm reg)))
     in (adicionar_tempo_empresa ano mes empresa_nome (r_minutos reg) (tecnico_final_de nf clientes reg) td,
         if sem then dict_somar (display_de reg) (r_minutos reg) armando_sem_inferido
         else armando_sem_inferido))"

text \<open>
  A file of the upload, as \<open>_importar_excel_timings\<close> returns it: the sheets read and the
  three reports (unknown technicians, ignored minutes, ignored summaries). Files without
  content are skipped by the source and are left out of the list.
\<close>

type_synonym ficheiro = "folha list \<times> (string, int) dict \<times> (string, int) dict \<times> (string, int) dict"

definition lote_de :: "(string \<Rightarrow> string) \<Rightarrow> int \<Rightarrow> ficheiro list \<Rightarrow> lote" where
  "lote_de nf mes ficheiros =
     deduplicar mes (concat (map (\<lambda>(folhas, invs, igns, ress). registos_do_ficheiro nf folhas) ficheiros))"

definition ha_relatorios :: "ficheiro list \<Rightarrow> bool" where
  "ha_relatorios ficheiros = (\<exists>(folhas, invs, igns, ress) \<in> set ficheiros. invs \<noteq> [] \<or> igns \<noteq> [] \<or> ress \<noteq> [])"

text \<open>
  The ledger part of \<open>importar_timings\<close>: the new in-memory ledger and the report of
  markers without inferred technician.
\<close>

definition importar_timings ::
  "(string \<Rightarrow> string) \<Rightarrow> cliente list \<Rightarrow> int \<Rightarrow> int \<Rightarrow> ficheiro list \<Rightarrow> timings
     \<Rightarrow> timings \<times> (string, int) dict" where
  "importar_timings nf clientes ano mes ficheiros td =
     (let lt = lote_de nf mes ficheiros in
      if registos_unicos lt = [] \<and> \<not> (ha_relatorios ficheiros \<or> duplicados_por_empresa lt \<noteq> [])
      then (td, [])
      else
        let ano_d = obter_ano_dict td ano;
            nomes = empresa_nome_para_inserir nf ano_d (empresa_display_por_norm lt)
                      (empresas_afetadas_norm lt);
            td1 = dict_set (str_int ano) (zerar_mes_lote mes nomes ano_d) td
        in fold (aplicar_registo nf clientes ano mes nomes) (registos_unicos lt) (td1, []))"

subsection \<open>Words used to state the deduplication\<close>

text \<open>
  A fact takes part in the deduplication when the first loop does not skip it: positive
  minutes, a company key, and a canonical name if its kind is \<open>"canonico"\<close>.
\<close>

definition registo_valido :: "registo \<Rightarrow> bool" where
  "registo_valido reg = (0 < r_minutos reg \<and> r_empresa_norm reg \<noteq> []
     \<and> \<not> (tipo_de reg = ''canonico'' \<and> canonico_vazio reg))"

text \<open>The elements of a list whose key does not occur earlier in the list.\<close>

definition primeiras_ocorrencias :: "('a \<Rightarrow> 'k) \<Rightarrow> 'a list \<Rightarrow> 'a list" where
  "primeiras_ocorrencias f xs =
     map (\<lambda>i. xs ! i) (filter (\<lambda>i. f (xs ! i) \<notin> f ` set (take i xs)) [0..<length xs])"

definition minutos_de :: "registo list \<Rightarrow> int" where
  "minutos_de regs = sum_list (map r_minutos regs)"

text \<open>The same selection as a recursion over the list, with the keys seen so far.\<close>

fun first_occ :: "('a \<Rightarrow> 'k) \<Rightarrow> 'k list \<Rightarrow> 'a list \<Rightarrow> 'a list" where
  "first_occ f seen [] = []"
| "first_occ f seen (x # xs) =
     (if f x \<in> set seen then first_occ f seen xs else x # first_occ f (seen @ [f x]) xs)"

subsection \<open>A small batch\<close>

definition registo_x_120 :: registo where
  "registo_x_120 = \<lparr>r_empresa = ''Company X'', r_empresa_norm = ''company x'', r_tipo = ''canonico'',
     r_canonico = Some ''Ana Rodrigues'', r_minutos = 120\<rparr>"

definition registo_x_90 :: registo where
  "registo_x_90 = \<lparr>r_empresa = ''Company X'', r_empresa_norm = ''company x'', r_tipo = ''canonico'',
     r_canonico = Some ''Ana Rodrigues'', r_minutos = 90\<rparr>"

subsection \<open>Words used to state the attribution of the special marker\<close>

definition minutos_mes :: "time_record \<Rightarrow> int \<Rightarrow> int" where
  "minutos_mes reg mes = dict_get_or (meses reg) (KInt mes) 0"

definition minutos_tecnico :: "time_record \<Rightarrow> string \<Rightarrow> int \<Rightarrow> int" where
  "minutos_tecnico reg tecnico mes =
     dict_get_or (dict_get_or (case por_tecnico reg of None \<Rightarrow> [] | Some t \<Rightarrow> t) tecnico [])
       (KStr (str_int mes)) 0"

text \<open>
  The registry entry of a company is the first client whose name has the company's key;
  its recorded technician is the field \<open>tecnico\<close>, else \<open>carteira\<close>, when that is not blank.
\<close>

definition cliente_da_empresa :: "(string \<Rightarrow> string) \<Rightarrow> cliente list \<Rightarrow> string \<Rightarrow> cliente option" where
  "cliente_da_empresa nf clientes empresa_norm =
     (if empresa_norm = [] \<or> nf empresa_norm = [] then None
      else find (\<lambda>cli. truthy (nome_cliente cli) \<and> nf (the (nome_cliente cli)) = nf empresa_norm) clientes)"

definition tecnico_registado :: "cliente \<Rightarrow> string option" where
  "tecnico_registado cli =
     (let tecnico_raw = py_or (c_tecnico cli) (c_carteira cli)
      in if truthy tecnico_raw \<and> py_strip (the tecnico_raw) \<noteq> [] then tecnico_raw else None)"

definition empresa_nome_de :: "(string, string) dict \<Rightarrow> registo \<Rightarrow> string" where
  "empresa_nome_de nomes reg = dict_get_or nomes (r_empresa_norm reg) (display_de reg)"

definition registo_ou_novo :: "timings \<Rightarrow> int \<Rightarrow> string \<Rightarrow> time_record" where
  "registo_ou_novo td ano empresa = (case registo_de td ano empresa of None \<Rightarrow> novo_registo | Some r \<Rightarrow> r)"

subsection \<open>A small registry\<close>

text \<open>
  On a name without accents, punctuation or legal-form words \<open>_norm_empresa_forte\<close>
  folds the case and collapses the white space. This function does just that; it is the
  normaliser of the worked examples.
\<close>

definition norm_empresa_simples :: "string \<Rightarrow> string" where
  "norm_empresa_simples s = py_join '' '' (split_ws (py_lower s))"

definition cliente_acme :: cliente where
  "cliente_acme = \<lparr>c_nome = Some ''Acme'', c_cliente = None, c_empresa = None, c_designacao = None,
     c_tecnico = Some ''Ana Rodrigues'', c_carteira = None\<rparr>"

definition registo_marcador :: registo where
  "registo_marcador = \<lparr>r_empresa = ''Acme'', r_empresa_norm = ''acme'', r_tipo = ''armando'',
     r_canonico = None, r_minutos = 45\<rparr>"

section \<open>Durations\<close>

text \<open>
  \<open>_parse_duracao_para_minutos\<close> looks at its argument only through \<open>valor is None\<close> and
  \<open>str(valor)\<close>, so a cell value is \<open>None\<close> or the text \<open>str\<close> gives for it.

  A Python \<open>float\<close> is an IEEE double: a finite number, an infinity or NaN. A finite
  one is kept as the rational number it is. Every conversion and every product is
  rounded to the nearest double, ties to the even mantissa, as the hardware does.
\<close>

datatype excecao = ValueError | OverflowError

datatype pyfloat = Finito rat | MaisInf | MenosInf | NaN

function comprimento_bits :: "int \<Rightarrow> nat" where
  "comprimento_bits n = (if n \<le> 0 then 0 else Suc (comprimento_bits (n div 2)))"
  by pat_completeness auto
termination
  by (relation "measure nat") auto

declare comprimento_bits.simps [simp del]

definition potencia2 :: "int \<Rightarrow> rat" where
  "potencia2 e = (if 0 \<le> e then 2 ^ nat e else 1 / 2 ^ nat (- e))"

text \<open>The binary exponent of a positive number \<open>a\<close>: \<open>2^e \<le> a < 2^(e+1)\<close>.\<close>

definition expoente2 :: "rat \<Rightarrow> int" where
  "expoente2 a =
     (if 1 \<le> a then int (comprimento_bits \<lfloor>a\<rfloor>) - 1
      else let b = int (comprimento_bits \<lfloor>1 / a\<rfloor>)
           in if potencia2 (1 - b) \<le> a then 1 - b else - b)"

text \<open>\<open>round(x)\<close> with one argument: to the nearest integer, ties to the even one.\<close>

definition arredondar :: "rat \<Rightarrow> int" where
  "arredondar r = (let f = \<lfloor>r\<rfloor>; d = r - of_int f in
     if d < 1 / 2 then f else if 1 / 2 < d then f + 1 else if even f then f else f + 1)"

text \<open>
  The nearest double of a real number: 53 bits of mantissa at the number's exponent
  (not below the exponent \<open>-1022\<close> of the subnormal numbers); a result of \<open>2^1024\<close> or
  more is an infinity.
\<close>

definition float_de :: "rat \<Rightarrow> pyfloat" where
  "float_de r =
     (if r = 0 then Finito 0
      else
        let a = \<bar>r\<bar>;
            e = max (expoente2 a) (- 1022);
            q = potencia2 (e - 52);
            m = arredondar (a / q)
        in if 1023 < e \<or> (e = 1023 \<and> m = 2 ^ 53) then (if r < 0 then MenosInf else MaisInf)
           else Finito (if r < 0 then - (of_int m * q) else of_int m * q))"

definition digito_val :: "char \<Rightarrow> int" where
  "digito_val c = of_char c - 48"

definition digitos_val :: "string \<Rightarrow> int" where
  "digitos_val ds = foldl (\<lambda>a c. 10 * a + digito_val c) 0 ds"

text \<open>A \<open>digitpart\<close> of the float grammar: digits, with single underscores between them.\<close>

fun digitpart :: "string \<Rightarrow> (string \<times> string) option" where
  "digitpart [] = None"
| "digitpart (c # cs) =
     (if \<not> is_digit c then None
      else (case cs of
              u # d # rest \<Rightarrow>
                if u = CHR ''_'' \<and> is_digit d then
                  (case digitpart (d # rest) of
                     Some (ds, r) \<Rightarrow> Some (c # ds, r)
                   | None \<Rightarrow> Some ([c], cs))
                else if is_digit u then
                  (case digitpart cs of Some (ds, r) \<Rightarrow> Some (c # ds, r) | None \<Rightarrow> Some ([c], cs))
                else Some ([c], cs)
            | [d] \<Rightarrow> if is_digit d then Some ([c, d], []) else Some ([c], cs)
            | [] \<Rightarrow> Some ([c], [])))"

definition expoente :: "string \<Rightarrow> int option" where
  "expoente s = (case s of
       [] \<Rightarrow> Some 0
     | e # r \<Rightarrow>
         if e = CHR ''e'' \<or> e = CHR ''E'' then
           (case r of
              [] \<Rightarrow> None
            | sg # r' \<Rightarrow>
                if sg = CHR ''-'' then
                  (case digitpart r' of Some (ds, []) \<Rightarrow> Some (- digitos_val ds) | _ \<Rightarrow> None)
                else if sg = CHR ''+'' then
                  (case digitpart r' of Some (ds, []) \<Rightarrow> Some (digitos_val ds) | _ \<Rightarrow> None)
                else (case digitpart r of Some (ds, []) \<Rightarrow> Some (digitos_val ds) | _ \<Rightarrow> None))
         else None)"

definition potencia10 :: "int \<Rightarrow> rat" where
  "potencia10 e = (if 0 \<le> e then 10 ^ nat e else 1 / 10 ^ nat (- e))"

text \<open>The unsigned decimal part of \<open>float(s)\<close>: mantissa, optional fraction, optional exponent.\<close>

definition decimal_de :: "string \<Rightarrow> rat option" where
  "decimal_de s =
     (let (ip, r1) = (case digitpart s of Some (ds, r) \<Rightarrow> (ds, r) | None \<Rightarrow> ([], s));
          (tem_ponto, fp, r2) =
             (case r1 of
                p # r \<Rightarrow> if p = CHR ''.'' then
                           (case digitpart r of Some (ds, r') \<Rightarrow> (True, ds, r') | None \<Rightarrow> (True, [], r))
                         else (False, [], r1)
              | [] \<Rightarrow> (False, [], r1))
      in if ip = [] \<and> fp = [] then None
         else (case expoente r2 of
                 None \<Rightarrow> None
               | Some e \<Rightarrow> Some (of_int (digitos_val (ip @ fp)) * potencia10 (e - int (length fp)))))"

definition py_float :: "string \<Rightarrow> excecao + pyfloat" where
  "py_float s =
     (let t = py_strip s;
          (neg, u) = (case t of
                        c # r \<Rightarrow> if c = CHR ''-'' then (True, r) else if c = CHR ''+'' then (False, r)
                                 else (False, t)
                      | [] \<Rightarrow> (False, t));
          l = py_lower u
      in if l = ''inf'' \<or> l = ''infinity'' then Inr (if neg then MenosInf else MaisInf)
         else if l = ''nan'' then Inr NaN
         else (case decimal_de u of
                 None \<Rightarrow> Inl ValueError
               | Some r \<Rightarrow> Inr (float_de (if neg then - r else r))))"

definition py_round :: "pyfloat \<Rightarrow> excecao + int" where
  "py_round x = (case x of Finito r \<Rightarrow> Inr (arredondar r)
                 | NaN \<Rightarrow> Inl ValueError
                 | _ \<Rightarrow> Inl OverflowError)"

definition vezes60 :: "pyfloat \<Rightarrow> pyfloat" where
  "vezes60 x = (case x of Finito r \<Rightarrow> float_de (r * 60) | y \<Rightarrow> y)"

definition abs_ate_24 :: "pyfloat \<Rightarrow> bool" where
  "abs_ate_24 x = (case x of Finito r \<Rightarrow> \<bar>r\<bar> \<le> 24 | _ \<Rightarrow> False)"

text \<open>
  The two regular expressions, searched from the left:
  \<^verbatim>\<open>([0-9]+(?:[.,][0-9]+)?)\s*h\<close> and \<^verbatim>\<open>([0-9]+)\s*m\<close>. Each function returns group 1.
\<close>

definition match_h_aqui :: "string \<Rightarrow> string option" where
  "match_h_aqui s =
     (let ds = takeWhile is_digit s; r = dropWhile is_digit s in
      if ds = [] then None
      else (case r of
              c # r' \<Rightarrow>
                if (c = CHR ''.'' \<or> c = CHR '','') \<and> takeWhile is_digit r' \<noteq> [] then
                  (case dropWhile is_space (dropWhile is_digit r') of
                     x # _ \<Rightarrow> if x = CHR ''h'' then Some (ds @ [c] @ takeWhile is_digit r') else None
                   | [] \<Rightarrow> None)
                else (case dropWhile is_space r of
                        x # _ \<Rightarrow> if x = CHR ''h'' then Some ds else None
                      | [] \<Rightarrow> None)
            | [] \<Rightarrow> None))"

fun search_h :: "string \<Rightarrow> string option" where
  "search_h [] = None"
| "search_h (c # cs) = (case match_h_aqui (c # cs) of Some g \<Rightarrow> Some g | None \<Rightarrow> search_h cs)"

definition match_m_aqui :: "string \<Rightarrow> string option" where
  "match_m_aqui s =
     (let ds = takeWhile is_digit s in
      if ds = [] then None
      else (case dropWhile is_space (dropWhile is_digit s) of
              x # _ \<Rightarrow> if x = CHR ''m'' then Some ds else None
            | [] \<Rightarrow> None))"

fun search_m :: "string \<Rightarrow> string option" where
  "search_m [] = None"
| "search_m (c # cs) = (case match_m_aqui (c # cs) of Some g \<Rightarrow> Some g | None \<Rightarrow> search_m cs)"

definition virgula_ponto :: "string \<Rightarrow> string" where
  "virgula_ponto s = map (\<lambda>c. if c = CHR '','' then CHR ''.'' else c) s"

definition max0 :: "int \<Rightarrow> int" where
  "max0 n = max 0 n"

text \<open>
  \<open>_parse_duracao_para_minutos\<close>. Only \<open>ValueError\<close> is caught by the source; any other
  exception leaves the function.
\<close>

definition parse_duracao_para_minutos :: "string option \<Rightarrow> excecao + int" where
  "parse_duracao_para_minutos valor =
     (case valor of
        None \<Rightarrow> Inr 0
      | Some v \<Rightarrow>
          let s = py_strip v in
          if s = [] then Inr 0
          else
            let s_lower = py_lower s; match_h = search_h s_lower; match_m = search_m s_lower in
            if match_h \<noteq> None \<or> match_m \<noteq> None then
              (let horas_float = (case match_h of
                                    None \<Rightarrow> Finito 0
                                  | Some g \<Rightarrow> (case py_float (virgula_ponto g) of
                                                Inr x \<Rightarrow> x | Inl _ \<Rightarrow> Finito 0));
                   minutos_int = (case match_m of None \<Rightarrow> 0 | Some g \<Rightarrow> digitos_val g)
               in case py_round (vezes60 horas_float) of
                    Inl e \<Rightarrow> Inl e
                  | Inr n \<Rightarrow> Inr (max0 (n + max0 minutos_int)))
            else
              let normalizado = virgula_ponto s in
              if CHR ''.'' \<in> set normalizado then
                (case py_float normalizado of
                   Inl _ \<Rightarrow> Inr 0
                 | Inr horas \<Rightarrow>
                     if abs_ate_24 horas then
                       (case py_round (vezes60 horas) of Inl e \<Rightarrow> Inl e | Inr n \<Rightarrow> Inr (max0 n))
                     else (case py_round horas of Inl e \<Rightarrow> Inl e | Inr n \<Rightarrow> Inr (max0 n)))
              else
                (case py_float normalizado of
                   Inl _ \<Rightarrow> Inr 0
                 | Inr x \<Rightarrow> (case py_round x of
                               Inl ValueError \<Rightarrow> Inr 0
                             | Inl e \<Rightarrow> Inl e
                             | Inr n \<Rightarrow> Inr (max0 n))))"

section \<open>The legacy sheet layout\<close>

text \<open>\<open>_normalize_header\<close> and \<open>_is_linha_total\<close>: rows that only report a total are no data.\<close>

definition az09 :: "char \<Rightarrow> bool" where
  "az09 c = (let n = (of_char c :: nat) in (48 \<le> n \<and> n \<le> 57) \<or> (97 \<le> n \<and> n \<le> 122))"

text \<open>\<^verbatim>\<open>re.sub(r"[^a-z0-9]+", " ", s)\<close>: every run of other characters becomes one space.\<close>

fun sub_corridas :: "(char \<Rightarrow> bool) \<Rightarrow> bool \<Rightarrow> string \<Rightarrow> string" where
  "sub_corridas fica em_corrida [] = []"
| "sub_corridas fica em_corrida (c # cs) =
     (if fica c then c # sub_corridas fica False cs
      else if em_corrida then sub_corridas fica True cs
      else CHR '' '' # sub_corridas fica True cs)"

definition sub_nao_az09 :: "string \<Rightarrow> string" where
  "sub_nao_az09 s = sub_corridas az09 False s"

definition normalize_header :: "string option \<Rightarrow> string" where
  "normalize_header valor =
     (case valor of
        None \<Rightarrow> []
      | Some v \<Rightarrow>
          let s = py_strip v in
          if s = [] then []
          else py_strip (sub_nao_az09
                 (map (\<lambda>c. if c = CHR ''/'' then CHR '' '' else c) (py_lower (sem_acentos s)))))"

fun prefixo :: "string \<Rightarrow> string \<Rightarrow> bool" where
  "prefixo [] s = True"
| "prefixo (p # ps) [] = False"
| "prefixo (p # ps) (c # cs) = (p = c \<and> prefixo ps cs)"

fun contem :: "string \<Rightarrow> string \<Rightarrow> bool" where
  "contem kw [] = (kw = [])"
| "contem kw (c # cs) = (prefixo kw (c # cs) \<or> contem kw cs)"

definition is_linha_total :: "string option \<Rightarrow> bool" where
  "is_linha_total texto =
     (if \<not> truthy texto then False
      else let norm = normalize_header texto in
           if norm = [] then False
           else list_ex (\<lambda>kw. contem kw norm) [''total'', ''subtotal'', ''grand total'', ''soma'', ''sum''])"

text \<open>
  A row of the sheet is its first two cells, each \<open>None\<close> or its text. The state of
  \<open>_processar_sheet_workload\<close>: the results (\<open>registos\<close>, \<open>totais_fallback\<close>), the open block
  (\<open>empresa_atual\<close>, \<open>resumo_atual_min\<close>, \<open>registos_empresa\<close>) and the three reports of the caller.
\<close>

type_synonym linha = "string option \<times> string option"

record estado_folha =
  registos :: "linha_sheet list"
  totais_fallback :: "(string, int) dict"
  empresa_atual :: "string option"
  resumo_atual_min :: int
  registos_empresa :: "linha_sheet list"
  invalidos :: "(string, int) dict"
  ignorados_por_empresa :: "(string, int) dict"
  resumos_ignorados_por_empresa :: "(string, int) dict"

definition estado_inicial ::
  "(string, int) dict \<Rightarrow> (string, int) dict \<Rightarrow> (string, int) dict \<Rightarrow> estado_folha" where
  "estado_inicial invs igns ress =
     \<lparr>registos = [], totais_fallback = [], empresa_atual = None, resumo_atual_min = 0,
      registos_empresa = [], invalidos = invs, ignorados_por_empresa = igns,
      resumos_ignorados_por_empresa = ress\<rparr>"

text \<open>\<open>finalizar_empresa\<close>: what happens to a block when the next one starts or the sheet ends.\<close>

definition finalizar_empresa :: "estado_folha \<Rightarrow> estado_folha" where
  "finalizar_empresa st =
     (if \<not> truthy (empresa_atual st) then st
      else
        let emp = the (empresa_atual st);
            st1 =
              (if registos_empresa st \<noteq> [] then
                 (if 0 < resumo_atual_min st then
                    st\<lparr>ignorados_por_empresa :=
                          dict_somar emp (resumo_atual_min st) (ignorados_por_empresa st),
                        resumos_ignorados_por_empresa :=
                          dict_somar emp (resumo_atual_min st) (resumos_ignorados_por_empresa st)\<rparr>
                  else st)
                 \<lparr>registos := registos st @ registos_empresa st\<rparr>
               else if 0 < resumo_atual_min st then
                 st\<lparr>totais_fallback := dict_somar emp (resumo_atual_min st) (totais_fallback st)\<rparr>
               else st)
        in st1\<lparr>empresa_atual := None, resumo_atual_min := 0, registos_empresa := []\<rparr>)"

definition linha_ignorada :: "string \<Rightarrow> bool" where
  "linha_ignorada texto_strip =
     (py_upper texto_strip = ''EMPRESA'' \<or> py_upper texto_strip = ''TOTAL''
      \<or> is_linha_total (Some texto_strip)
      \<or> contem ''MAPA DE TEMPO TRABALHADO'' (py_upper texto_strip))"

definition indentada :: "string \<Rightarrow> bool" where
  "indentada texto = prefixo ''    '' texto"

definition processar_linha :: "linha \<Rightarrow> estado_folha \<Rightarrow> excecao + estado_folha" where
  "processar_linha row st =
     (case row of (col1, col2) \<Rightarrow>
        (case col1 of
           None \<Rightarrow> Inr st
         | Some texto \<Rightarrow>
             let texto_strip = py_strip texto in
             if texto_strip = [] then Inr st
             else if linha_ignorada texto_strip then Inr st
             else if indentada texto then
               (if \<not> truthy (empresa_atual st) then Inr st
                else (case parse_duracao_para_minutos col2 of
                        Inl e \<Rightarrow> Inl e
                      | Inr minutos \<Rightarrow>
                          if minutos \<le> 0 then Inr st
                          else (case resolver_tecnico (Some texto_strip) of (tipo, canonico) \<Rightarrow>
                            if tipo = ''desconhecido'' then
                              Inr (st\<lparr>invalidos := dict_somar texto_strip minutos (invalidos st),
                                      ignorados_por_empresa :=
                                        dict_somar (the (empresa_atual st)) minutos
                                          (ignorados_por_empresa st)\<rparr>)
                            else
                              Inr (st\<lparr>registos_empresa := registos_empresa st
                                        @ [(the (empresa_atual st), tipo, canonico, minutos)]\<rparr>))))
             else
               (case parse_duracao_para_minutos col2 of
                  Inl e \<Rightarrow> Inl e
                | Inr resumo \<Rightarrow>
                    Inr ((finalizar_empresa st)\<lparr>empresa_atual := Some texto_strip,
                                                resumo_atual_min := resumo\<rparr>))))"

fun processar_linhas :: "linha list \<Rightarrow> estado_folha \<Rightarrow> excecao + estado_folha" where
  "processar_linhas [] st = Inr st"
| "processar_linhas (row # rows) st =
     (case processar_linha row st of Inl e \<Rightarrow> Inl e | Inr st' \<Rightarrow> processar_linhas rows st')"

definition processar_sheet_workload ::
  "linha list \<Rightarrow> (string, int) dict \<Rightarrow> (string, int) dict \<Rightarrow> (string, int) dict
     \<Rightarrow> excecao + estado_folha" where
  "processar_sheet_workload sheet invs igns ress =
     (case processar_linhas sheet (estado_inicial invs igns ress) of
        Inl e \<Rightarrow> Inl e
      | Inr st \<Rightarrow> Inr (finalizar_empresa st))"

subsection \<open>Words used to state the closing of a block\<close>

text \<open>
  A row opens a block when its first cell is not blank, is not one of the ignored
  texts and is not indented; it is a technician row when it is indented instead.
\<close>

definition linha_de_empresa :: "linha \<Rightarrow> bool" where
  "linha_de_empresa row = (case row of
       (Some texto, col2) \<Rightarrow> py_strip texto \<noteq> [] \<and> \<not> linha_ignorada (py_strip texto) \<and> \<not> indentada texto
     | (None, col2) \<Rightarrow> False)"

definition linha_de_tecnico :: "linha \<Rightarrow> bool" where
  "linha_de_tecnico row = (case row of
       (Some texto, col2) \<Rightarrow> py_strip texto \<noteq> [] \<and> \<not> linha_ignorada (py_strip texto) \<and> indentada texto
     | (None, col2) \<Rightarrow> False)"

definition duracao_ok :: "linha \<Rightarrow> bool" where
  "duracao_ok row = (case parse_duracao_para_minutos (snd row) of Inr m \<Rightarrow> True | Inl e \<Rightarrow> False)"

definition minutos_linha :: "linha \<Rightarrow> int" where
  "minutos_linha row = (case parse_duracao_para_minutos (snd row) of Inr m \<Rightarrow> m | Inl e \<Rightarrow> 0)"

definition nome_linha :: "linha \<Rightarrow> string" where
  "nome_linha row = (case fst row of Some texto \<Rightarrow> py_strip texto | None \<Rightarrow> [])"

text \<open>A row is passed over when its first cell is empty, blank or one of the ignored texts.\<close>

definition linha_saltada :: "linha \<Rightarrow> bool" where
  "linha_saltada row = (case row of
       (Some texto, col2) \<Rightarrow> py_strip texto = [] \<or> linha_ignorada (py_strip texto)
     | (None, col2) \<Rightarrow> True)"

text \<open>
  A technician row counts when its minutes are positive and its name is a known one
  (a canonical alias or the special marker).
\<close>

definition linha_reconhecida :: "linha \<Rightarrow> bool" where
  "linha_reconhecida row =
     (linha_de_tecnico row \<and> 0 < minutos_linha row
      \<and> fst (resolver_tecnico (Some (nome_linha row))) \<noteq> ''desconhecido'')"

definition facto_da_linha :: "string \<Rightarrow> linha \<Rightarrow> linha_sheet" where
  "facto_da_linha emp row =
     (emp, fst (resolver_tecnico (Some (nome_linha row))), snd (resolver_tecnico (Some (nome_linha row))),
      minutos_linha row)"

text \<open>
  A block is a company row and the rows below it, up to the next company row: rows
  that are passed over and technician rows, every duration readable.
\<close>

type_synonym bloco = "linha \<times> linha list"

definition bloco_ok :: "bloco \<Rightarrow> bool" where
  "bloco_ok b = (case b of (cab, det) \<Rightarrow>
     linha_de_empresa cab \<and> duracao_ok cab \<and>
     list_all (\<lambda>row. linha_saltada row \<or> (linha_de_tecnico row \<and> duracao_ok row)) det)"

definition linhas_dos_blocos :: "bloco list \<Rightarrow> linha list" where
  "linhas_dos_blocos bls = concat (map (\<lambda>(cab, det). cab # det) bls)"

text \<open>
  The closing rule in the words of the specification, with the rows that count made
  precise: what one block adds to the facts, to the fallback totals and to the report
  of ignored summaries.
\<close>

definition fecho_esperado ::
  "bloco \<Rightarrow> linha_sheet list \<times> (string, int) dict \<times> (string, int) dict
     \<Rightarrow> linha_sheet list \<times> (string, int) dict \<times> (string, int) dict" where
  "fecho_esperado b acc = (case b of (cab, det) \<Rightarrow> case acc of (regs, totais, resumos) \<Rightarrow>
     if filter linha_reconhecida det \<noteq> [] then
       (regs @ map (facto_da_linha (nome_linha cab)) (filter linha_reconhecida det),
        totais,
        if 0 < minutos_linha cab then dict_somar (nome_linha cab) (minutos_linha cab) resumos else resumos)
     else
       (regs,
        if 0 < minutos_linha cab then dict_somar (nome_linha cab) (minutos_linha cab) totais else totais,
        resumos))"

text \<open>The three results of a sheet that the closing of a block writes to.\<close>

definition resultados_folha ::
  "estado_folha \<Rightarrow> linha_sheet list \<times> (string, int) dict \<times> (string, int) dict" where
  "resultados_folha st = (registos st, totais_fallback st, resumos_ignorados_por_empresa st)"

subsection \<open>Two small blocks\<close>

definition linha_acme :: linha where
  "linha_acme = (Some ''ACME'', Some ''100'')"

definition linha_fulano :: linha where
  "linha_fulano = (Some ''    Fulano Desconhecido'', Some ''60'')"

definition linha_ana :: linha where
  "linha_ana = (Some ''    Ana Rodrigues'', Some ''1h'')"

definition linha_beta :: linha where
  "linha_beta = (Some ''BETA'', Some ''50'')"

section \<open>Persistence\<close>

text \<open>
  \<open>_total_minutos_timings\<close> walks a Python object: the in-memory ledger, or what
  \<open>json.load\<close> returned for the old file. The model keeps of such an object what the
  function inspects. A value in the place of minutes (\<open>celula\<close>) is seen through
  \<open>valor is None\<close> and \<open>str(valor)\<close> and, for \<open>extra_mensal\<close>, through
  \<open>isinstance(valor, (int, float))\<close> and \<open>int(valor)\<close>; every other value is a dict or
  is not one. Keys play no part in the sum.
\<close>

record celula =
  cel_texto :: "string option"
  cel_numero :: "(excecao + int) option"

datatype jmeses = MesesAusente | MesesNaoDict | MesesDict "celula list"

datatype jempresa = EmpresaNaoDict | EmpresaDict jmeses "celula option"

datatype jano = AnoNaoDict | AnoDict "jempresa list"

datatype jdoc = DocNaoDict | DocDict "jano list"

text \<open>\<open>_extra_mes\<close>: a number is truncated by \<open>int\<close>; anything else is parsed, errors giving 0.\<close>

definition extra_mes :: "celula option \<Rightarrow> excecao + int" where
  "extra_mes valor =
     (case valor of
        None \<Rightarrow> Inr 0
      | Some c \<Rightarrow>
          (case cel_numero c of
             Some r \<Rightarrow> r
           | None \<Rightarrow> (case parse_duracao_para_minutos (cel_texto c) of Inl e \<Rightarrow> Inr 0 | Inr n \<Rightarrow> Inr n)))"

text \<open>Adding up, left to right; the first exception ends the sum.\<close>

fun somar_tudo :: "('a \<Rightarrow> excecao + int) \<Rightarrow> 'a list \<Rightarrow> int \<Rightarrow> excecao + int" where
  "somar_tudo f [] acc = Inr acc"
| "somar_tudo f (x # xs) acc =
     (case f x of Inl e \<Rightarrow> Inl e | Inr n \<Rightarrow> somar_tudo f xs (acc + n))"

definition total_empresa :: "jempresa \<Rightarrow> excecao + int" where
  "total_empresa empresa =
     (case empresa of
        EmpresaNaoDict \<Rightarrow> Inr 0
      | EmpresaDict ms extra \<Rightarrow>
          (case (case ms of MesesDict valores \<Rightarrow>
                         somar_tudo (\<lambda>c. parse_duracao_para_minutos (cel_texto c)) valores 0
                     | _ \<Rightarrow> Inr 0) of
             Inl e \<Rightarrow> Inl e
           | Inr t \<Rightarrow> (case extra_mes extra of Inl e \<Rightarrow> Inl e | Inr x \<Rightarrow> Inr (t + x * 12))))"

definition total_ano :: "jano \<Rightarrow> excecao + int" where
  "total_ano ano_val = (case ano_val of AnoNaoDict \<Rightarrow> Inr 0 | AnoDict emps \<Rightarrow> somar_tudo total_empresa emps 0)"

definition total_minutos_timings :: "jdoc \<Rightarrow> excecao + int" where
  "total_minutos_timings dados = (case dados of DocNaoDict \<Rightarrow> Inr 0 | DocDict anos \<Rightarrow> somar_tudo total_ano anos 0)"

text \<open>The in-memory ledger as that function sees it: whole numbers of minutes everywhere.\<close>

definition celula_int :: "int \<Rightarrow> celula" where
  "celula_int n = \<lparr>cel_texto = Some (str_int n), cel_numero = Some (Inr n)\<rparr>"

definition vista_registo :: "time_record \<Rightarrow> jempresa" where
  "vista_registo reg = EmpresaDict (MesesDict (map (\<lambda>(k, v). celula_int v) (meses reg)))
                         (Some (celula_int (extra_mensal reg)))"

definition vista :: "timings \<Rightarrow> jdoc" where
  "vista td = DocDict (map (\<lambda>(ano, ano_d). AnoDict (map (\<lambda>(nome, reg). vista_registo reg) ano_d)) td)"

text \<open>
  \<open>json.dump\<close> writes every month key as a string, so an \<open>int\<close> key and a \<open>str\<close> key
  with the same digits meet in the file, where the later one wins when it is read back.
\<close>

definition chave_json :: "pykey \<Rightarrow> string" where
  "chave_json k = (case k of KInt i \<Rightarrow> str_int i | KStr s \<Rightarrow> s)"

definition meses_gravados :: "(pykey, int) dict \<Rightarrow> (string, int) dict" where
  "meses_gravados d = fold (\<lambda>(k, v) acc. dict_set (chave_json k) v acc) d []"

definition registo_gravado :: "time_record \<Rightarrow> jempresa" where
  "registo_gravado reg = EmpresaDict (MesesDict (map (\<lambda>(k, v). celula_int v) (meses_gravados (meses reg))))
                           (Some (celula_int (extra_mensal reg)))"

definition doc_gravado :: "timings \<Rightarrow> jdoc" where
  "doc_gravado td = DocDict (map (\<lambda>(ano, ano_d). AnoDict (map (\<lambda>(nome, reg). registo_gravado reg) ano_d)) td)"

text \<open>
  The disk: the ledger file and its temporary neighbour, each absent or holding a
  content that is a readable document or not, the backups taken, and the log of the
  operations done on the two files.
\<close>

datatype conteudo = Ilegivel | Documento jdoc

datatype operacao = EscreverTmp | Substituir | RemoverTmp

record disco =
  ficheiro :: "conteudo option"
  tmp :: "conteudo option"
  copias :: "conteudo list"
  operacoes :: "operacao list"

text \<open>What the operating system does with the two writes and the removal of this call.\<close>

record sistema =
  escrita_ok :: bool
  tmp_criado :: bool
  replace_ok :: bool
  remover_ok :: bool
  copia_ok :: bool

definition total_anterior_de :: "disco \<Rightarrow> int option" where
  "total_anterior_de d =
     (case ficheiro d of
        None \<Rightarrow> None
      | Some Ilegivel \<Rightarrow> None
      | Some (Documento antigo) \<Rightarrow>
          (case total_minutos_timings antigo of Inl e \<Rightarrow> None | Inr t \<Rightarrow> Some t))"

definition limpar_tmp :: "sistema \<Rightarrow> disco \<Rightarrow> disco" where
  "limpar_tmp io d =
     (if tmp d \<noteq> None \<and> remover_ok io then d\<lparr>tmp := None, operacoes := operacoes d @ [RemoverTmp]\<rparr> else d)"

definition escrever_ficheiro :: "sistema \<Rightarrow> timings \<Rightarrow> disco \<Rightarrow> disco \<times> bool" where
  "escrever_ficheiro io td d =
     (if \<not> escrita_ok io then
        (limpar_tmp io (if tmp_criado io then d\<lparr>tmp := Some Ilegivel, operacoes := operacoes d @ [EscreverTmp]\<rparr>
                        else d), False)
      else
        let d1 = d\<lparr>tmp := Some (Documento (doc_gravado td)), operacoes := operacoes d @ [EscreverTmp]\<rparr>
        in if replace_ok io then
             (d1\<lparr>ficheiro := tmp d1, tmp := None, operacoes := operacoes d1 @ [Substituir]\<rparr>, True)
           else (limpar_tmp io d1, False))"

text \<open>
  The test \<open>novo_total < total_anterior * 0.5\<close>. The product converts the old total, an
  \<open>int\<close>, to the nearest double, which raises \<open>OverflowError\<close> when that is no finite
  double, and multiplies it by one half, rounding again. Python compares the \<open>int\<close>
  with the double by their exact values.
\<close>

definition guarda_rejeita :: "int \<Rightarrow> int \<Rightarrow> excecao + bool" where
  "guarda_rejeita novo_total total_anterior =
     (case float_de (of_int total_anterior) of
        Finito f \<Rightarrow>
          (case float_de (f * (1 / 2)) of
             Finito h \<Rightarrow> Inr (of_int novo_total < h)
           | MaisInf \<Rightarrow> Inr True
           | _ \<Rightarrow> Inr False)
      | _ \<Rightarrow> Inl OverflowError)"

text \<open>
  \<open>_guardar_timings_para_ficheiro\<close>. An exception leaves the function before any file
  is touched.
\<close>

definition guardar_timings_para_ficheiro :: "sistema \<Rightarrow> timings \<Rightarrow> disco \<Rightarrow> excecao + disco \<times> bool" where
  "guardar_timings_para_ficheiro io td d =
     (case total_minutos_timings (vista td) of
        Inl e \<Rightarrow> Inl e
      | Inr novo_total \<Rightarrow>
          (case total_anterior_de d of
             None \<Rightarrow> Inr (escrever_ficheiro io td d)
           | Some total_anterior \<Rightarrow>
               if total_anterior \<noteq> 0 \<and> 0 < total_anterior then
                 (case guarda_rejeita novo_total total_anterior of
                    Inl e \<Rightarrow> Inl e
                  | Inr rejeita \<Rightarrow> if rejeita then Inr (d, False) else Inr (escrever_ficheiro io td d))
               else Inr (escrever_ficheiro io td d)))"

text \<open>
  \<open>_persistir_timings\<close>: a backup first when one is due and the file exists, then the
  save. The process state is the ledger in memory, the backup flag and the disk; it is
  returned also when the save raises, since what was done before stays done.
\<close>

record processo =
  timings_dados :: timings
  precisa_backup :: bool
  o_disco :: disco

definition copia_de_seguranca :: "sistema \<Rightarrow> processo \<Rightarrow> processo" where
  "copia_de_seguranca io p =
     (if precisa_backup p \<and> ficheiro (o_disco p) \<noteq> None \<and> copia_ok io then
        p\<lparr>o_disco := (o_disco p)\<lparr>copias := copias (o_disco p) @ [the (ficheiro (o_disco p))]\<rparr>,
          precisa_backup := False\<rparr>
      else p)"

definition persistir_timings :: "sistema \<Rightarrow> processo \<Rightarrow> processo \<times> (excecao + bool)" where
  "persistir_timings io p =
     (let p1 = copia_de_seguranca io p
      in case guardar_timings_para_ficheiro io (timings_dados p1) (o_disco p1) of
           Inl e \<Rightarrow> (p1, Inl e)
         | Inr (d, guardado) \<Rightarrow> (p1\<lparr>o_disco := d\<rparr>, Inr guardado))"

text \<open>
  \<open>limpar_timings\<close>: without the confirmation word the request is refused (HTTP 400);
  with it the ledger in memory is emptied and then persisted.
\<close>

datatype resposta = Recusado | Redirecionado

definition limpar_timings :: "sistema \<Rightarrow> string \<Rightarrow> processo \<Rightarrow> processo \<times> (excecao + resposta)" where
  "limpar_timings io confirm_limpar p =
     (if confirm_limpar \<noteq> ''APAGAR'' then (p, Inr Recusado)
      else (case persistir_timings io (p\<lparr>timings_dados := []\<rparr>) of
              (p', Inl e) \<Rightarrow> (p', Inl e)
            | (p', Inr guardado) \<Rightarrow> (p', Inr Redirecionado)))"

subsection \<open>A small disk\<close>

definition td_pequeno :: timings where
  "td_pequeno = [(''2025'', [(''Acme'',
      \<lparr>meses = [(KInt 1, 10)], extra_mensal = 0, apagado = False, por_tecnico = Some []\<rparr>)])]"

definition doc_de_total :: "int \<Rightarrow> jdoc" where
  "doc_de_total n = DocDict [AnoDict [EmpresaDict (MesesDict [celula_int n]) None]]"

definition disco_com :: "int \<Rightarrow> disco" where
  "disco_com n = \<lparr>ficheiro = Some (Documento (doc_de_total n)), tmp = None, copias = [], operacoes = []\<rparr>"

definition sistema_ok :: sistema where
  "sistema_ok = \<lparr>escrita_ok = True, tmp_criado = True, replace_ok = True, remover_ok = True, copia_ok = True\<rparr>"

definition processo_pequeno :: processo where
  "processo_pequeno = \<lparr>timings_dados = td_pequeno, precisa_backup = False, o_disco = disco_com 100\<rparr>"

text \<open>
  A ledger of \<open>6 * 10^15\<close> minutes in memory (twelve times a monthly extra), and an old
  file of \<open>12 * 10^15 + 1\<close> minutes: one month of one minute and a monthly extra of
  \<open>10^15\<close>.
\<close>

definition td_grande :: timings where
  "td_grande = [(''2025'', [(''Acme'',
      \<lparr>meses = [], extra_mensal = 500000000000000, apagado = False, por_tecnico = Some []\<rparr>)])]"

definition doc_grande :: jdoc where
  "doc_grande = DocDict [AnoDict [EmpresaDict (MesesDict [celula_int 1])
                                     (Some (celula_int 1000000000000000))]]"

definition disco_grande :: disco where
  "disco_grande = \<lparr>ficheiro = Some (Documento doc_grande), tmp = None, copias = [], operacoes = []\<rparr>"

text \<open>An old file whose only company has the integer \<open>2^1024\<close> as \<open>extra_mensal\<close> and no months.\<close>

definition doc_enorme :: jdoc where
  "doc_enorme = DocDict [AnoDict [EmpresaDict MesesAusente
      (Some \<lparr>cel_texto = Some (str_int (2 ^ 1024)), cel_numero = Some (Inr (2 ^ 1024))\<rparr>)]]"

definition processo_enorme :: processo where
  "processo_enorme = \<lparr>timings_dados = td_pequeno, precisa_backup = False,
      o_disco = \<lparr>ficheiro = Some (Documento doc_enorme), tmp = None, copias = [], operacoes = []\<rparr>\<rparr>"

section \<open>Matching a client name with the ledger\<close>

text \<open>\<open>normalizar_nome\<close> of \<open>relacao_tecnicos.py\<close>: capitals and digits, single spaces between.\<close>

definition AZ09 :: "char \<Rightarrow> bool" where
  "AZ09 c = (let n = (of_char c :: nat) in (48 \<le> n \<and> n \<le> 57) \<or> (65 \<le> n \<and> n \<le> 90))"

definition normalizar_nome :: "string option \<Rightarrow> string" where
  "normalizar_nome valor =
     (case valor of
        None \<Rightarrow> []
      | Some v \<Rightarrow> py_strip (sub_corridas AZ09 False (py_upper (sem_acentos (py_strip v)))))"

definition STOP_TOKENS :: "string list" where
  "STOP_TOKENS = [''LDA'', ''LTD'', ''LTDA'', ''SA'', ''SOCIEDADE'', ''UNIPESSOAL'', ''UNIP'', ''E'', ''ME'',
     ''LDA.'', ''LDA,'', ''LDA;'', ''UNIPESSOAL,'', ''UNIPESSOAL;'']"

definition tokens_relevantes :: "string \<Rightarrow> string list" where
  "tokens_relevantes nrm =
     filter (\<lambda>t. t \<noteq> [] \<and> t \<notin> set STOP_TOKENS) (map py_strip (split_ws nrm))"

text \<open>
  \<open>_construir_indice_timings\<close>: for the records that are not deleted, the original names
  under each normalised key, the records by original name, the keys in order and the
  tokens of each key.
\<close>

record indice =
  map_norm :: "(string, string list) dict"
  original_map :: "(string, time_record) dict"
  tokens_por_norm :: "(string, string list) dict"

definition indexar :: "string \<times> time_record \<Rightarrow> indice \<Rightarrow> indice" where
  "indexar item ix = (case item of (empresa, reg) \<Rightarrow>
     if apagado reg then ix
     else
       let ix1 = ix\<lparr>original_map := dict_set empresa reg (original_map ix)\<rparr>;
           chave_norm = normalizar_nome (Some empresa)
       in if chave_norm = [] then ix1
          else ix1\<lparr>map_norm := dict_set chave_norm (dict_get_or (map_norm ix1) chave_norm [] @ [empresa])
                                  (map_norm ix1),
                   tokens_por_norm := dict_setdefault chave_norm (tokens_relevantes chave_norm)
                                        (tokens_por_norm ix1)\<rparr>)"

definition construir_indice_timings :: "ano_dict \<Rightarrow> indice" where
  "construir_indice_timings ano_d =
     fold indexar ano_d \<lparr>map_norm = [], original_map = [], tokens_por_norm = []\<rparr>"

definition norm_keys :: "indice \<Rightarrow> string list" where
  "norm_keys ix = map fst (map_norm ix)"

text \<open>
  The similarity of two texts is \<open>difflib.SequenceMatcher(None, a, b).ratio()\<close>, a function
  of the Python library: it is the parameter \<open>ratio\<close> of the matcher. Scores are exact
  rationals; the rounding of the float subtraction in the margin test is not modelled.

  \<open>_escolher_original\<close>: of several original names the one closest to the client's name,
  the first one on a tie.
\<close>

fun melhor_ratio :: "(string \<Rightarrow> string \<Rightarrow> rat) \<Rightarrow> string \<Rightarrow> string list \<Rightarrow> string \<Rightarrow> rat \<Rightarrow> string" where
  "melhor_ratio ratio alvo [] melhor melhor_r = melhor"
| "melhor_ratio ratio alvo (c # cs) melhor melhor_r =
     (let r = ratio alvo (py_upper (py_strip c)) in
      if melhor_r < r then melhor_ratio ratio alvo cs c r
      else melhor_ratio ratio alvo cs melhor melhor_r)"

definition escolher_original ::
  "(string \<Rightarrow> string \<Rightarrow> rat) \<Rightarrow> string \<Rightarrow> string list \<Rightarrow> string option" where
  "escolher_original ratio nome_cli candidatos =
     (case candidatos of
        [] \<Rightarrow> None
      | [c] \<Rightarrow> Some c
      | c # _ \<Rightarrow> Some (melhor_ratio ratio (py_upper (py_strip nome_cli)) candidatos c (- 1)))"

text \<open>Tier 2: the keys whose tokens include the client's tokens, or the other way round.\<close>

definition candidatos_inclusao ::
  "(string \<Rightarrow> string \<Rightarrow> rat) \<Rightarrow> indice \<Rightarrow> string \<Rightarrow> (string \<times> rat \<times> nat) list" where
  "candidatos_inclusao ratio ix nome_norm =
     (let nome_tokens = tokens_relevantes nome_norm in
      if nome_tokens = [] then []
      else concat (map (\<lambda>chave_norm.
             let toks = dict_get_or (tokens_por_norm ix) chave_norm [] in
             if toks = [] then []
             else if set nome_tokens \<subseteq> set toks \<or> set toks \<subseteq> set nome_tokens then
               [(chave_norm, ratio nome_norm chave_norm, card (set nome_tokens \<inter> set toks))]
             else []) (norm_keys ix)))"

text \<open>The sort key of \<open>max\<close>: overlap, then ratio, then the length of the key.\<close>

definition chave_max :: "string \<times> rat \<times> nat \<Rightarrow> string \<times> rat \<times> nat \<Rightarrow> bool" where
  "chave_max x y = (case x of (kx, rx, ox) \<Rightarrow> case y of (ky, ry, oy) \<Rightarrow>
     ox < oy \<or> (ox = oy \<and> (rx < ry \<or> (rx = ry \<and> length kx < length ky))))"

text \<open>Python's \<open>max\<close>: the first of the greatest elements.\<close>

fun py_max :: "('a \<Rightarrow> 'a \<Rightarrow> bool) \<Rightarrow> 'a \<Rightarrow> 'a list \<Rightarrow> 'a" where
  "py_max menor m [] = m"
| "py_max menor m (x # xs) = (if menor m x then py_max menor x xs else py_max menor m xs)"

text \<open>
  Tier 3. \<open>difflib.get_close_matches(word, possibilities, n=20, cutoff=0.80)\<close> keeps the
  possibilities whose ratio to the word (the possibility first) reaches the cutoff and
  returns the 20 best, ordered by score and then by the text, greatest first.
\<close>

fun texto_menor :: "string \<Rightarrow> string \<Rightarrow> bool" where
  "texto_menor [] [] = False"
| "texto_menor [] (y # ys) = True"
| "texto_menor (x # xs) [] = False"
| "texto_menor (x # xs) (y # ys) =
     ((of_char x :: nat) < of_char y \<or> (x = y \<and> texto_menor xs ys))"

fun inserir_por :: "('a \<Rightarrow> 'a \<Rightarrow> bool) \<Rightarrow> 'a \<Rightarrow> 'a list \<Rightarrow> 'a list" where
  "inserir_por antes x [] = [x]"
| "inserir_por antes x (y # ys) = (if antes x y then x # y # ys else y # inserir_por antes x ys)"

definition ordenar_por :: "('a \<Rightarrow> 'a \<Rightarrow> bool) \<Rightarrow> 'a list \<Rightarrow> 'a list" where
  "ordenar_por antes xs = fold (inserir_por antes) xs []"

definition get_close_matches ::
  "(string \<Rightarrow> string \<Rightarrow> rat) \<Rightarrow> string \<Rightarrow> string list \<Rightarrow> string list" where
  "get_close_matches ratio word possibilities =
     map snd (take 20 (ordenar_por (\<lambda>(s1, x1) (s2, x2). s2 < s1 \<or> (s1 = s2 \<and> texto_menor x2 x1))
        (concat (map (\<lambda>x. if 4 / 5 \<le> ratio x word then [(ratio x word, x)] else []) possibilities))))"

definition candidatos_fuzzy :: "(string \<Rightarrow> string \<Rightarrow> rat) \<Rightarrow> indice \<Rightarrow> string \<Rightarrow> string list" where
  "candidatos_fuzzy ratio ix nome_norm =
     (let close = get_close_matches ratio nome_norm (norm_keys ix)
      in if close \<noteq> [] then close else take 200 (norm_keys ix))"

text \<open>\<open>ratios.sort(key=..., reverse=True)\<close>: by score, greatest first, equal scores in their order.\<close>

definition ratios_ordenados ::
  "(string \<Rightarrow> string \<Rightarrow> rat) \<Rightarrow> indice \<Rightarrow> string \<Rightarrow> (string \<times> rat) list" where
  "ratios_ordenados ratio ix nome_norm =
     ordenar_por (\<lambda>(k1, s1) (k2, s2). s2 < s1)
       (map (\<lambda>k. (k, ratio nome_norm k)) (candidatos_fuzzy ratio ix nome_norm))"

definition debug_top3 ::
  "(string \<Rightarrow> string \<Rightarrow> rat) \<Rightarrow> indice \<Rightarrow> string \<Rightarrow> (string \<times> rat) list \<Rightarrow> (string \<times> rat) list" where
  "debug_top3 ratio ix nome_original ratios =
     map (\<lambda>(k, sc).
        let bucket_k = dict_get_or (map_norm ix) k [] in
        (case escolher_original ratio nome_original bucket_k of
           Some c \<Rightarrow> if c \<noteq> [] then c else (case bucket_k of b # _ \<Rightarrow> b | [] \<Rightarrow> k)
         | None \<Rightarrow> (case bucket_k of b # _ \<Rightarrow> b | [] \<Rightarrow> k), sc)) (take 3 ratios)"

definition aceite_fuzzy :: "(string \<times> rat) list \<Rightarrow> bool" where
  "aceite_fuzzy ratios =
     (case ratios of
        [] \<Rightarrow> False
      | (best_k, best_sc) # resto \<Rightarrow>
          let second_sc = (case resto of [] \<Rightarrow> 0 | (k2, sc2) # _ \<Rightarrow> sc2) in
          23 / 25 \<le> best_sc \<and> (resto = [] \<or> 3 / 100 \<le> best_sc - second_sc))"

text \<open>What a tier returns when the chosen original name has a record.\<close>

definition devolver ::
  "indice \<Rightarrow> string \<Rightarrow> string option \<Rightarrow> (time_record option \<times> string \<times> string option \<times> (string \<times> rat) list) option" where
  "devolver ix tier chosen =
     (case chosen of
        None \<Rightarrow> None
      | Some c \<Rightarrow> if c = [] then None
                  else (case dict_get (original_map ix) c of
                          None \<Rightarrow> None
                        | Some reg \<Rightarrow> Some (Some reg, tier, Some c, [])))"

definition tier_exato ::
  "(string \<Rightarrow> string \<Rightarrow> rat) \<Rightarrow> indice \<Rightarrow> string \<Rightarrow> string
     \<Rightarrow> (time_record option \<times> string \<times> string option \<times> (string \<times> rat) list) option" where
  "tier_exato ratio ix nome_original nome_norm =
     (case dict_get (map_norm ix) nome_norm of
        None \<Rightarrow> None
      | Some bucket \<Rightarrow> if bucket = [] then None
                       else devolver ix ''exact'' (escolher_original ratio nome_original bucket))"

definition tier_inclusao ::
  "(string \<Rightarrow> string \<Rightarrow> rat) \<Rightarrow> indice \<Rightarrow> string \<Rightarrow> string
     \<Rightarrow> (time_record option \<times> string \<times> string option \<times> (string \<times> rat) list) option" where
  "tier_inclusao ratio ix nome_original nome_norm =
     (case candidatos_inclusao ratio ix nome_norm of
        [] \<Rightarrow> None
      | c # cs \<Rightarrow>
          let chave_escolhida = fst (py_max chave_max c cs) in
          devolver ix ''inclusao''
            (escolher_original ratio nome_original (dict_get_or (map_norm ix) chave_escolhida [])))"

definition tier_fuzzy ::
  "(string \<Rightarrow> string \<Rightarrow> rat) \<Rightarrow> indice \<Rightarrow> string \<Rightarrow> string
     \<Rightarrow> (time_record option \<times> string \<times> string option \<times> (string \<times> rat) list) option" where
  "tier_fuzzy ratio ix nome_original nome_norm =
     (let ratios = ratios_ordenados ratio ix nome_norm in
      if aceite_fuzzy ratios then
        devolver ix ''fuzzy''
          (escolher_original ratio nome_original (dict_get_or (map_norm ix) (fst (hd ratios)) []))
      else None)"

definition match_timings ::
  "(string \<Rightarrow> string \<Rightarrow> rat) \<Rightarrow> string \<Rightarrow> ano_dict
     \<Rightarrow> time_record option \<times> string \<times> string option \<times> (string \<times> rat) list" where
  "match_timings ratio nome_cli ano_d =
     (if ano_d = [] then (None, ''none'', None, [])
      else
        let nome_original = py_strip nome_cli;
            nome_norm = normalizar_nome (Some nome_original)
        in if nome_norm = [] then (None, ''none'', None, [])
           else
             let ix = construir_indice_timings ano_d in
             (case tier_exato ratio ix nome_original nome_norm of
                Some r \<Rightarrow> r
              | None \<Rightarrow>
                  (case tier_inclusao ratio ix nome_original nome_norm of
                     Some r \<Rightarrow> r
                   | None \<Rightarrow>
                       (case tier_fuzzy ratio ix nome_original nome_norm of
                          Some r \<Rightarrow> r
                        | None \<Rightarrow> (None, ''none'', None,
                                    debug_top3 ratio ix nome_original
                                      (ratios_ordenados ratio ix nome_norm))))))"

subsection \<open>The library's similarity, for the worked examples\<close>

text \<open>
  \<open>SequenceMatcher.ratio\<close> on texts shorter than 200 characters, where the junk
  heuristic of \<open>difflib\<close> is idle: the longest common block (the earliest in the first
  text, then the earliest in the second), then the same to its left and to its right;
  the ratio is twice the number of matched characters over the two lengths.
\<close>

fun prefixo_comum :: "string \<Rightarrow> string \<Rightarrow> nat" where
  "prefixo_comum (x # xs) (y # ys) = (if x = y then Suc (prefixo_comum xs ys) else 0)"
| "prefixo_comum xs ys = 0"

fun melhor_j :: "string \<Rightarrow> string \<Rightarrow> nat \<Rightarrow> nat \<times> nat \<Rightarrow> nat \<times> nat" where
  "melhor_j a [] j best = best"
| "melhor_j a (y # ys) j best =
     (let k = prefixo_comum a (y # ys)
      in melhor_j a ys (Suc j) (if snd best < k then (j, k) else best))"

fun melhor_i :: "string \<Rightarrow> string \<Rightarrow> nat \<Rightarrow> nat \<times> nat \<times> nat \<Rightarrow> nat \<times> nat \<times> nat" where
  "melhor_i [] b i best = best"
| "melhor_i (x # xs) b i best =
     (let (j, k) = melhor_j (x # xs) b 0 (0, 0)
      in melhor_i xs b (Suc i) (if snd (snd best) < k then (i, j, k) else best))"

definition find_longest_match :: "string \<Rightarrow> string \<Rightarrow> nat \<times> nat \<times> nat" where
  "find_longest_match a b = melhor_i a b 0 (0, 0, 0)"

function blocos :: "string \<Rightarrow> string \<Rightarrow> nat" where
  "blocos a b =
     (case find_longest_match a b of (i, j, k) \<Rightarrow>
        if k = 0 \<or> length a < i + k \<or> length b < j + k then 0
        else k + blocos (take i a) (take j b) + blocos (drop (i + k) a) (drop (j + k) b))"
  by pat_completeness auto
termination
  by (relation "measure (\<lambda>(a, b). length a + length b)") auto

declare blocos.simps [simp del]

definition sm_ratio :: "string \<Rightarrow> string \<Rightarrow> rat" where
  "sm_ratio a b =
     (if length a + length b = 0 then 1
      else 2 * of_nat (blocos a b) / of_nat (length a + length b))"

subsection \<open>Two small ledgers\<close>

definition registo_de_minutos :: "int \<Rightarrow> time_record" where
  "registo_de_minutos n = \<lparr>meses = [(KInt 1, n)], extra_mensal = 0, apagado = False, por_tecnico = Some []\<rparr>"

definition ano_x :: ano_dict where
  "ano_x = [(''X ME'', registo_de_minutos 10), (''X LTDA E'', registo_de_minutos 20),
            (''Lda'', registo_de_minutos 30)]"

definition ano_acmme :: ano_dict where
  "ano_acmme = [(''Acmme Lda'', registo_de_minutos 10), (''Zeta'', registo_de_minutos 20)]"

subsection \<open>The name a registry technician is booked under\<close>

text \<open>
  The canonical identity when the registry name is a known alias; the bucket
  \<open>Sem t\<close>\<open>cnico\<close> (no technician) when the registry name is itself a spelling of the
  special marker; the registry name as written, without surrounding blanks, when it is
  unknown.
\<close>

definition nome_atribuido :: "string \<Rightarrow> string" where
  "nome_atribuido t =
     (case resolver_tecnico (Some t) of (tipo, can) \<Rightarrow>
        if tipo = ''canonico'' then (case can of Some c \<Rightarrow> c | None \<Rightarrow> [])
        else if tipo = ''armando'' then sem_tecnico
        else py_strip t)"

definition cliente_com_tecnico :: "string \<Rightarrow> cliente" where
  "cliente_com_tecnico t = \<lparr>c_nome = Some ''Acme'', c_cliente = None, c_empresa = None,
     c_designacao = None, c_tecnico = Some t, c_carteira = None\<rparr>"

section \<open>Facts about dicts\<close>

lemma dict_get_set_same [simp]: "dict_get (dict_set k v d) k = Some v"
  by (induction d) auto

lemma dict_get_set_other [simp]: "k' \<noteq> k \<Longrightarrow> dict_get (dict_set k v d) k' = dict_get d k'"
  by (induction d) auto

lemma dict_get_or_set_same [simp]: "dict_get_or (dict_set k v d) k x = v"
  by (simp add: dict_get_or_def)

section \<open>Facts about booking\<close>

lemma registo_de_adicionar:
  "0 < minutos \<Longrightarrow>
   registo_de (adicionar_tempo_empresa ano mes empresa minutos tecnico td) ano empresa =
     Some (adicionar_registo mes minutos tecnico
             (case registo_de td ano empresa of None \<Rightarrow> novo_registo | Some r \<Rightarrow> r))"
  by (simp add: registo_de_def adicionar_tempo_empresa_def obter_ano_dict_def Let_def dict_get_or_def
           split: option.splits)

lemma apagado_adicionar_registo [simp]: "\<not> apagado (adicionar_registo mes minutos tecnico r)"
  by (simp add: adicionar_registo_def Let_def)

lemma registo_de_excluir:
  "\<exists>r. registo_de (excluir_timing_empresa ano empresa td) ano empresa = Some r \<and> apagado r"
  by (simp add: registo_de_def excluir_timing_empresa_def Let_def split: option.splits)

section \<open>Facts about strings and the alias table\<close>

lemma py_strip_borda:
  "py_strip s = [] \<or> (\<not> is_space (hd (py_strip s)) \<and> \<not> is_space (last (py_strip s)))"
proof -
  let ?t = "dropWhile is_space s"
  let ?u = "dropWhile is_space (rev ?t)"
  show ?thesis
  proof (cases "?u = []")
    case True
    then show ?thesis by (simp add: py_strip_def)
  next
    case False
    have tne: "?t \<noteq> []"
    proof
      assume "?t = []"
      then have "?u = []" by (simp only: rev.simps dropWhile.simps)
      with False show False by blast
    qed
    have l: "\<not> is_space (hd ?u)" using False by (rule hd_dropWhile)
    have h: "\<not> is_space (hd ?t)" using tne by (rule hd_dropWhile)
    have "rev ?t = takeWhile is_space (rev ?t) @ ?u" by simp
    then have "?t = rev ?u @ rev (takeWhile is_space (rev ?t))"
      by (metis rev_append rev_rev_ident)
    with False have "hd ?t = hd (rev ?u)" by (metis hd_append2 rev_is_Nil_conv)
    with h l False show ?thesis by (simp add: py_strip_def last_rev)
  qed
qed

lemma py_strip_fix:
  "s = [] \<or> (\<not> is_space (hd s) \<and> \<not> is_space (last s)) \<Longrightarrow> py_strip s = s"
proof (cases "s = []")
  case True
  then show ?thesis by (simp add: py_strip_def)
next
  case False
  assume "s = [] \<or> (\<not> is_space (hd s) \<and> \<not> is_space (last s))"
  with False have a: "\<not> is_space (hd s)" and b: "\<not> is_space (last s)" by auto
  from False a have "dropWhile is_space s = s" by (cases s) auto
  moreover from False b have "dropWhile is_space (rev s) = rev s"
    by (cases "rev s") (auto simp: last_rev [symmetric] simp del: last_rev)
  ultimately show ?thesis by (simp add: py_strip_def)
qed

lemma py_strip_idem [simp]: "py_strip (py_strip s) = py_strip s"
  by (rule py_strip_fix) (rule py_strip_borda)

lemma ALIASES_CANONICOS_val:
  "ALIASES_CANONICOS =
    [(''PEDRO FERNANDES'', ''Pedro Fernandes''),
     (''PEDRO MIGUEL SILVA FERNANDES'', ''Pedro Fernandes''),
     (''ANA RODRIGUES'', ''Ana Rodrigues''),
     (''ANA CATARINA LOURENCO RODRIGUES'', ''Ana Rodrigues''),
     (''ANA CATARINA LORENCO RODRIGUES'', ''Ana Rodrigues''),
     (''DANIELA FERNANDES'', ''Daniela Fernandes''),
     (''MARTA DANIELA FRANCISCO FERNANDES'', ''Daniela Fernandes''),
     (''DANIELA FRANCISCO FERNANDES'', ''Daniela Fernandes''),
     (''CELINE SANTOS'', ''Celine Santos''), (''CELINE'', ''Celine Santos''),
     (''CELINE RODRIGUES SANTOS'', ''Celine Santos''),
     (''ANTONIO CANDIDO GONCALVES DIAS'', ''Celine Santos''),
     (''M ALBERTINA ALVES'', ''M Albertina Alves''),
     (''MARIA ALBERTINA PEREIRA ALVES'', ''M Albertina Alves''),
     (''M LUZIA MOREIRA'', ''M Luzia Moreira''),
     (''LUZIA MARIA GONCALVES MOREIRA'', ''M Luzia Moreira''),
     (''JOAO PEDRO ALVES'', joao_pedro_alves),
     (''JOAO PEDRO GONCALVES ALVES'', joao_pedro_alves)]"
  by code_simp

lemma ARMANDO_NORMS_val:
  "ARMANDO_NORMS = [''ARMANDO PALHAO DIAS'', ''ARMANDO PALHAO DIAS'', ''ARMANDO DIAS'']"
  by code_simp

lemma norm_canonicos:
  "norm_nome_forte (Some ''Pedro Fernandes'') = ''PEDRO FERNANDES''"
  "norm_nome_forte (Some ''Ana Rodrigues'') = ''ANA RODRIGUES''"
  "norm_nome_forte (Some ''Daniela Fernandes'') = ''DANIELA FERNANDES''"
  "norm_nome_forte (Some ''Celine Santos'') = ''CELINE SANTOS''"
  "norm_nome_forte (Some ''M Albertina Alves'') = ''M ALBERTINA ALVES''"
  "norm_nome_forte (Some ''M Luzia Moreira'') = ''M LUZIA MOREIRA''"
  "norm_nome_forte (Some joao_pedro_alves) = ''JOAO PEDRO ALVES''"
  by code_simp+

lemma joao_nao_vazio [simp]: "joao_pedro_alves \<noteq> []"
  by (simp add: joao_pedro_alves_def)

lemma canonico_fixo:
  "c \<in> {''Pedro Fernandes'', ''Ana Rodrigues'', ''Daniela Fernandes'', ''Celine Santos'',
         ''M Albertina Alves'', ''M Luzia Moreira'', joao_pedro_alves}
   \<Longrightarrow> resolver_tecnico (Some c) = (''canonico'', Some c)"
  by (elim insertE emptyE)
     (simp_all add: resolver_tecnico_def norm_canonicos ALIASES_CANONICOS_val ARMANDO_NORMS_val)

section \<open>Facts about the disk\<close>

lemma total_anterior_documento:
  "ficheiro d = Some (Documento antigo) \<Longrightarrow> total_minutos_timings antigo = Inr T \<Longrightarrow>
   total_anterior_de d = Some T"
  by (simp add: total_anterior_de_def)

lemma total_anterior_Some:
  "total_anterior_de d = Some T \<Longrightarrow>
   \<exists>antigo. ficheiro d = Some (Documento antigo) \<and> total_minutos_timings antigo = Inr T"
  by (auto simp: total_anterior_de_def split: option.splits conteudo.splits sum.splits)

lemma totais_pequenos:
  "total_minutos_timings (vista td_pequeno) = Inr 10"
  "total_minutos_timings (doc_de_total 100) = Inr 100"
  "total_minutos_timings (doc_de_total 15) = Inr 15"
  by code_simp+

section \<open>Evaluations used by the worked examples\<close>

lemma avaliacao_acme:
  "py_strip ''ACME'' = ''ACME''" "\<not> linha_ignorada ''ACME''" "\<not> indentada ''ACME''"
  "parse_duracao_para_minutos (Some ''100'') = Inr 100"
  by code_simp+

lemma avaliacao_fulano:
  "py_strip ''    Fulano Desconhecido'' = ''Fulano Desconhecido''"
  "\<not> linha_ignorada ''Fulano Desconhecido''" "indentada ''    Fulano Desconhecido''"
  "parse_duracao_para_minutos (Some ''60'') = Inr 60"
  "norm_nome_forte (Some ''Fulano Desconhecido'') = ''FULANO DESCONHECIDO''"
  by code_simp+

lemma avaliacao_ana:
  "py_strip ''    Ana Rodrigues'' = ''Ana Rodrigues''"
  "\<not> linha_ignorada ''Ana Rodrigues''" "indentada ''    Ana Rodrigues''"
  "parse_duracao_para_minutos (Some ''1h'') = Inr 60"
  by code_simp+

lemma avaliacao_beta:
  "py_strip ''BETA'' = ''BETA''" "\<not> linha_ignorada ''BETA''" "\<not> indentada ''BETA''"
  "parse_duracao_para_minutos (Some ''50'') = Inr 50"
  by code_simp+

lemma resolver_fulano: "resolver_tecnico (Some ''Fulano Desconhecido'') = (''desconhecido'', None)"
  by (simp add: resolver_tecnico_def avaliacao_fulano ALIASES_CANONICOS_val ARMANDO_NORMS_val)

lemma resolver_ana: "resolver_tecnico (Some ''Ana Rodrigues'') = (''canonico'', Some ''Ana Rodrigues'')"
  by (rule canonico_fixo) simp

section \<open>Facts about the nearest double\<close>

text \<open>The bit length of a positive integer, and the exponent of a number of at least 1.\<close>

lemma comprimento_bits_limites:
  "0 < n \<Longrightarrow> 0 < comprimento_bits n \<and> 2 ^ (comprimento_bits n - 1) \<le> n \<and> n < 2 ^ comprimento_bits n"
proof (induction n rule: comprimento_bits.induct)
  case (1 n)
  show ?case
  proof (cases "n = 1")
    case True
    have "comprimento_bits 1 = 1"
      by (simp add: comprimento_bits.simps [of 1] comprimento_bits.simps [of 0])
    with True show ?thesis by simp
  next
    case False
    with "1.prems" have h: "0 < n div 2" by simp
    from "1.prems" have n: "\<not> n \<le> 0" by simp
    from "1.IH" [OF n h] have
      a: "0 < comprimento_bits (n div 2)"
      and b: "2 ^ (comprimento_bits (n div 2) - 1) \<le> n div 2"
      and c: "n div 2 < 2 ^ comprimento_bits (n div 2)" by simp_all
    have s: "comprimento_bits n = Suc (comprimento_bits (n div 2))"
      using n by (subst comprimento_bits.simps) simp
    obtain k where k: "comprimento_bits (n div 2) = Suc k" using a by (cases "comprimento_bits (n div 2)") auto
    from b k have b': "2 * 2 ^ k \<le> 2 * (n div 2)" by simp
    from c k have c': "n div 2 + 1 \<le> 2 * 2 ^ k" by simp
    have "2 * (n div 2) \<le> n" "n < 2 * (n div 2 + 1)" by simp_all
    with b' c' show ?thesis unfolding s k by simp
  qed
qed

lemma comprimento_bits_unico:
  assumes "2 ^ e \<le> n" "n < 2 ^ Suc e"
  shows "comprimento_bits n = Suc e"
proof -
  have "(0::int) < 2 ^ e" by simp
  from this assms(1) have p: "0 < n" by (rule less_le_trans)
  from comprimento_bits_limites [OF p] have
    a: "0 < comprimento_bits n" and b: "2 ^ (comprimento_bits n - 1) \<le> n"
    and c: "n < 2 ^ comprimento_bits n" by simp_all
  from assms(1) c have "(2::int) ^ e < 2 ^ comprimento_bits n" by (rule le_less_trans)
  then have "e < comprimento_bits n" by simp
  moreover from b assms(2) have "(2::int) ^ (comprimento_bits n - 1) < 2 ^ Suc e"
    by (rule le_less_trans)
  then have "comprimento_bits n - 1 < Suc e" by (rule power_less_imp_less_exp [rotated]) simp
  ultimately show ?thesis by simp
qed

lemma potencia2_power_int: "potencia2 e = power_int 2 e"
  by (simp add: potencia2_def power_int_def field_simps)

lemma potencia2_soma: "potencia2 (x + y) = potencia2 x * potencia2 y"
  by (simp add: potencia2_power_int power_int_add)

lemma potencia2_pos: "0 < potencia2 e"
  by (simp add: potencia2_def)

lemma potencia2_nat: "potencia2 (int n) = 2 ^ n"
  by (simp add: potencia2_def)

lemma expoente2_unico:
  assumes "2 ^ e \<le> a" "a < 2 ^ Suc e"
  shows "expoente2 a = int e"
proof -
  have "(1::rat) \<le> 2 ^ e" by simp
  from this assms(1) have a1: "1 \<le> a" by (rule order_trans)
  have "of_int (2 ^ e) \<le> a" using assms(1) by simp
  then have l: "2 ^ e \<le> \<lfloor>a\<rfloor>" by (simp only: le_floor_iff)
  have "a < of_int (2 ^ Suc e)" using assms(2) by simp
  then have u: "\<lfloor>a\<rfloor> < 2 ^ Suc e" by (simp only: floor_less_iff)
  from comprimento_bits_unico [OF l u] a1 show ?thesis by (simp add: expoente2_def)
qed

lemma arredondar_inteiro: "arredondar (of_int k) = k"
  by (simp add: arredondar_def)

lemma arredondar_limites:
  assumes "of_int lo \<le> x" "x \<le> of_int hi"
  shows "lo \<le> arredondar x \<and> arredondar x \<le> hi"
proof -
  have l: "lo \<le> \<lfloor>x\<rfloor>" using assms(1) by (simp add: le_floor_iff)
  have u: "\<lfloor>x\<rfloor> \<le> hi" using assms(2) by (simp add: floor_le_iff)
  have "x = of_int \<lfloor>x\<rfloor> \<or> \<lfloor>x\<rfloor> < hi"
  proof (cases "\<lfloor>x\<rfloor> < hi")
    case False
    with u have "\<lfloor>x\<rfloor> = hi" by simp
    then have "x = of_int \<lfloor>x\<rfloor>" using assms(2) by (metis of_int_floor_le order_antisym)
    then show ?thesis by simp
  qed simp
  then show ?thesis
  proof
    assume "x = of_int \<lfloor>x\<rfloor>"
    then have "arredondar x = \<lfloor>x\<rfloor>" by (metis arredondar_inteiro)
    with l u show ?thesis by simp
  next
    assume "\<lfloor>x\<rfloor> < hi"
    moreover have "arredondar x = \<lfloor>x\<rfloor> \<or> arredondar x = \<lfloor>x\<rfloor> + 1"
      by (simp add: arredondar_def Let_def)
    ultimately show ?thesis using l by auto
  qed
qed


lemma potencia2_52: "potencia2 52 = 2 ^ 52" "potencia2 53 = 2 ^ 53"
  using potencia2_nat [of 52] potencia2_nat [of 53] by simp_all

text \<open>A number with a mantissa of 53 bits at a normal exponent is a double.\<close>

lemma float_de_normal:
  assumes "2 ^ 52 \<le> k" "k < 2 ^ 53" "0 \<le> 52 + j" "52 + j \<le> 1023"
  shows "float_de (of_int k * potencia2 j) = Finito (of_int k * potencia2 j)"
proof -
  let ?a = "of_int k * potencia2 j :: rat"
  let ?e = "nat (52 + j)"
  have kr: "(2::rat) ^ 52 \<le> of_int k" "(of_int k :: rat) < 2 ^ 53"
    using assms(1,2) by (metis of_int_le_iff of_int_numeral of_int_power, metis of_int_less_iff of_int_numeral of_int_power)
  have p: "(2::rat) ^ ?e = potencia2 52 * potencia2 j"
    using assms(3) potencia2_nat [of ?e] by (simp add: potencia2_soma [symmetric])
  have p1: "(2::rat) ^ Suc ?e = potencia2 53 * potencia2 j"
    using p by (simp add: potencia2_52)
  have l: "2 ^ ?e \<le> ?a" unfolding p potencia2_52
    using kr(1) potencia2_pos [of j] by (simp only: mult_le_cancel_right_pos)
  have u: "?a < 2 ^ Suc ?e" unfolding p1 potencia2_52
    using kr(2) potencia2_pos [of j] by (simp only: mult_less_cancel_right_pos)
  have e: "expoente2 ?a = 52 + j"
    using expoente2_unico [OF l u] assms(3) by simp
  have pos: "0 < ?a" using kr(1) potencia2_pos [of j] by (simp add: zero_less_mult_iff)
  have q: "?a / potencia2 j = of_int k" using potencia2_pos [of j] by simp
  have "float_de ?a = Finito ?a"
    using pos assms e q by (simp add: float_de_def Let_def arredondar_inteiro abs_of_pos del: of_int_mult)
  then show ?thesis .
qed


text \<open>
  The double of a positive integer: its mantissa, and when it overflows. Up to \<open>2^53\<close> the
  conversion is exact; halving the double of a positive integer is exact.
\<close>

lemma float_de_inteiro:
  assumes "0 < T"
  shows "\<exists>m. 2 ^ 52 \<le> m \<and> m \<le> 2 ^ 53 \<and>
     float_de (of_int T) =
       (if 1024 < comprimento_bits T \<or> (comprimento_bits T = 1024 \<and> m = 2 ^ 53) then MaisInf
        else Finito (of_int m * potencia2 (int (comprimento_bits T) - 53)))"
proof -
  from comprimento_bits_limites [OF assms] have
    a: "0 < comprimento_bits T" and b: "2 ^ (comprimento_bits T - 1) \<le> T"
    and c: "T < 2 ^ comprimento_bits T" by simp_all
  obtain e where e: "comprimento_bits T = Suc e" using a by (cases "comprimento_bits T") auto
  let ?a = "of_int T :: rat"
  let ?q = "potencia2 (int e - 52)"
  have l: "(2::rat) ^ e \<le> ?a" using b e by (metis diff_Suc_1 of_int_le_iff of_int_numeral of_int_power)
  have u: "?a < 2 ^ Suc e" using c e by (metis of_int_less_iff of_int_numeral of_int_power)
  have ex: "expoente2 ?a = int e" by (rule expoente2_unico [OF l u])
  have q: "0 < ?q" by (rule potencia2_pos)
  have p: "(2::rat) ^ e = 2 ^ 52 * ?q"
    using potencia2_nat [of e] potencia2_soma [of 52 "int e - 52"] by (simp add: potencia2_52)
  have p1: "(2::rat) ^ Suc e = 2 ^ 53 * ?q" using p by simp
  have x1: "of_int (2 ^ 52) \<le> ?a / ?q" using l q unfolding p by (simp add: pos_le_divide_eq)
  have x2: "?a / ?q \<le> of_int (2 ^ 53)" using u q unfolding p1 by (simp add: pos_divide_le_eq)
  from arredondar_limites [OF x1 x2] have
    m: "2 ^ 52 \<le> arredondar (?a / ?q)" "arredondar (?a / ?q) \<le> 2 ^ 53" by simp_all
  have ne: "?a \<noteq> 0" "\<not> ?a < 0" "\<bar>?a\<bar> = ?a" using assms by simp_all
  have j: "int (comprimento_bits T) - 53 = int e - 52" using e by simp
  have "float_de ?a =
       (if 1024 < comprimento_bits T \<or> (comprimento_bits T = 1024 \<and> arredondar (?a / ?q) = 2 ^ 53)
        then MaisInf
        else Finito (of_int (arredondar (?a / ?q)) * potencia2 (int (comprimento_bits T) - 53)))"
    using assms e by (auto simp add: float_de_def Let_def ex simp del: of_int_mult)
  with m show ?thesis by blast
qed

lemma float_de_inteiro_casos:
  assumes "0 < T"
  shows "float_de (of_int T) = MaisInf \<or> (\<exists>f. float_de (of_int T) = Finito f)"
  using float_de_inteiro [OF assms] by (auto split: if_splits)

lemma float_de_transborda:
  assumes "2 ^ 1024 \<le> T"
  shows "float_de (of_int T) = MaisInf"
proof -
  have "(0::int) < 2 ^ 1024" by simp
  from this assms have p: "0 < T" by (rule less_le_trans)
  from comprimento_bits_limites [OF p] have c: "T < 2 ^ comprimento_bits T" by simp
  from assms c have "(2::int) ^ 1024 < 2 ^ comprimento_bits T" by (rule le_less_trans)
  then have "1024 < comprimento_bits T" by (rule power_less_imp_less_exp [rotated]) simp
  with float_de_inteiro [OF p] show ?thesis by auto
qed

lemma float_de_finito:
  assumes "0 < T" "T < 2 ^ 1023"
  shows "\<exists>f. float_de (of_int T) = Finito f"
proof -
  from comprimento_bits_limites [OF assms(1)] have
    a: "0 < comprimento_bits T" and b: "2 ^ (comprimento_bits T - 1) \<le> T" by simp_all
  from b assms(2) have "(2::int) ^ (comprimento_bits T - 1) < 2 ^ 1023" by (rule le_less_trans)
  then have "comprimento_bits T - 1 < 1023" by (rule power_less_imp_less_exp [rotated]) simp
  then have "\<not> 1024 < comprimento_bits T" "comprimento_bits T \<noteq> 1024" by simp_all
  with float_de_inteiro [OF assms(1)] show ?thesis by auto
qed

lemma float_de_exato:
  assumes "0 < T" "T \<le> 2 ^ 53"
  shows "float_de (of_int T) = Finito (of_int T)"
proof (cases "T = 2 ^ 53")
  case True
  have "float_de (of_int (2 ^ 52) * potencia2 1) = Finito (of_int (2 ^ 52) * potencia2 1)"
    by (rule float_de_normal) simp_all
  then show ?thesis by (simp add: True potencia2_def)
next
  case False
  with assms(2) have lt: "T < 2 ^ 53" by simp
  from comprimento_bits_limites [OF assms(1)] have
    a: "0 < comprimento_bits T" and b: "2 ^ (comprimento_bits T - 1) \<le> T"
    and c: "T < 2 ^ comprimento_bits T" by simp_all
  from b lt have "(2::int) ^ (comprimento_bits T - 1) < 2 ^ 53" by (rule le_less_trans)
  then have "comprimento_bits T - 1 < 53" by (rule power_less_imp_less_exp [rotated]) simp
  then obtain s where s: "comprimento_bits T + s = 53" using a
    by (metis Suc_diff_1 Suc_leI add.commute le_add_diff_inverse)
  have b2: "(2::int) ^ 52 = 2 ^ (comprimento_bits T - 1) * 2 ^ s"
    using s a by (simp add: power_add [symmetric])
  have c2: "(2::int) ^ 53 = 2 ^ comprimento_bits T * 2 ^ s"
    using s by (simp add: power_add [symmetric])
  have k1: "2 ^ 52 \<le> T * 2 ^ s" unfolding b2 using b by simp
  have k2: "T * 2 ^ s < 2 ^ 53" unfolding c2 using c by simp
  have j: "0 \<le> 52 + - int s" "52 + - int s \<le> 1023" using s a by simp_all
  have v: "of_int (T * 2 ^ s) * potencia2 (- int s) = (of_int T :: rat)"
    by (simp add: potencia2_def)
  from float_de_normal [OF k1 k2 j] show ?thesis unfolding v .
qed

lemma float_de_metade:
  assumes "0 < T" "float_de (of_int T) = Finito f"
  shows "float_de (f * (1 / 2)) = Finito (f / 2)"
proof (cases "T = 1")
  case True
  have "float_de (of_int 1) = Finito (of_int 1)" by (rule float_de_exato) simp_all
  with assms(2) True have f: "f = 1" by simp
  have "float_de (1 / 2) = Finito (1 / 2)" by code_simp
  then show ?thesis by (simp add: f)
next
  case False
  with assms(1) have t2: "2 ^ 1 \<le> T" by simp
  from comprimento_bits_limites [OF assms(1)] have c: "T < 2 ^ comprimento_bits T" by simp
  from t2 c have "(2::int) ^ 1 < 2 ^ comprimento_bits T" by (rule le_less_trans)
  then have b2: "1 < comprimento_bits T" by (rule power_less_imp_less_exp [rotated]) simp
  from float_de_inteiro [OF assms(1)] obtain m where
    m: "2 ^ 52 \<le> m" "m \<le> 2 ^ 53"
    and fl: "float_de (of_int T) =
       (if 1024 < comprimento_bits T \<or> (comprimento_bits T = 1024 \<and> m = 2 ^ 53) then MaisInf
        else Finito (of_int m * potencia2 (int (comprimento_bits T) - 53)))" by blast
  let ?j = "int (comprimento_bits T) - 53"
  from fl assms(2) have n: "\<not> 1024 < comprimento_bits T" "\<not> (comprimento_bits T = 1024 \<and> m = 2 ^ 53)"
    and f: "f = of_int m * potencia2 ?j"
    by (auto split: if_splits)
  have h: "potencia2 (x - 1) = potencia2 x * (1 / 2)" for x
    using potencia2_soma [of x "- 1"] by (simp add: potencia2_def)
  show ?thesis
  proof (cases "m = 2 ^ 53")
    case True
    have g: "f * (1 / 2) = of_int (2 ^ 52) * potencia2 ?j"
      by (simp add: f True)
    have "float_de (of_int (2 ^ 52) * potencia2 ?j) = Finito (of_int (2 ^ 52) * potencia2 ?j)"
      using n True b2 by (intro float_de_normal) simp_all
    then show ?thesis unfolding g [symmetric] by simp
  next
    case False
    with m have k: "m < 2 ^ 53" by simp
    have g: "f * (1 / 2) = of_int m * potencia2 (?j - 1)"
      using h [of ?j] by (simp add: f)
    have "float_de (of_int m * potencia2 (?j - 1)) = Finito (of_int m * potencia2 (?j - 1))"
      using n b2 m(1) k by (intro float_de_normal) simp_all
    then show ?thesis unfolding g [symmetric] by simp
  qed
qed

lemma float_de_positivo:
  assumes "0 < T" "float_de (of_int T) = Finito f"
  shows "0 < f"
proof -
  from float_de_inteiro [OF assms(1)] obtain m where
    m: "2 ^ 52 \<le> m"
    and fl: "float_de (of_int T) =
       (if 1024 < comprimento_bits T \<or> (comprimento_bits T = 1024 \<and> m = 2 ^ 53) then MaisInf
        else Finito (of_int m * potencia2 (int (comprimento_bits T) - 53)))" by blast
  from fl assms(2) have f: "f = of_int m * potencia2 (int (comprimento_bits T) - 53)"
    by (auto split: if_splits)
  have "(0::int) < 2 ^ 52" by simp
  from this m have "0 < m" by (rule less_le_trans)
  then show ?thesis unfolding f using potencia2_pos by (simp add: zero_less_mult_iff)
qed

text \<open>The guard, once the two roundings are known.\<close>

lemma guarda_rejeita_finito:
  assumes "0 < T" "float_de (of_int T) = Finito f"
  shows "guarda_rejeita novo T = Inr (of_int novo < f / 2)"
  using float_de_metade [OF assms] assms(2) by (simp add: guarda_rejeita_def)

lemma guarda_rejeita_exato:
  assumes "0 < T" "T \<le> 2 ^ 53"
  shows "guarda_rejeita novo T = Inr (2 * novo < T)"
proof -
  have "(of_int novo < (of_int T :: rat) / 2) = (2 * novo < T)"
    by (simp add: pos_less_divide_eq) (metis mult.commute of_int_less_iff of_int_mult of_int_numeral)
  with guarda_rejeita_finito [OF assms(1) float_de_exato [OF assms]] show ?thesis by simp
qed

lemma guarda_rejeita_transborda:
  "float_de (of_int T) = MaisInf \<Longrightarrow> guarda_rejeita novo T = Inl OverflowError"
  by (simp add: guarda_rejeita_def)

section \<open>C2: the save guard\<close>

lemma parse_um: "parse_duracao_para_minutos (cel_texto (celula_int 1)) = Inr 1"
  by code_simp

lemma totais_grandes:
  "total_minutos_timings (vista td_grande) = Inr 6000000000000000"
  "total_minutos_timings doc_grande = Inr 12000000000000001"
  by (simp_all add: td_grande_def doc_grande_def vista_def vista_registo_def total_minutos_timings_def
        total_ano_def total_empresa_def extra_mes_def parse_um celula_int_def [of 500000000000000]
        celula_int_def [of 1000000000000000])

lemma guarda_grande: "guarda_rejeita 6000000000000000 12000000000000001 = Inr False"
  by code_simp

lemma escrever_ficheiro_ok:
  "escrita_ok io \<and> replace_ok io \<Longrightarrow>
   escrever_ficheiro io td d =
     (d\<lparr>ficheiro := Some (Documento (doc_gravado td)), tmp := None,
        operacoes := operacoes d @ [EscreverTmp, Substituir]\<rparr>, True)"
  by (simp add: escrever_ficheiro_def Let_def)

lemma escrever_ficheiro_falha:
  "\<not> (escrita_ok io \<and> replace_ok io) \<Longrightarrow>
   ficheiro (fst (escrever_ficheiro io td d)) = ficheiro d \<and> \<not> snd (escrever_ficheiro io td d)"
  by (auto simp: escrever_ficheiro_def Let_def limpar_tmp_def)

text \<open>
  The claim as the specification words it fails where the old total is no double. The
  old file holds \<open>T = 12 * 10^15 + 1\<close> minutes and the ledger in memory \<open>6 * 10^15\<close>, which
  is less than half of \<open>T\<close>. The product \<open>total_anterior * 0.5\<close> converts \<open>T\<close> to the double
  \<open>12 * 10^15\<close>, whose half is not above the new total: the file is written.
\<close>

theorem guarda_arredondada:
  "total_minutos_timings (vista td_grande) = Inr 6000000000000000 \<and>
   ficheiro disco_grande = Some (Documento doc_grande) \<and>
   total_minutos_timings doc_grande = Inr 12000000000000001 \<and>
   2 * (6000000000000000 :: int) < 12000000000000001 \<and>
   guardar_timings_para_ficheiro sistema_ok td_grande disco_grande =
     Inr (disco_grande\<lparr>ficheiro := Some (Documento (doc_gravado td_grande)), tmp := None,
            operacoes := [EscreverTmp, Substituir]\<rparr>, True)"
proof -
  have f: "ficheiro disco_grande = Some (Documento doc_grande)" "operacoes disco_grande = []"
    by (simp_all add: disco_grande_def)
  have ok: "escrita_ok sistema_ok \<and> replace_ok sistema_ok" by (simp add: sistema_ok_def)
  have "guardar_timings_para_ficheiro sistema_ok td_grande disco_grande =
          Inr (escrever_ficheiro sistema_ok td_grande disco_grande)"
    by (simp add: guardar_timings_para_ficheiro_def totais_grandes guarda_grande
          total_anterior_documento [OF f(1) totais_grandes(2)])
  then show ?thesis
    by (simp add: escrever_ficheiro_ok [OF ok] f totais_grandes)
qed

text \<open>
  Claim C2, as the code has it. Let the new total of the ledger in memory be \<open>novo\<close>.
  The guard compares \<open>novo\<close> with half of the double nearest to the old total \<open>T\<close>; that
  double is \<open>T\<close> itself for every \<open>T\<close> up to \<open>2^53\<close>. If the old file is a readable
  document whose total \<open>T\<close> is positive, the nearest double \<open>f\<close> of \<open>T\<close> is finite and
  \<open>novo\<close> is less than half of \<open>f\<close>, the save does nothing to the disk (no operation,
  same contents) and answers \<open>False\<close>. If there is no readable old document, or its
  total is not positive, or \<open>novo\<close> is at least half of that finite double, the save is
  the write: when the operating system lets both steps through, the temporary file is
  written and then renamed over the ledger file, which holds the new document, and the
  answer is \<open>True\<close>; when a step fails, the ledger file keeps its old content and the
  answer is \<open>False\<close>.
\<close>

theorem guarda_de_gravacao:
  assumes "total_minutos_timings (vista td) = Inr novo"
  shows "(\<forall>antigo T f. ficheiro d = Some (Documento antigo) \<and> total_minutos_timings antigo = Inr T
            \<and> 0 < T \<and> float_de (of_int T) = Finito f \<and> of_int novo < f / 2 \<longrightarrow>
            guardar_timings_para_ficheiro io td d = Inr (d, False)) \<and>
         (\<forall>T. 0 < T \<and> T \<le> 2 ^ 53 \<longrightarrow> float_de (of_int T) = Finito (of_int T)) \<and>
         ((\<forall>antigo T. ficheiro d = Some (Documento antigo) \<and> total_minutos_timings antigo = Inr T
               \<and> 0 < T \<longrightarrow> (\<exists>f. float_de (of_int T) = Finito f \<and> f / 2 \<le> of_int novo)) \<longrightarrow>
            guardar_timings_para_ficheiro io td d = Inr (escrever_ficheiro io td d) \<and>
            (escrita_ok io \<and> replace_ok io \<longrightarrow>
               escrever_ficheiro io td d =
                 (d\<lparr>ficheiro := Some (Documento (doc_gravado td)), tmp := None,
                    operacoes := operacoes d @ [EscreverTmp, Substituir]\<rparr>, True)) \<and>
            (\<not> (escrita_ok io \<and> replace_ok io) \<longrightarrow>
               ficheiro (fst (escrever_ficheiro io td d)) = ficheiro d \<and>
               \<not> snd (escrever_ficheiro io td d)))"
proof (intro conjI allI impI)
  fix antigo T f
  assume a: "ficheiro d = Some (Documento antigo) \<and> total_minutos_timings antigo = Inr T
            \<and> 0 < T \<and> float_de (of_int T) = Finito f \<and> of_int novo < f / 2"
  then have t: "total_anterior_de d = Some T" by (simp add: total_anterior_documento)
  from a have "guarda_rejeita novo T = Inr True" by (simp add: guarda_rejeita_finito)
  with a t assms show "guardar_timings_para_ficheiro io td d = Inr (d, False)"
    by (simp add: guardar_timings_para_ficheiro_def)
next
  fix T :: int
  assume "0 < T \<and> T \<le> 2 ^ 53"
  then show "float_de (of_int T) = Finito (of_int T)" by (simp add: float_de_exato)
next
  assume n: "\<forall>antigo T. ficheiro d = Some (Documento antigo) \<and> total_minutos_timings antigo = Inr T
               \<and> 0 < T \<longrightarrow> (\<exists>f. float_de (of_int T) = Finito f \<and> f / 2 \<le> of_int novo)"
  show "guardar_timings_para_ficheiro io td d = Inr (escrever_ficheiro io td d)"
  proof (cases "total_anterior_de d")
    case None
    with assms show ?thesis by (simp add: guardar_timings_para_ficheiro_def)
  next
    case (Some T)
    show ?thesis
    proof (cases "0 < T")
      case False
      with assms Some show ?thesis by (simp add: guardar_timings_para_ficheiro_def)
    next
      case True
      from total_anterior_Some [OF Some] n True
      obtain f where f: "float_de (of_int T) = Finito f" "f / 2 \<le> of_int novo" by blast
      from f have "guarda_rejeita novo T = Inr False"
        by (simp add: guarda_rejeita_finito [OF True f(1)])
      with assms Some True show ?thesis by (simp add: guardar_timings_para_ficheiro_def)
    qed
  qed
next
  assume "escrita_ok io \<and> replace_ok io"
  then show "escrever_ficheiro io td d =
                 (d\<lparr>ficheiro := Some (Documento (doc_gravado td)), tmp := None,
                    operacoes := operacoes d @ [EscreverTmp, Substituir]\<rparr>, True)"
    by (rule escrever_ficheiro_ok)
next
  assume "\<not> (escrita_ok io \<and> replace_ok io)"
  then show "ficheiro (fst (escrever_ficheiro io td d)) = ficheiro d"
    by (simp add: escrever_ficheiro_falha)
next
  assume "\<not> (escrita_ok io \<and> replace_ok io)"
  then show "\<not> snd (escrever_ficheiro io td d)"
    by (simp add: escrever_ficheiro_falha)
qed

text \<open>
  A ledger of 10 minutes is refused over an old file of 100 minutes and written over
  an old file of 15 minutes.
\<close>

theorem guarda_de_gravacao_witness:
  "total_minutos_timings (vista td_pequeno) = Inr 10 \<and>
   ficheiro (disco_com 100) = Some (Documento (doc_de_total 100)) \<and>
   total_minutos_timings (doc_de_total 100) = Inr 100 \<and>
   float_de (of_int 100) = Finito 100 \<and>
   guardar_timings_para_ficheiro sistema_ok td_pequeno (disco_com 100) = Inr (disco_com 100, False) \<and>
   total_minutos_timings (doc_de_total 15) = Inr 15 \<and>
   float_de (of_int 15) = Finito 15 \<and>
   guardar_timings_para_ficheiro sistema_ok td_pequeno (disco_com 15) =
     Inr ((disco_com 15)\<lparr>ficheiro := Some (Documento (doc_gravado td_pequeno)), tmp := None,
            operacoes := [EscreverTmp, Substituir]\<rparr>, True)"
proof -
  note t = totais_pequenos
  note g = guarda_de_gravacao [OF t(1)]
  have f: "ficheiro (disco_com 100) = Some (Documento (doc_de_total 100))"
    "ficheiro (disco_com 15) = Some (Documento (doc_de_total 15))"
    "operacoes (disco_com 15) = []"
    by (simp_all add: disco_com_def)
  from g [of "disco_com 100" sistema_ok] have
    ex: "\<forall>T::int. 0 < T \<and> T \<le> 2 ^ 53 \<longrightarrow> float_de (of_int T) = Finito (of_int T)" by blast
  have fl: "float_de (of_int 100) = Finito 100" "float_de (of_int 15) = Finito 15"
    using ex [THEN spec, of 100] ex [THEN spec, of 15] by simp_all
  from g [of "disco_com 100" sistema_ok] f(1) t(2) fl(1)
  have a: "guardar_timings_para_ficheiro sistema_ok td_pequeno (disco_com 100) = Inr (disco_com 100, False)"
    by simp
  have n: "\<forall>antigo T. ficheiro (disco_com 15) = Some (Documento antigo)
             \<and> total_minutos_timings antigo = Inr T \<and> 0 < T \<longrightarrow>
             (\<exists>f. float_de (of_int T) = Finito f \<and> f / 2 \<le> of_int 10)"
    using f(2) t(3) fl(2) by auto
  have ok: "escrita_ok sistema_ok \<and> replace_ok sistema_ok" by (simp add: sistema_ok_def)
  from g [of "disco_com 15" sistema_ok] n ok
  have b: "guardar_timings_para_ficheiro sistema_ok td_pequeno (disco_com 15) =
     Inr ((disco_com 15)\<lparr>ficheiro := Some (Documento (doc_gravado td_pequeno)), tmp := None,
            operacoes := [EscreverTmp, Substituir]\<rparr>, True)"
    by (simp add: f(3))
  from t f a b fl show ?thesis by simp
qed

section \<open>Deduplication\<close>

lemma first_occ_index:
  "first_occ f seen xs =
     map (\<lambda>i. xs ! i) (filter (\<lambda>i. f (xs ! i) \<notin> set seen \<union> f ` set (take i xs)) [0..<length xs])"
proof (induction xs arbitrary: seen)
  case Nil
  then show ?case by simp
next
  case (Cons x xs)
  have upt: "[0..<length (x # xs)] = 0 # map Suc [0..<length xs]"
    by (simp add: upt_conv_Cons map_Suc_upt del: upt_Suc)
  show ?case
  proof (cases "f x \<in> set seen")
    case True
    then have "first_occ f seen (x # xs) = first_occ f seen xs" by simp
    also have "\<dots> = map (\<lambda>i. xs ! i)
        (filter (\<lambda>i. f (xs ! i) \<notin> set seen \<union> f ` set (take i xs)) [0..<length xs])"
      by (rule Cons.IH)
    also have "\<dots> = map (\<lambda>i. (x # xs) ! i)
        (filter (\<lambda>i. f ((x # xs) ! i) \<notin> set seen \<union> f ` set (take i (x # xs))) [0..<length (x # xs)])"
    proof -
      have "filter (\<lambda>i. f (xs ! i) \<notin> set seen \<union> f ` set (take i xs)) [0..<length xs]
          = filter (\<lambda>i. f (xs ! i) \<notin> set seen \<union> insert (f x) (f ` set (take i xs))) [0..<length xs]"
        using True by (intro filter_cong) auto
      then show ?thesis
        unfolding upt using True by (simp add: filter_map comp_def conj_ac)
    qed
    finally show ?thesis .
  next
    case False
    then have "first_occ f seen (x # xs) = x # first_occ f (seen @ [f x]) xs" by simp
    also have "first_occ f (seen @ [f x]) xs = map (\<lambda>i. xs ! i)
        (filter (\<lambda>i. f (xs ! i) \<notin> set (seen @ [f x]) \<union> f ` set (take i xs)) [0..<length xs])"
      by (rule Cons.IH)
    also have "x # \<dots> = map (\<lambda>i. (x # xs) ! i)
        (filter (\<lambda>i. f ((x # xs) ! i) \<notin> set seen \<union> f ` set (take i (x # xs))) [0..<length (x # xs)])"
    proof -
      have "filter (\<lambda>i. f (xs ! i) \<notin> set (seen @ [f x]) \<union> f ` set (take i xs)) [0..<length xs]
          = filter (\<lambda>i. f (xs ! i) \<notin> set seen \<union> insert (f x) (f ` set (take i xs))) [0..<length xs]"
        by (intro filter_cong) auto
      then show ?thesis
        unfolding upt using False by (simp add: filter_map comp_def conj_ac)
    qed
    finally show ?thesis .
  qed
qed

lemma first_occ_primeiras: "first_occ f [] xs = primeiras_ocorrencias f xs"
  by (simp add: first_occ_index primeiras_ocorrencias_def)

lemma first_occ_keys:
  "distinct (map f (first_occ f seen xs)) \<and> f ` set (first_occ f seen xs) \<inter> set seen = {}
   \<and> f ` set (first_occ f seen xs) \<union> set seen = f ` set xs \<union> set seen"
proof (induction xs arbitrary: seen)
  case Nil
  then show ?case by simp
next
  case (Cons x xs)
  show ?case
  proof (cases "f x \<in> set seen")
    case True
    with Cons.IH [of seen] show ?thesis by auto
  next
    case False
    with Cons.IH [of "seen @ [f x]"] show ?thesis by auto
  qed
qed

lemma sum_dict_somar: "sum_list (map snd (dict_somar k n d)) = sum_list (map snd d) + n"
proof -
  have "sum_list (map snd (dict_set k (dict_get_or d k 0 + n) d)) = sum_list (map snd d) + n"
    by (induction d) (auto simp: dict_get_or_def)
  then show ?thesis by (simp add: dict_somar_def)
qed

lemma dedup_passo_invalido:
  "\<not> registo_valido reg \<Longrightarrow>
   registos_unicos (dedup_passo mes reg st) = registos_unicos st \<and>
   seen_registos (dedup_passo mes reg st) = seen_registos st \<and>
   total_minutos_deduplicados (dedup_passo mes reg st) = total_minutos_deduplicados st \<and>
   duplicados_por_empresa (dedup_passo mes reg st) = duplicados_por_empresa st"
  by (auto simp: registo_valido_def dedup_passo_def Let_def)

lemma dedup_passo_duplicado:
  "registo_valido reg \<Longrightarrow> chave_registo mes reg \<in> set (seen_registos st) \<Longrightarrow>
   registos_unicos (dedup_passo mes reg st) = registos_unicos st \<and>
   seen_registos (dedup_passo mes reg st) = seen_registos st \<and>
   total_minutos_deduplicados (dedup_passo mes reg st) = total_minutos_deduplicados st + r_minutos reg \<and>
   sum_list (map snd (duplicados_por_empresa (dedup_passo mes reg st)))
     = sum_list (map snd (duplicados_por_empresa st)) + r_minutos reg"
  by (auto simp: registo_valido_def dedup_passo_def Let_def sum_dict_somar)

lemma dedup_passo_novo:
  "registo_valido reg \<Longrightarrow> chave_registo mes reg \<notin> set (seen_registos st) \<Longrightarrow>
   registos_unicos (dedup_passo mes reg st) = registos_unicos st @ [reg] \<and>
   seen_registos (dedup_passo mes reg st) = seen_registos st @ [chave_registo mes reg] \<and>
   total_minutos_deduplicados (dedup_passo mes reg st) = total_minutos_deduplicados st \<and>
   duplicados_por_empresa (dedup_passo mes reg st) = duplicados_por_empresa st"
  by (auto simp: registo_valido_def dedup_passo_def Let_def set_add_def)

lemma dedup_passo_soma:
  "total_minutos_deduplicados (dedup_passo mes reg st) + minutos_de (registos_unicos (dedup_passo mes reg st))
     = total_minutos_deduplicados st + minutos_de (registos_unicos st)
       + (if registo_valido reg then r_minutos reg else 0)"
proof -
  consider (inv) "\<not> registo_valido reg"
    | (dup) "registo_valido reg" "chave_registo mes reg \<in> set (seen_registos st)"
    | (novo) "registo_valido reg" "chave_registo mes reg \<notin> set (seen_registos st)"
    by blast
  then show ?thesis
  proof cases
    case inv
    from dedup_passo_invalido [OF inv, of mes st] inv show ?thesis by simp
  next
    case dup
    from dedup_passo_duplicado [OF dup] dup show ?thesis by simp
  next
    case novo
    from dedup_passo_novo [OF novo] novo show ?thesis by (simp add: minutos_de_def)
  qed
qed

lemma dedup_passo_relatorio:
  "sum_list (map snd (duplicados_por_empresa (dedup_passo mes reg st)))
       - total_minutos_deduplicados (dedup_passo mes reg st)
     = sum_list (map snd (duplicados_por_empresa st)) - total_minutos_deduplicados st"
proof -
  consider (inv) "\<not> registo_valido reg"
    | (dup) "registo_valido reg" "chave_registo mes reg \<in> set (seen_registos st)"
    | (novo) "registo_valido reg" "chave_registo mes reg \<notin> set (seen_registos st)"
    by blast
  then show ?thesis
  proof cases
    case inv
    from dedup_passo_invalido [OF inv, of mes st] show ?thesis by simp
  next
    case dup
    from dedup_passo_duplicado [OF dup] show ?thesis by simp
  next
    case novo
    from dedup_passo_novo [OF novo] show ?thesis by simp
  qed
qed

lemma dedup_fold_soma:
  "total_minutos_deduplicados (fold (dedup_passo mes) regs st)
       + minutos_de (registos_unicos (fold (dedup_passo mes) regs st))
     = total_minutos_deduplicados st + minutos_de (registos_unicos st)
       + minutos_de (filter registo_valido regs)"
proof (induction regs arbitrary: st)
  case Nil
  then show ?case by (simp add: minutos_de_def)
next
  case (Cons reg regs)
  show ?case
    using Cons.IH [of "dedup_passo mes reg st"] dedup_passo_soma [of mes reg st]
    by (simp add: minutos_de_def)
qed

lemma dedup_fold_relatorio:
  "sum_list (map snd (duplicados_por_empresa (fold (dedup_passo mes) regs st)))
       - total_minutos_deduplicados (fold (dedup_passo mes) regs st)
     = sum_list (map snd (duplicados_por_empresa st)) - total_minutos_deduplicados st"
proof (induction regs arbitrary: st)
  case Nil
  then show ?case by simp
next
  case (Cons reg regs)
  show ?case
    using Cons.IH [of "dedup_passo mes reg st"] dedup_passo_relatorio [of mes reg st]
    by simp
qed

lemma dedup_fold_unicos:
  "seen_registos st = map (chave_registo mes) (registos_unicos st) \<Longrightarrow>
   registos_unicos (fold (dedup_passo mes) regs st)
     = registos_unicos st @ first_occ (chave_registo mes) (seen_registos st) (filter registo_valido regs)"
proof (induction regs arbitrary: st)
  case Nil
  then show ?case by simp
next
  case (Cons reg regs)
  let ?st1 = "dedup_passo mes reg st"
  consider (inv) "\<not> registo_valido reg"
    | (dup) "registo_valido reg" "chave_registo mes reg \<in> set (seen_registos st)"
    | (novo) "registo_valido reg" "chave_registo mes reg \<notin> set (seen_registos st)"
    by blast
  then show ?case
  proof cases
    case inv
    from dedup_passo_invalido [OF inv, of mes st] Cons.prems
    have s1: "seen_registos ?st1 = map (chave_registo mes) (registos_unicos ?st1)" by simp
    from Cons.IH [OF s1] dedup_passo_invalido [OF inv, of mes st] inv
    show ?thesis by simp
  next
    case dup
    from dedup_passo_duplicado [OF dup] Cons.prems
    have s1: "seen_registos ?st1 = map (chave_registo mes) (registos_unicos ?st1)" by simp
    from Cons.IH [OF s1] dedup_passo_duplicado [OF dup] dup
    show ?thesis by simp
  next
    case novo
    from dedup_passo_novo [OF novo] Cons.prems
    have s1: "seen_registos ?st1 = map (chave_registo mes) (registos_unicos ?st1)" by simp
    from Cons.IH [OF s1] dedup_passo_novo [OF novo] novo
    show ?thesis by simp
  qed
qed

text \<open>
  Claim C3. Inside one batch the identity of a fact is the quadruple of
  \<open>chave_registo\<close>: company key, technician class, month, minutes. The facts handed to
  the ledger (\<open>registos_unicos\<close>, the list the last loop of \<open>importar_timings\<close> walks) are
  the first occurrences of each identity among the facts the loop does not skip, so no
  identity is applied twice. The minutes of every later duplicate are added to
  \<open>total_minutos_deduplicados\<close> and to the per-company report, whose values sum to that
  total. Two facts that differ in their minutes have different identities, and both are
  represented in \<open>registos_unicos\<close>.
\<close>

theorem deduplicacao_lote:
  "registos_unicos (deduplicar mes regs)
     = primeiras_ocorrencias (chave_registo mes) (filter registo_valido regs) \<and>
   distinct (map (chave_registo mes) (registos_unicos (deduplicar mes regs))) \<and>
   total_minutos_deduplicados (deduplicar mes regs)
     = minutos_de (filter registo_valido regs) - minutos_de (registos_unicos (deduplicar mes regs)) \<and>
   sum_list (map snd (duplicados_por_empresa (deduplicar mes regs)))
     = total_minutos_deduplicados (deduplicar mes regs) \<and>
   (\<forall>r1 \<in> set regs. \<forall>r2 \<in> set regs.
      registo_valido r1 \<and> registo_valido r2 \<and> r_minutos r1 \<noteq> r_minutos r2 \<longrightarrow>
      (\<exists>u1 \<in> set (registos_unicos (deduplicar mes regs)).
       \<exists>u2 \<in> set (registos_unicos (deduplicar mes regs)).
         u1 \<noteq> u2 \<and> chave_registo mes u1 = chave_registo mes r1
                 \<and> chave_registo mes u2 = chave_registo mes r2))"
proof -
  let ?vs = "filter registo_valido regs"
  let ?us = "registos_unicos (deduplicar mes regs)"
  have inv0: "seen_registos lote_vazio = map (chave_registo mes) (registos_unicos lote_vazio)"
    by (simp add: lote_vazio_def)
  have us: "?us = first_occ (chave_registo mes) [] ?vs"
    using dedup_fold_unicos [OF inv0, of regs] by (simp add: deduplicar_def lote_vazio_def)
  have a: "?us = primeiras_ocorrencias (chave_registo mes) ?vs"
    by (simp add: us first_occ_primeiras)
  from first_occ_keys [of "chave_registo mes" "[]" ?vs]
  have b: "distinct (map (chave_registo mes) ?us)"
    and keys: "chave_registo mes ` set ?us = chave_registo mes ` set ?vs"
    by (simp_all add: us)
  have c: "total_minutos_deduplicados (deduplicar mes regs) = minutos_de ?vs - minutos_de ?us"
    using dedup_fold_soma [of mes regs lote_vazio]
    by (simp add: deduplicar_def lote_vazio_def minutos_de_def)
  have d: "sum_list (map snd (duplicados_por_empresa (deduplicar mes regs)))
             = total_minutos_deduplicados (deduplicar mes regs)"
    using dedup_fold_relatorio [of mes regs lote_vazio]
    by (simp add: deduplicar_def lote_vazio_def)
  have e: "\<exists>u1 \<in> set ?us. \<exists>u2 \<in> set ?us.
             u1 \<noteq> u2 \<and> chave_registo mes u1 = chave_registo mes r1
                     \<and> chave_registo mes u2 = chave_registo mes r2"
    if "r1 \<in> set regs" "r2 \<in> set regs" "registo_valido r1" "registo_valido r2"
       "r_minutos r1 \<noteq> r_minutos r2" for r1 r2
  proof -
    from that have "chave_registo mes r1 \<in> chave_registo mes ` set ?vs"
      and "chave_registo mes r2 \<in> chave_registo mes ` set ?vs" by auto
    then obtain u1 u2 where u: "u1 \<in> set ?us" "chave_registo mes u1 = chave_registo mes r1"
      "u2 \<in> set ?us" "chave_registo mes u2 = chave_registo mes r2"
      unfolding keys [symmetric] by auto
    from u that(5) have "u1 \<noteq> u2" by (auto simp: chave_registo_def)
    with u show ?thesis by blast
  qed
  from a b c d e show ?thesis by blast
qed

theorem deduplicacao_lote_witness:
  "registo_valido registo_x_120 \<and> registo_valido registo_x_90 \<and>
   r_minutos registo_x_120 \<noteq> r_minutos registo_x_90 \<and>
   registos_unicos (deduplicar 3 [registo_x_120, registo_x_120, registo_x_90])
     = [registo_x_120, registo_x_90] \<and>
   total_minutos_deduplicados (deduplicar 3 [registo_x_120, registo_x_120, registo_x_90]) = 120 \<and>
   duplicados_por_empresa (deduplicar 3 [registo_x_120, registo_x_120, registo_x_90])
     = [(''Company X'', 120)] \<and>
   (\<exists>u1 \<in> set (registos_unicos (deduplicar 3 [registo_x_120, registo_x_120, registo_x_90])).
    \<exists>u2 \<in> set (registos_unicos (deduplicar 3 [registo_x_120, registo_x_120, registo_x_90])).
      u1 \<noteq> u2 \<and> chave_registo 3 u1 = chave_registo 3 registo_x_120
              \<and> chave_registo 3 u2 = chave_registo 3 registo_x_90)"
proof -
  have v: "registo_valido registo_x_120" "registo_valido registo_x_90"
    by (simp_all add: registo_valido_def registo_x_120_def registo_x_90_def tipo_de_def canonico_vazio_def)
  have d: "r_minutos registo_x_120 \<noteq> r_minutos registo_x_90"
    by (simp add: registo_x_120_def registo_x_90_def)
  have ev: "registos_unicos (deduplicar 3 [registo_x_120, registo_x_120, registo_x_90])
              = [registo_x_120, registo_x_90]"
    by code_simp
  have ev2: "total_minutos_deduplicados (deduplicar 3 [registo_x_120, registo_x_120, registo_x_90]) = 120"
    "duplicados_por_empresa (deduplicar 3 [registo_x_120, registo_x_120, registo_x_90])
       = [(''Company X'', 120)]"
    by code_simp+
  let ?regs = "[registo_x_120, registo_x_120, registo_x_90]"
  from deduplicacao_lote [of 3 ?regs]
  have all: "\<forall>r1 \<in> set ?regs. \<forall>r2 \<in> set ?regs.
      registo_valido r1 \<and> registo_valido r2 \<and> r_minutos r1 \<noteq> r_minutos r2 \<longrightarrow>
      (\<exists>u1 \<in> set (registos_unicos (deduplicar 3 ?regs)).
       \<exists>u2 \<in> set (registos_unicos (deduplicar 3 ?regs)).
         u1 \<noteq> u2 \<and> chave_registo 3 u1 = chave_registo 3 r1
                 \<and> chave_registo 3 u2 = chave_registo 3 r2)"
    by (elim conjE)
  have m1: "registo_x_120 \<in> set ?regs" and m2: "registo_x_90 \<in> set ?regs" by simp_all
  from all [rule_format, OF m1 m2] v d
  have "\<exists>u1 \<in> set (registos_unicos (deduplicar 3 ?regs)).
    \<exists>u2 \<in> set (registos_unicos (deduplicar 3 ?regs)).
      u1 \<noteq> u2 \<and> chave_registo 3 u1 = chave_registo 3 registo_x_120
              \<and> chave_registo 3 u2 = chave_registo 3 registo_x_90"
    by blast
  with v d ev ev2 show ?thesis by blast
qed

section \<open>Durations\<close>

text \<open>
  Claim C4. The parser is meant to return minutes for every cell and to read malformed
  text as zero. The text \<open>inf\<close> is accepted by \<open>float\<close>, and \<open>round\<close> of an infinity
  raises \<open>OverflowError\<close>, which the \<open>except ValueError\<close> of the source does not catch: on
  this cell the parser returns nothing and raises.
\<close>

theorem parse_duracao_inf: "parse_duracao_para_minutos (Some ''inf'') = Inl OverflowError"
  by code_simp

lemma parse_nao_negativo: "parse_duracao_para_minutos v = Inr n \<Longrightarrow> 0 \<le> n"
  by (auto simp: parse_duracao_para_minutos_def Let_def max0_def
           split: option.splits if_splits sum.splits excecao.splits)

theorem parse_duracao_inf_witness:
  "search_h (py_lower (py_strip ''inf'')) = None \<and> search_m (py_lower (py_strip ''inf'')) = None \<and>
   py_float ''inf'' = Inr MaisInf \<and> py_round MaisInf = Inl OverflowError \<and>
   parse_duracao_para_minutos (Some ''inf'') \<noteq> Inr 0"
proof -
  have a: "search_h (py_lower (py_strip ''inf'')) = None" "search_m (py_lower (py_strip ''inf'')) = None"
    "py_float ''inf'' = Inr MaisInf" "py_round MaisInf = Inl OverflowError"
    by code_simp+
  with parse_duracao_inf show ?thesis by simp
qed

section \<open>The special marker\<close>

lemma dict_get_in_set: "dict_get d k = Some v \<Longrightarrow> (k, v) \<in> set d"
  by (induction d) (auto split: if_splits)

lemma canonico_da_tabela:
  "dict_get ALIASES_CANONICOS k = Some c \<Longrightarrow> resolver_tecnico (Some c) = (''canonico'', Some c)"
proof -
  assume "dict_get ALIASES_CANONICOS k = Some c"
  then have "(k, c) \<in> set ALIASES_CANONICOS" by (rule dict_get_in_set)
  then have "c \<in> {''Pedro Fernandes'', ''Ana Rodrigues'', ''Daniela Fernandes'', ''Celine Santos'',
         ''M Albertina Alves'', ''M Luzia Moreira'', joao_pedro_alves}"
    by (auto simp: ALIASES_CANONICOS_val)
  then show ?thesis by (rule canonico_fixo)
qed

lemma resolver_casos:
  "resolver_tecnico so = (''desconhecido'', None) \<or> resolver_tecnico so = (''armando'', None)
   \<or> (\<exists>k c. c \<noteq> [] \<and> dict_get ALIASES_CANONICOS k = Some c \<and> resolver_tecnico so = (''canonico'', Some c))"
  by (auto simp: resolver_tecnico_def Let_def split: option.splits)

lemma py_strip_Nil [simp]: "py_strip [] = []"
  by (simp add: py_strip_def)

lemma py_strip_nao_vazio: "py_strip s \<noteq> [] \<Longrightarrow> s \<noteq> []"
  by auto

lemma norm_nome_forte_strip:
  "py_strip s \<noteq> [] \<Longrightarrow> norm_nome_forte (Some (py_strip s)) = norm_nome_forte (Some s)"
  using py_strip_nao_vazio [of s] by (simp add: norm_nome_forte_def)

lemma resolver_strip:
  "py_strip s \<noteq> [] \<Longrightarrow> resolver_tecnico (Some (py_strip s)) = resolver_tecnico (Some s)"
  using py_strip_nao_vazio [of s] by (simp add: resolver_tecnico_def norm_nome_forte_strip)

lemma norm_nome_forte_branco: "py_strip s = [] \<Longrightarrow> norm_nome_forte (Some s) = []"
  by (simp add: norm_nome_forte_def py_upper_def sem_acentos_def split_ws_def)

lemma canonical_do_canonico:
  "resolver_tecnico (Some s) = (''canonico'', Some c) \<Longrightarrow> c \<noteq> [] \<Longrightarrow> s \<noteq> [] \<Longrightarrow>
   canonical_tecnico_nome (Some c) = canonical_tecnico_nome (Some s)"
proof -
  assume r: "resolver_tecnico (Some s) = (''canonico'', Some c)" and c: "c \<noteq> []" and s: "s \<noteq> []"
  from resolver_casos [of "Some s"] r obtain k where "dict_get ALIASES_CANONICOS k = Some c" by auto
  then have "resolver_tecnico (Some c) = (''canonico'', Some c)" by (rule canonico_da_tabela)
  with r c s show ?thesis by (simp add: canonical_tecnico_nome_def)
qed

lemma canonical_strip:
  "py_strip s \<noteq> [] \<Longrightarrow> canonical_tecnico_nome (Some (py_strip s)) = canonical_tecnico_nome (Some s)"
proof -
  assume a: "py_strip s \<noteq> []"
  then have "s \<noteq> []" by (rule py_strip_nao_vazio)
  with a show ?thesis
    by (simp add: canonical_tecnico_nome_def resolver_strip Let_def split: prod.splits)
qed

lemma tecnico_inferido_loop_find:
  "tecnico_inferido_loop nf alvo clientes =
     (case find (\<lambda>cli. truthy (nome_cliente cli) \<and> nf (the (nome_cliente cli)) = alvo) clientes of
        None \<Rightarrow> None
      | Some cli \<Rightarrow>
          (let tecnico_raw = py_or (c_tecnico cli) (c_carteira cli) in
           if \<not> truthy tecnico_raw then None
           else (case resolver_tecnico tecnico_raw of (tipo, canonico) \<Rightarrow>
             if tipo = ''canonico'' \<and> truthy canonico then canonico
             else let tecnico_str = py_strip (the tecnico_raw) in
                  if tecnico_str = [] then None else Some tecnico_str)))"
  by (induction clientes) (simp_all add: Let_def)

lemma inferido_sem_registo:
  "cliente_da_empresa nf clientes en = None \<Longrightarrow> tecnico_inferido_empresa nf clientes en = None"
  by (auto simp: cliente_da_empresa_def tecnico_inferido_empresa_def tecnico_inferido_loop_find
           split: if_splits)

lemma inferido_sem_tecnico:
  "cliente_da_empresa nf clientes en = Some cli \<Longrightarrow> tecnico_registado cli = None \<Longrightarrow>
   tecnico_inferido_empresa nf clientes en = None"
proof -
  assume c: "cliente_da_empresa nf clientes en = Some cli" and t: "tecnico_registado cli = None"
  let ?raw = "py_or (c_tecnico cli) (c_carteira cli)"
  from c have e: "tecnico_inferido_empresa nf clientes en =
      (if \<not> truthy ?raw then None
       else (case resolver_tecnico ?raw of (tipo, canonico) \<Rightarrow>
             if tipo = ''canonico'' \<and> truthy canonico then canonico
             else let tecnico_str = py_strip (the ?raw) in
                  if tecnico_str = [] then None else Some tecnico_str))"
    by (auto simp: cliente_da_empresa_def tecnico_inferido_empresa_def tecnico_inferido_loop_find Let_def
             split: if_splits)
  show ?thesis
  proof (cases "truthy ?raw")
    case False
    with e show ?thesis by simp
  next
    case True
    then obtain s where s: "?raw = Some s" "s \<noteq> []" by (auto simp: truthy_def)
    with t True have b: "py_strip s = []" by (auto simp: tecnico_registado_def Let_def split: if_splits)
    then have "norm_nome_forte (Some s) = []" by (rule norm_nome_forte_branco)
    then have "resolver_tecnico (Some s) = (''desconhecido'', None)"
      by (simp add: resolver_tecnico_def)
    with e s b True show ?thesis by simp
  qed
qed

lemma inferido_com_tecnico:
  "cliente_da_empresa nf clientes en = Some cli \<Longrightarrow> tecnico_registado cli = Some t \<Longrightarrow>
   truthy (tecnico_inferido_empresa nf clientes en) \<and>
   canonical_tecnico_nome (tecnico_inferido_empresa nf clientes en) = canonical_tecnico_nome (Some t)"
proof -
  assume c: "cliente_da_empresa nf clientes en = Some cli" and t: "tecnico_registado cli = Some t"
  let ?raw = "py_or (c_tecnico cli) (c_carteira cli)"
  from t have raw: "?raw = Some t" "t \<noteq> []" "py_strip t \<noteq> []"
    by (auto simp: tecnico_registado_def Let_def truthy_def split: if_splits)
  from c raw have e: "tecnico_inferido_empresa nf clientes en =
      (case resolver_tecnico (Some t) of (tipo, canonico) \<Rightarrow>
             if tipo = ''canonico'' \<and> truthy canonico then canonico else Some (py_strip t))"
    by (auto simp: cliente_da_empresa_def tecnico_inferido_empresa_def tecnico_inferido_loop_find Let_def
                   truthy_def split: if_splits prod.splits)
  from resolver_casos [of "Some t"] show ?thesis
  proof (elim disjE exE conjE)
    assume r: "resolver_tecnico (Some t) = (''desconhecido'', None)"
    with e have "tecnico_inferido_empresa nf clientes en = Some (py_strip t)" by simp
    with raw show ?thesis by (simp add: truthy_def canonical_strip)
  next
    assume r: "resolver_tecnico (Some t) = (''armando'', None)"
    with e have "tecnico_inferido_empresa nf clientes en = Some (py_strip t)" by simp
    with raw show ?thesis by (simp add: truthy_def canonical_strip)
  next
    fix k c assume c: "c \<noteq> []" and r: "resolver_tecnico (Some t) = (''canonico'', Some c)"
    with e have "tecnico_inferido_empresa nf clientes en = Some c" by (simp add: truthy_def)
    with c raw canonical_do_canonico [OF r c raw(2)] show ?thesis by (simp add: truthy_def)
  qed
qed

lemma dict_get_or_set_other [simp]: "k' \<noteq> k \<Longrightarrow> dict_get_or (dict_set k v d) k' x = dict_get_or d k' x"
  by (simp add: dict_get_or_def)

lemma minutos_mes_adicionar:
  "minutos_mes (adicionar_registo mes m tec r) mes = minutos_mes r mes + m"
  by (simp add: minutos_mes_def adicionar_registo_def Let_def somar_mes_def)

lemma minutos_tecnico_adicionar:
  "truthy tec \<Longrightarrow>
   minutos_tecnico (adicionar_registo mes m tec r) (canonical_tecnico_nome tec) mes
     = minutos_tecnico r (canonical_tecnico_nome tec) mes + m"
  by (simp add: minutos_tecnico_def adicionar_registo_def Let_def somar_tecnico_def somar_mes_def truthy_def)

lemma por_tecnico_adicionar_sem: "por_tecnico (adicionar_registo mes m None r) = por_tecnico r"
  by (simp add: adicionar_registo_def Let_def)

lemma norm_sem_tecnico: "norm_nome_forte (Some sem_tecnico) = ''SEM TECNICO''"
  by code_simp

lemma canonical_nunca_armando:
  "fst (resolver_tecnico (Some (canonical_tecnico_nome so))) \<noteq> ''armando''"
proof -
  have ne: "sem_tecnico \<noteq> []" by (simp add: sem_tecnico_def)
  have sem: "fst (resolver_tecnico (Some sem_tecnico)) \<noteq> ''armando''"
    using ne by (simp add: resolver_tecnico_def norm_sem_tecnico ARMANDO_NORMS_val Let_def
                      split: option.splits)
  show ?thesis
  proof (cases so)
    case None
    with sem show ?thesis by (simp add: canonical_tecnico_nome_def)
  next
    case (Some s)
    show ?thesis
    proof (cases "s = []")
      case True
      with Some sem show ?thesis by (simp add: canonical_tecnico_nome_def)
    next
      case False
      from resolver_casos [of "Some s"] show ?thesis
      proof (elim disjE exE conjE)
        assume r: "resolver_tecnico (Some s) = (''desconhecido'', None)"
        show ?thesis
        proof (cases "py_strip s = []")
          case True
          with r Some False sem show ?thesis by (simp add: canonical_tecnico_nome_def)
        next
          case b: False
          with r Some False have "canonical_tecnico_nome so = py_strip s"
            by (simp add: canonical_tecnico_nome_def)
          with r resolver_strip [OF b] show ?thesis by simp
        qed
      next
        assume r: "resolver_tecnico (Some s) = (''armando'', None)"
        with Some False sem show ?thesis by (simp add: canonical_tecnico_nome_def)
      next
        fix k c assume c: "c \<noteq> []" and k: "dict_get ALIASES_CANONICOS k = Some c"
          and r: "resolver_tecnico (Some s) = (''canonico'', Some c)"
        with Some False have "canonical_tecnico_nome so = c" by (simp add: canonical_tecnico_nome_def)
        with canonico_da_tabela [OF k] show ?thesis by simp
      qed
    qed
  qed
qed

lemma avaliacao_marcador:
  "norm_empresa_simples ''acme'' = ''acme''" "norm_empresa_simples ''Acme'' = ''acme''"
  "py_strip ''Armando Dias'' = ''Armando Dias''"
  "py_strip ''Fulano Desconhecido'' = ''Fulano Desconhecido''"
  "norm_nome_forte (Some ''Armando Dias'') = ''ARMANDO DIAS''"
  "str_int 3 = ''3''" "str_int 2025 = ''2025''"
  by code_simp+

lemma resolver_armando_dias: "resolver_tecnico (Some ''Armando Dias'') = (''armando'', None)"
  by (simp add: resolver_tecnico_def avaliacao_marcador ARMANDO_NORMS_val)

lemma sem_tecnico_nao_vazio: "sem_tecnico \<noteq> []"
  by (simp add: sem_tecnico_def)

lemma nome_atribuido_canonical:
  "t \<noteq> [] \<Longrightarrow> py_strip t \<noteq> [] \<Longrightarrow> nome_atribuido t = canonical_tecnico_nome (Some t)"
  using resolver_casos [of "Some t"]
  by (auto simp: nome_atribuido_def canonical_tecnico_nome_def Let_def)

text \<open>
  Claim C7, as the code has it. A fact whose technician is the special marker (kind
  \<open>"armando"\<close>) and that the last loop of \<open>importar_timings\<close> applies is never dropped:
  its minutes are added to the month of the company. When the registry entry of the
  company records a technician, the minutes are also booked under \<open>nome_atribuido\<close> of
  that name: the canonical identity of a known alias, the bucket of minutes without
  technician when the registry name is itself a spelling of the marker, the registry
  name as written when it is unknown. That name never resolves to the marker, and the
  report of markers without technician is left alone. When the company has no registry
  entry, or the entry records no technician, the breakdown by technician is not touched
  and the minutes are added to the report \<open>armando_sem_inferido\<close> under the company.
\<close>

theorem marcador_armando:
  assumes "tipo_de reg = ''armando''" and "0 < r_minutos reg"
  shows "\<exists>r'. registo_de (fst (aplicar_registo nf clientes ano mes nomes reg (td, asi))) ano
                (empresa_nome_de nomes reg) = Some r' \<and>
     minutos_mes r' mes
       = minutos_mes (registo_ou_novo td ano (empresa_nome_de nomes reg)) mes + r_minutos reg \<and>
     (\<forall>cli t. cliente_da_empresa nf clientes (r_empresa_norm reg) = Some cli
              \<and> tecnico_registado cli = Some t \<longrightarrow>
        minutos_tecnico r' (nome_atribuido t) mes
          = minutos_tecnico (registo_ou_novo td ano (empresa_nome_de nomes reg))
              (nome_atribuido t) mes + r_minutos reg \<and>
        fst (resolver_tecnico (Some (nome_atribuido t))) \<noteq> ''armando'' \<and>
        snd (aplicar_registo nf clientes ano mes nomes reg (td, asi)) = asi) \<and>
     (cliente_da_empresa nf clientes (r_empresa_norm reg) = None
        \<or> (\<exists>cli. cliente_da_empresa nf clientes (r_empresa_norm reg) = Some cli
                  \<and> tecnico_registado cli = None) \<longrightarrow>
        por_tecnico r' = por_tecnico (registo_ou_novo td ano (empresa_nome_de nomes reg)) \<and>
        dict_get_or (snd (aplicar_registo nf clientes ano mes nomes reg (td, asi))) (display_de reg) 0
          = dict_get_or asi (display_de reg) 0 + r_minutos reg)"
proof -
  let ?inf = "tecnico_inferido_empresa nf clientes (r_empresa_norm reg)"
  let ?nome = "empresa_nome_de nomes reg"
  let ?r0 = "registo_ou_novo td ano ?nome"
  let ?tf = "tecnico_final_de nf clientes reg"
  let ?res = "aplicar_registo nf clientes ano mes nomes reg (td, asi)"
  let ?r' = "adicionar_registo mes (r_minutos reg) ?tf ?r0"
  have tf: "?tf = (if truthy ?inf then ?inf else None)"
    using assms(1) by (simp add: tecnico_final_de_def Let_def)
  have r': "registo_de (fst ?res) ano ?nome = Some ?r'"
    using assms(2) by (simp add: aplicar_registo_def Let_def registo_de_adicionar empresa_nome_de_def
        registo_ou_novo_def)
  have m: "minutos_mes ?r' mes = minutos_mes ?r0 mes + r_minutos reg"
    by (rule minutos_mes_adicionar)
  have a: "minutos_tecnico ?r' (nome_atribuido t) mes
          = minutos_tecnico ?r0 (nome_atribuido t) mes + r_minutos reg \<and>
        fst (resolver_tecnico (Some (nome_atribuido t))) \<noteq> ''armando'' \<and>
        snd ?res = asi"
    if "cliente_da_empresa nf clientes (r_empresa_norm reg) = Some cli" "tecnico_registado cli = Some t"
    for cli t
  proof -
    from that(2) have tn: "t \<noteq> []" "py_strip t \<noteq> []"
      by (auto simp: tecnico_registado_def Let_def truthy_def split: if_splits)
    note na = nome_atribuido_canonical [OF tn]
    from inferido_com_tecnico [OF that] have i: "truthy ?inf"
      and c: "canonical_tecnico_nome ?inf = canonical_tecnico_nome (Some t)" by simp_all
    from i tf have "?tf = ?inf" by simp
    with minutos_tecnico_adicionar [of ?tf mes "r_minutos reg" ?r0] i c
    have "minutos_tecnico ?r' (canonical_tecnico_nome (Some t)) mes
          = minutos_tecnico ?r0 (canonical_tecnico_nome (Some t)) mes + r_minutos reg" by simp
    moreover from i have "snd ?res = asi" by (simp add: aplicar_registo_def Let_def)
    ultimately show ?thesis using canonical_nunca_armando [of "Some t"] by (simp add: na)
  qed
  have b: "por_tecnico ?r' = por_tecnico ?r0 \<and>
        dict_get_or (snd ?res) (display_de reg) 0 = dict_get_or asi (display_de reg) 0 + r_minutos reg"
    if "cliente_da_empresa nf clientes (r_empresa_norm reg) = None
        \<or> (\<exists>cli. cliente_da_empresa nf clientes (r_empresa_norm reg) = Some cli
                  \<and> tecnico_registado cli = None)"
  proof -
    from that have i: "?inf = None"
      using inferido_sem_registo inferido_sem_tecnico by blast
    with tf have "?tf = None" by (simp add: truthy_def)
    then have "por_tecnico ?r' = por_tecnico ?r0" by (simp add: por_tecnico_adicionar_sem)
    moreover from i assms(1) have "snd ?res = dict_somar (display_de reg) (r_minutos reg) asi"
      by (simp add: aplicar_registo_def Let_def truthy_def)
    ultimately show ?thesis by (simp add: dict_somar_def)
  qed
  from r' m a b show ?thesis by blast
qed

theorem marcador_armando_witness:
  "tipo_de registo_marcador = ''armando'' \<and> 0 < r_minutos registo_marcador \<and>
   cliente_da_empresa norm_empresa_simples [cliente_acme] (r_empresa_norm registo_marcador)
     = Some cliente_acme \<and>
   tecnico_registado cliente_acme = Some ''Ana Rodrigues'' \<and>
   (\<exists>r'. registo_de (fst (aplicar_registo norm_empresa_simples [cliente_acme] 2025 3 []
                             registo_marcador ([], []))) 2025 ''Acme'' = Some r'
         \<and> minutos_mes r' 3 = 45 \<and> minutos_tecnico r' ''Ana Rodrigues'' 3 = 45) \<and>
   snd (aplicar_registo norm_empresa_simples [cliente_acme] 2025 3 [] registo_marcador ([], [])) = [] \<and>
   cliente_da_empresa norm_empresa_simples [] (r_empresa_norm registo_marcador) = None \<and>
   (\<exists>r'. registo_de (fst (aplicar_registo norm_empresa_simples [] 2025 3 []
                             registo_marcador ([], []))) 2025 ''Acme'' = Some r'
         \<and> minutos_mes r' 3 = 45 \<and> por_tecnico r' = Some []) \<and>
   dict_get_or (snd (aplicar_registo norm_empresa_simples [] 2025 3 [] registo_marcador ([], [])))
     ''Acme'' 0 = 45"
proof -
  let ?nf = norm_empresa_simples
  have h1: "tipo_de registo_marcador = ''armando''"
    by (simp add: tipo_de_def registo_marcador_def)
  have h2: "0 < r_minutos registo_marcador" by (simp add: registo_marcador_def)
  have n: "?nf ''acme'' = ''acme''" "?nf ''Acme'' = ''acme''" by code_simp+
  have c1: "cliente_da_empresa ?nf [cliente_acme] (r_empresa_norm registo_marcador) = Some cliente_acme"
    by (simp add: cliente_da_empresa_def registo_marcador_def n cliente_acme_def nome_cliente_def
                  py_or_def truthy_def)
  have t1: "tecnico_registado cliente_acme = Some ''Ana Rodrigues''"
  proof -
    have "py_strip ''Ana Rodrigues'' = ''Ana Rodrigues''" by code_simp
    then show ?thesis
      by (simp add: tecnico_registado_def cliente_acme_def py_or_def truthy_def)
  qed
  have c2: "cliente_da_empresa ?nf [] (r_empresa_norm registo_marcador) = None"
    by (simp add: cliente_da_empresa_def)
  have nome: "empresa_nome_de [] registo_marcador = ''Acme''"
    by (simp add: empresa_nome_de_def dict_get_or_def display_de_def registo_marcador_def)
  have r0: "registo_ou_novo [] 2025 ''Acme'' = novo_registo"
    by (simp add: registo_ou_novo_def registo_de_def dict_get_or_def)
  have z: "minutos_mes novo_registo 3 = 0" "minutos_tecnico novo_registo ''Ana Rodrigues'' 3 = 0"
    "por_tecnico novo_registo = Some []"
    by (simp_all add: minutos_mes_def minutos_tecnico_def novo_registo_def dict_get_or_def)
  have can: "nome_atribuido ''Ana Rodrigues'' = ''Ana Rodrigues''"
    using canonico_fixo [of "''Ana Rodrigues''"] by (simp add: nome_atribuido_def)
  have d: "display_de registo_marcador = ''Acme''" "r_minutos registo_marcador = 45"
    by (simp_all add: display_de_def registo_marcador_def)
  from marcador_armando [OF h1 h2, of ?nf "[cliente_acme]" 2025 3 "[]" "[]" "[]"] c1 t1
  have a: "(\<exists>r'. registo_de (fst (aplicar_registo ?nf [cliente_acme] 2025 3 []
                             registo_marcador ([], []))) 2025 ''Acme'' = Some r'
         \<and> minutos_mes r' 3 = 45 \<and> minutos_tecnico r' ''Ana Rodrigues'' 3 = 45) \<and>
     snd (aplicar_registo ?nf [cliente_acme] 2025 3 [] registo_marcador ([], [])) = []"
    by (auto simp: nome r0 z can d)
  from marcador_armando [OF h1 h2, of ?nf "[]" 2025 3 "[]" "[]" "[]"] c2
  have b: "(\<exists>r'. registo_de (fst (aplicar_registo ?nf [] 2025 3 []
                             registo_marcador ([], []))) 2025 ''Acme'' = Some r'
         \<and> minutos_mes r' 3 = 45 \<and> por_tecnico r' = Some []) \<and>
     dict_get_or (snd (aplicar_registo ?nf [] 2025 3 [] registo_marcador ([], []))) ''Acme'' 0 = 45"
    by (auto simp: nome r0 z d dict_get_or_def)
  from h1 h2 c1 t1 a c2 b show ?thesis by blast
qed

text \<open>
  The claim as the specification words it fails when the registry technician of the
  company has no canonical identity. If the registry names the marker itself
  (\<open>Armando Dias\<close>), the minutes are booked under the bucket of minutes without
  technician and the report of unattributed markers stays empty. If the registry names
  an unknown person, the minutes are booked under that name as written.
\<close>

theorem marcador_no_registo:
  "tecnico_registado (cliente_com_tecnico ''Armando Dias'') = Some ''Armando Dias'' \<and>
   resolver_tecnico (Some ''Armando Dias'') = (''armando'', None) \<and>
   aplicar_registo norm_empresa_simples [cliente_com_tecnico ''Armando Dias''] 2025 3 []
       registo_marcador ([], []) =
     ([(''2025'', [(''Acme'', \<lparr>meses = [(KInt 3, 45)], extra_mensal = 0, apagado = False,
          por_tecnico = Some [(sem_tecnico, [(KStr ''3'', 45)])]\<rparr>)])], []) \<and>
   tecnico_registado (cliente_com_tecnico ''Fulano Desconhecido'') = Some ''Fulano Desconhecido'' \<and>
   resolver_tecnico (Some ''Fulano Desconhecido'') = (''desconhecido'', None) \<and>
   aplicar_registo norm_empresa_simples [cliente_com_tecnico ''Fulano Desconhecido''] 2025 3 []
       registo_marcador ([], []) =
     ([(''2025'', [(''Acme'', \<lparr>meses = [(KInt 3, 45)], extra_mensal = 0, apagado = False,
          por_tecnico = Some [(''Fulano Desconhecido'', [(KStr ''3'', 45)])]\<rparr>)])], [])"
proof -
  have t1: "tecnico_registado (cliente_com_tecnico ''Armando Dias'') = Some ''Armando Dias''"
    and t2: "tecnico_registado (cliente_com_tecnico ''Fulano Desconhecido'') = Some ''Fulano Desconhecido''"
    by (simp_all add: tecnico_registado_def cliente_com_tecnico_def py_or_def truthy_def avaliacao_marcador)
  have i1: "tecnico_inferido_empresa norm_empresa_simples [cliente_com_tecnico ''Armando Dias''] ''acme''
              = Some ''Armando Dias''"
    by (simp add: tecnico_inferido_empresa_def avaliacao_marcador cliente_com_tecnico_def
          nome_cliente_def py_or_def truthy_def resolver_armando_dias)
  have i2: "tecnico_inferido_empresa norm_empresa_simples [cliente_com_tecnico ''Fulano Desconhecido''] ''acme''
              = Some ''Fulano Desconhecido''"
    by (simp add: tecnico_inferido_empresa_def avaliacao_marcador cliente_com_tecnico_def
          nome_cliente_def py_or_def truthy_def resolver_fulano)
  have c1: "canonical_tecnico_nome (Some ''Armando Dias'') = sem_tecnico"
    by (simp add: canonical_tecnico_nome_def resolver_armando_dias)
  have c2: "canonical_tecnico_nome (Some ''Fulano Desconhecido'') = ''Fulano Desconhecido''"
    by (simp add: canonical_tecnico_nome_def resolver_fulano avaliacao_marcador)
  have a1: "aplicar_registo norm_empresa_simples [cliente_com_tecnico ''Armando Dias''] 2025 3 []
       registo_marcador ([], []) =
     ([(''2025'', [(''Acme'', \<lparr>meses = [(KInt 3, 45)], extra_mensal = 0, apagado = False,
          por_tecnico = Some [(sem_tecnico, [(KStr ''3'', 45)])]\<rparr>)])], [])"
    by (simp add: aplicar_registo_def tecnico_final_de_def tipo_de_def display_de_def registo_marcador_def
          i1 c1 truthy_def Let_def adicionar_tempo_empresa_def adicionar_registo_def obter_ano_dict_def
          dict_get_or_def novo_registo_def somar_mes_def somar_tecnico_def avaliacao_marcador)
  have a2: "aplicar_registo norm_empresa_simples [cliente_com_tecnico ''Fulano Desconhecido''] 2025 3 []
       registo_marcador ([], []) =
     ([(''2025'', [(''Acme'', \<lparr>meses = [(KInt 3, 45)], extra_mensal = 0, apagado = False,
          por_tecnico = Some [(''Fulano Desconhecido'', [(KStr ''3'', 45)])]\<rparr>)])], [])"
    by (simp add: aplicar_registo_def tecnico_final_de_def tipo_de_def display_de_def registo_marcador_def
          i2 c2 truthy_def Let_def adicionar_tempo_empresa_def adicionar_registo_def obter_ano_dict_def
          dict_get_or_def novo_registo_def somar_mes_def somar_tecnico_def avaliacao_marcador)
  from t1 t2 a1 a2 resolver_armando_dias resolver_fulano show ?thesis by simp
qed

section \<open>C8: closing a company block of the indented layout\<close>

text \<open>Every row is of exactly one of three kinds.\<close>

lemma linha_tricotomia:
  "linha_saltada row \<or> linha_de_tecnico row \<or> linha_de_empresa row"
  by (cases row; cases "fst row") (auto simp: linha_saltada_def linha_de_tecnico_def linha_de_empresa_def)

lemma processar_linha_saltada: "linha_saltada row \<Longrightarrow> processar_linha row st = Inr st"
  by (cases row; cases "fst row") (auto simp: linha_saltada_def processar_linha_def Let_def)

lemma processar_linha_orfa:
  "linha_de_tecnico row \<Longrightarrow> empresa_atual st = None \<Longrightarrow> processar_linha row st = Inr st"
  by (cases row; cases "fst row") (auto simp: linha_de_tecnico_def processar_linha_def Let_def truthy_def)

lemma processar_linha_tecnico:
  assumes "linha_de_tecnico row" "duracao_ok row" "empresa_atual st = Some emp" "emp \<noteq> []"
  shows "\<exists>st'. processar_linha row st = Inr st' \<and> registos st' = registos st
     \<and> totais_fallback st' = totais_fallback st \<and> empresa_atual st' = empresa_atual st
     \<and> resumo_atual_min st' = resumo_atual_min st
     \<and> resumos_ignorados_por_empresa st' = resumos_ignorados_por_empresa st
     \<and> registos_empresa st' = registos_empresa st
          @ (if linha_reconhecida row then [facto_da_linha emp row] else [])"
proof -
  obtain texto col2 where row: "row = (Some texto, col2)"
    using assms(1) by (cases row; cases "fst row") (auto simp: linha_de_tecnico_def)
  from assms(2) obtain m where m: "parse_duracao_para_minutos col2 = Inr m"
    by (auto simp: duracao_ok_def row split: sum.splits)
  obtain tipo can where r: "resolver_tecnico (Some (py_strip texto)) = (tipo, can)"
    by (cases "resolver_tecnico (Some (py_strip texto))")
  from assms(1) have t: "py_strip texto \<noteq> []" "\<not> linha_ignorada (py_strip texto)" "indentada texto"
    by (auto simp: linha_de_tecnico_def row)
  show ?thesis
    using t m r assms(3,4) assms(1)
    by (auto simp: processar_linha_def row Let_def truthy_def linha_reconhecida_def
                   facto_da_linha_def minutos_linha_def nome_linha_def)
qed

lemma linha_saltada_nao_reconhecida: "linha_saltada row \<Longrightarrow> \<not> linha_reconhecida row"
  by (cases row; cases "fst row") (auto simp: linha_saltada_def linha_reconhecida_def linha_de_tecnico_def)

lemma processar_linhas_detalhe:
  assumes "list_all (\<lambda>row. linha_saltada row \<or> (linha_de_tecnico row \<and> duracao_ok row)) det"
    "empresa_atual st = Some emp" "emp \<noteq> []"
  shows "\<exists>st'. processar_linhas det st = Inr st' \<and> registos st' = registos st
     \<and> totais_fallback st' = totais_fallback st \<and> empresa_atual st' = empresa_atual st
     \<and> resumo_atual_min st' = resumo_atual_min st
     \<and> resumos_ignorados_por_empresa st' = resumos_ignorados_por_empresa st
     \<and> registos_empresa st' = registos_empresa st
          @ map (facto_da_linha emp) (filter linha_reconhecida det)"
  using assms
proof (induction det arbitrary: st)
  case Nil
  then show ?case by simp
next
  case (Cons row det)
  from Cons.prems(1) have rest: "list_all (\<lambda>row. linha_saltada row \<or> (linha_de_tecnico row \<and> duracao_ok row)) det"
    and hd: "linha_saltada row \<or> (linha_de_tecnico row \<and> duracao_ok row)" by simp_all
  from hd show ?case
  proof
    assume s: "linha_saltada row"
    from Cons.IH [OF rest Cons.prems(2,3)] processar_linha_saltada [OF s, of st]
      linha_saltada_nao_reconhecida [OF s]
    show ?thesis by simp
  next
    assume a: "linha_de_tecnico row \<and> duracao_ok row"
    from processar_linha_tecnico [OF conjunct1 [OF a] conjunct2 [OF a] Cons.prems(2,3)]
    obtain st1 where s1: "processar_linha row st = Inr st1" "registos st1 = registos st"
       "totais_fallback st1 = totais_fallback st" "empresa_atual st1 = empresa_atual st"
       "resumo_atual_min st1 = resumo_atual_min st"
       "resumos_ignorados_por_empresa st1 = resumos_ignorados_por_empresa st"
       "registos_empresa st1 = registos_empresa st
            @ (if linha_reconhecida row then [facto_da_linha emp row] else [])"
      by blast
    from Cons.prems s1 have p: "empresa_atual st1 = Some emp" by simp
    from Cons.IH [OF rest p Cons.prems(3)] s1 show ?thesis by auto
  qed
qed

lemma processar_linha_cabecalho:
  assumes "linha_de_empresa cab" "duracao_ok cab"
  shows "processar_linha cab st =
     Inr ((finalizar_empresa st)\<lparr>empresa_atual := Some (nome_linha cab),
                                 resumo_atual_min := minutos_linha cab\<rparr>)"
    and "nome_linha cab \<noteq> []"
proof -
  obtain texto col2 where cab: "cab = (Some texto, col2)"
    using assms(1) by (cases cab; cases "fst cab") (auto simp: linha_de_empresa_def)
  from assms(2) obtain total where tot: "parse_duracao_para_minutos col2 = Inr total"
    by (auto simp: duracao_ok_def cab split: sum.splits)
  from assms(1) have t: "py_strip texto \<noteq> []" "\<not> linha_ignorada (py_strip texto)" "\<not> indentada texto"
    by (auto simp: linha_de_empresa_def cab)
  show "processar_linha cab st =
     Inr ((finalizar_empresa st)\<lparr>empresa_atual := Some (nome_linha cab),
                                 resumo_atual_min := minutos_linha cab\<rparr>)"
    using t tot by (simp add: processar_linha_def cab Let_def nome_linha_def minutos_linha_def)
  show "nome_linha cab \<noteq> []" using t by (simp add: nome_linha_def cab)
qed

lemma processar_linhas_append:
  "processar_linhas (xs @ ys) st =
     (case processar_linhas xs st of Inl e \<Rightarrow> Inl e | Inr st' \<Rightarrow> processar_linhas ys st')"
  by (induction xs arbitrary: st) (auto split: sum.splits)


lemma processar_linhas_antes:
  assumes "list_all (\<lambda>row. linha_saltada row \<or> linha_de_tecnico row) pre" "empresa_atual st = None"
  shows "processar_linhas pre st = Inr st"
  using assms
proof (induction pre)
  case Nil
  then show ?case by simp
next
  case (Cons row pre)
  from Cons.prems have "processar_linha row st = Inr st"
    using processar_linha_saltada [of row st] processar_linha_orfa [of row st] by auto
  with Cons show ?case by simp
qed

lemma finalizar_fechado:
  "\<not> truthy (empresa_atual st) \<Longrightarrow> finalizar_empresa st = st"
  by (simp add: finalizar_empresa_def)

lemma finalizar_aberto:
  assumes "empresa_atual st = Some emp" "emp \<noteq> []"
  shows "resultados_folha (finalizar_empresa st) =
     (if registos_empresa st \<noteq> [] then
        (registos st @ registos_empresa st, totais_fallback st,
         if 0 < resumo_atual_min st
         then dict_somar emp (resumo_atual_min st) (resumos_ignorados_por_empresa st)
         else resumos_ignorados_por_empresa st)
      else
        (registos st,
         if 0 < resumo_atual_min st then dict_somar emp (resumo_atual_min st) (totais_fallback st)
         else totais_fallback st,
         resumos_ignorados_por_empresa st))"
  using assms by (simp add: finalizar_empresa_def resultados_folha_def truthy_def Let_def)

lemma finalizar_sem_bloco:
  assumes "empresa_atual st = None \<Longrightarrow> registos_empresa st = []" "empresa_atual st \<noteq> Some []"
  shows "registos_empresa (finalizar_empresa st) = []"
  using assms by (cases "empresa_atual st") (auto simp: finalizar_empresa_def truthy_def Let_def)

lemma processar_bloco:
  assumes "bloco_ok (cab, det)"
    and "empresa_atual st = None \<Longrightarrow> registos_empresa st = []" and "empresa_atual st \<noteq> Some []"
  shows "\<exists>st'. processar_linhas (cab # det) st = Inr st' \<and>
     empresa_atual st' = Some (nome_linha cab) \<and> nome_linha cab \<noteq> [] \<and>
     resultados_folha (finalizar_empresa st') =
       fecho_esperado (cab, det) (resultados_folha (finalizar_empresa st))"
proof -
  from assms(1) have c: "linha_de_empresa cab" "duracao_ok cab"
    and d: "list_all (\<lambda>row. linha_saltada row \<or> (linha_de_tecnico row \<and> duracao_ok row)) det"
    by (simp_all add: bloco_ok_def)
  let ?f = "finalizar_empresa st"
  let ?st1 = "?f\<lparr>empresa_atual := Some (nome_linha cab), resumo_atual_min := minutos_linha cab\<rparr>"
  have p1: "processar_linha cab st = Inr ?st1" and n: "nome_linha cab \<noteq> []"
    using processar_linha_cabecalho [OF c] by simp_all
  have e1: "empresa_atual ?st1 = Some (nome_linha cab)" by simp
  from processar_linhas_detalhe [OF d e1 n]
  obtain st2 where s2: "processar_linhas det ?st1 = Inr st2" "registos st2 = registos ?st1"
     "totais_fallback st2 = totais_fallback ?st1" "empresa_atual st2 = empresa_atual ?st1"
     "resumo_atual_min st2 = resumo_atual_min ?st1"
     "resumos_ignorados_por_empresa st2 = resumos_ignorados_por_empresa ?st1"
     "registos_empresa st2 = registos_empresa ?st1
          @ map (facto_da_linha (nome_linha cab)) (filter linha_reconhecida det)"
    by blast
  have r0: "registos_empresa ?st1 = []"
    using finalizar_sem_bloco [OF assms(2,3)] by simp
  have e2: "empresa_atual st2 = Some (nome_linha cab)" using s2(4) by simp
  have "resultados_folha (finalizar_empresa st2) =
       fecho_esperado (cab, det) (resultados_folha ?f)"
    unfolding finalizar_aberto [OF e2 n]
    by (simp add: s2(2,3,5,6,7) r0 fecho_esperado_def resultados_folha_def)
  with p1 s2(1) e2 n show ?thesis by simp
qed

lemma processar_blocos:
  "list_all bloco_ok bs \<Longrightarrow> (empresa_atual st = None \<longrightarrow> registos_empresa st = []) \<Longrightarrow>
   empresa_atual st \<noteq> Some [] \<Longrightarrow>
   \<exists>st'. processar_linhas (linhas_dos_blocos bs) st = Inr st' \<and>
     resultados_folha (finalizar_empresa st') =
       fold fecho_esperado bs (resultados_folha (finalizar_empresa st))"
proof (induction bs arbitrary: st)
  case Nil
  then show ?case by (simp add: linhas_dos_blocos_def)
next
  case (Cons b bs)
  obtain cab det where b: "b = (cab, det)" by (cases b)
  from Cons.prems(1) have ok: "bloco_ok (cab, det)" and oks: "list_all bloco_ok bs"
    by (simp_all add: b)
  from Cons.prems(2) have i0: "empresa_atual st = None \<Longrightarrow> registos_empresa st = []" by simp
  from processar_bloco [OF ok i0 Cons.prems(3)]
  obtain st1 where s1: "processar_linhas (cab # det) st = Inr st1"
     "empresa_atual st1 = Some (nome_linha cab)" "nome_linha cab \<noteq> []"
     "resultados_folha (finalizar_empresa st1) =
        fecho_esperado (cab, det) (resultados_folha (finalizar_empresa st))"
    by blast
  from s1(2,3) have i: "empresa_atual st1 = None \<longrightarrow> registos_empresa st1 = []"
     "empresa_atual st1 \<noteq> Some []" by simp_all
  from Cons.IH [OF oks i]
  obtain st2 where s2: "processar_linhas (linhas_dos_blocos bs) st1 = Inr st2"
     "resultados_folha (finalizar_empresa st2) =
        fold fecho_esperado bs (resultados_folha (finalizar_empresa st1))"
    by blast
  have l: "linhas_dos_blocos (b # bs) = (cab # det) @ linhas_dos_blocos bs"
    by (simp add: linhas_dos_blocos_def b)
  have "processar_linhas (linhas_dos_blocos (b # bs)) st = Inr st2"
    unfolding l processar_linhas_append using s1(1) s2(1) by simp
  with s2(2) s1(4) show ?case by (simp add: b)
qed

text \<open>
  Claim C8, as the code has it. A sheet is any rows before the first company row
  (passed over, or technician rows with no company above them, which are dropped)
  followed by any number of company blocks; every row of a sheet is of one of these
  kinds, and the durations that are read are readable. The technician rows of a block
  that count are those with positive minutes and a known name (a canonical alias or
  the special marker); each of them becomes a fact, in the order of the sheet. For
  every block, when the next block starts or the sheet ends: if at least one of its
  rows counts, the inline total of the company row makes no fallback fact and, when
  positive, is added to the report of ignored summaries; if none counts, the inline
  total, when positive, is added to the company's fallback total and the report of
  ignored summaries is not touched.
\<close>

theorem fecho_bloco:
  assumes "list_all (\<lambda>row. linha_saltada row \<or> linha_de_tecnico row) pre"
    and "list_all bloco_ok bls"
  shows "\<exists>st. processar_sheet_workload (pre @ linhas_dos_blocos bls) invs igns ress = Inr st \<and>
     resultados_folha st = fold fecho_esperado bls ([], [], ress)"
proof -
  let ?st0 = "estado_inicial invs igns ress"
  have e0: "empresa_atual ?st0 = None" "registos_empresa ?st0 = []"
    by (simp_all add: estado_inicial_def)
  have p: "processar_linhas pre ?st0 = Inr ?st0"
    by (rule processar_linhas_antes [OF assms(1) e0(1)])
  from processar_blocos [OF assms(2), of ?st0] e0
  obtain st' where s: "processar_linhas (linhas_dos_blocos bls) ?st0 = Inr st'"
     "resultados_folha (finalizar_empresa st') =
        fold fecho_esperado bls (resultados_folha (finalizar_empresa ?st0))"
    by auto
  have f0: "resultados_folha (finalizar_empresa ?st0) = ([], [], ress)"
    by (simp add: finalizar_fechado e0 truthy_def resultados_folha_def estado_inicial_def)
  have "processar_sheet_workload (pre @ linhas_dos_blocos bls) invs igns ress
          = Inr (finalizar_empresa st')"
    by (simp add: processar_sheet_workload_def processar_linhas_append p s(1))
  with s(2) f0 show ?thesis by simp
qed

text \<open>
  The claim as the specification words it fails on a block whose only technician row
  carries an unknown name: the row is present, yet it becomes no fact and the inline
  total of 100 minutes is kept as the fallback total instead of being reported as an
  ignored summary.
\<close>

theorem bloco_tecnico_desconhecido:
  "linha_de_empresa linha_acme \<and> linha_de_tecnico linha_fulano \<and> minutos_linha linha_fulano = 60 \<and>
   minutos_linha linha_acme = 100 \<and>
   (\<exists>st. processar_sheet_workload [linha_acme, linha_fulano] [] [] [] = Inr st \<and>
         registos st = [] \<and> totais_fallback st = [(''ACME'', 100)] \<and>
         resumos_ignorados_por_empresa st = [] \<and>
         invalidos st = [(''Fulano Desconhecido'', 60)])"
  by (simp add: linha_de_empresa_def linha_de_tecnico_def minutos_linha_def linha_acme_def
        linha_fulano_def avaliacao_acme avaliacao_fulano resolver_fulano
        processar_sheet_workload_def processar_linha_def finalizar_empresa_def estado_inicial_def
        truthy_def Let_def dict_somar_def dict_get_or_def)

text \<open>
  A sheet of two blocks: ACME with an inline total of 100 minutes and one row of Ana
  Rodrigues, then BETA with an inline total of 50 minutes and no rows. ACME's total is
  reported as an ignored summary when BETA starts; BETA's is its fallback total.
\<close>

theorem fecho_bloco_witness:
  "list_all bloco_ok [(linha_acme, [linha_ana]), (linha_beta, [])] \<and>
   (\<exists>st. processar_sheet_workload [linha_acme, linha_ana, linha_beta] [] [] [] = Inr st \<and>
         resultados_folha st =
           ([(''ACME'', ''canonico'', Some ''Ana Rodrigues'', 60)], [(''BETA'', 50)], [(''ACME'', 100)]))"
proof -
  have h: "list_all bloco_ok [(linha_acme, [linha_ana]), (linha_beta, [])]"
    by (simp add: bloco_ok_def linha_de_empresa_def linha_de_tecnico_def duracao_ok_def
          linha_acme_def linha_ana_def linha_beta_def avaliacao_acme avaliacao_ana avaliacao_beta)
  have rec: "linha_reconhecida linha_ana"
    by (simp add: linha_reconhecida_def linha_de_tecnico_def minutos_linha_def nome_linha_def
          linha_ana_def avaliacao_ana resolver_ana)
  have f: "facto_da_linha ''ACME'' linha_ana = (''ACME'', ''canonico'', Some ''Ana Rodrigues'', 60)"
    by (simp add: facto_da_linha_def minutos_linha_def nome_linha_def linha_ana_def
                  avaliacao_ana resolver_ana)
  have n: "nome_linha linha_acme = ''ACME''" "minutos_linha linha_acme = 100"
     "nome_linha linha_beta = ''BETA''" "minutos_linha linha_beta = 50"
    by (simp_all add: nome_linha_def minutos_linha_def linha_acme_def linha_beta_def
          avaliacao_acme avaliacao_beta)
  from fecho_bloco [of "[]", OF _ h, of "[]" "[]" "[]"] rec
  have "\<exists>st. processar_sheet_workload [linha_acme, linha_ana, linha_beta] [] [] [] = Inr st \<and>
         resultados_folha st =
           ([(''ACME'', ''canonico'', Some ''Ana Rodrigues'', 60)], [(''BETA'', 50)], [(''ACME'', 100)])"
    by (simp add: linhas_dos_blocos_def fecho_esperado_def f n dict_somar_def dict_get_or_def)
  with h show ?thesis by simp
qed

section \<open>Soft delete and reactivation\<close>

text \<open>
  Claim C9. A record whose deleted flag is set (for instance by the soft delete
  \<open>excluir_timing_empresa\<close>) is reactivated by booking positive minutes on it: its flag is
  false afterwards. Booking zero or negative minutes changes nothing in the ledger, so
  the record and its flag stay as they were.
\<close>

theorem reativacao_apagado:
  "registo_de td ano empresa = Some r \<Longrightarrow> apagado r \<Longrightarrow>
   (0 < minutos \<longrightarrow>
      (\<exists>r'. registo_de (adicionar_tempo_empresa ano mes empresa minutos tecnico td) ano empresa = Some r'
            \<and> \<not> apagado r')) \<and>
   (minutos \<le> 0 \<longrightarrow>
      adicionar_tempo_empresa ano mes empresa minutos tecnico td = td \<and>
      registo_de (adicionar_tempo_empresa ano mes empresa minutos tecnico td) ano empresa = Some r)"
  by (auto simp: registo_de_adicionar) (simp add: adicionar_tempo_empresa_def)+

theorem reativacao_apagado_witness:
  "registo_de (excluir_timing_empresa 2025 ''Acme'' []) 2025 ''Acme''
     = Some \<lparr>meses = [], extra_mensal = 0, apagado = True, por_tecnico = None\<rparr> \<and>
   (\<exists>r'. registo_de (adicionar_tempo_empresa 2025 3 ''Acme'' 30 None
                        (excluir_timing_empresa 2025 ''Acme'' [])) 2025 ''Acme'' = Some r'
         \<and> \<not> apagado r') \<and>
   adicionar_tempo_empresa 2025 3 ''Acme'' 0 None (excluir_timing_empresa 2025 ''Acme'' [])
     = excluir_timing_empresa 2025 ''Acme'' []"
proof -
  let ?td = "excluir_timing_empresa 2025 ''Acme'' []"
  let ?r = "\<lparr>meses = [], extra_mensal = 0, apagado = True, por_tecnico = None\<rparr>"
  have h1: "registo_de ?td 2025 ''Acme'' = Some ?r"
    by (simp add: registo_de_def excluir_timing_empresa_def Let_def dict_get_or_def)
  have h2: "apagado ?r" by simp
  from reativacao_apagado [OF h1 h2, of 30 3 None] reativacao_apagado [OF h1 h2, of 0 3 None] h1
  show ?thesis by simp
qed

section \<open>C10: clearing the ledger\<close>

lemma total_vista_vazio: "total_minutos_timings (vista []) = Inr 0"
  by (simp add: total_minutos_timings_def vista_def)

lemma copia_de_seguranca_campos [simp]:
  "ficheiro (o_disco (copia_de_seguranca io p)) = ficheiro (o_disco p)"
  "tmp (o_disco (copia_de_seguranca io p)) = tmp (o_disco p)"
  "operacoes (o_disco (copia_de_seguranca io p)) = operacoes (o_disco p)"
  "timings_dados (copia_de_seguranca io p) = timings_dados p"
  by (simp_all add: copia_de_seguranca_def)

lemma total_enorme: "total_minutos_timings doc_enorme = Inr (12 * 2 ^ 1024)"
  by (simp add: doc_enorme_def total_minutos_timings_def total_ano_def total_empresa_def extra_mes_def)

lemma guardar_vazio:
  assumes "ficheiro d = Some (Documento antigo)" "total_minutos_timings antigo = Inr T" "0 < T"
  shows "guardar_timings_para_ficheiro io [] d =
     (case float_de (of_int T) of Finito f \<Rightarrow> Inr (d, False) | _ \<Rightarrow> Inl OverflowError)"
proof -
  have t: "total_anterior_de d = Some T" by (rule total_anterior_documento [OF assms(1,2)])
  from float_de_inteiro_casos [OF assms(3)] show ?thesis
  proof
    assume m: "float_de (of_int T) = MaisInf"
    then show ?thesis using t assms(3)
      by (simp add: guardar_timings_para_ficheiro_def total_vista_vazio guarda_rejeita_transborda)
  next
    assume "\<exists>f. float_de (of_int T) = Finito f"
    then obtain f where f: "float_de (of_int T) = Finito f" by blast
    from float_de_positivo [OF assms(3) f] have "guarda_rejeita 0 T = Inr True"
      by (simp add: guarda_rejeita_finito [OF assms(3) f])
    then show ?thesis using t assms(3) f
      by (simp add: guardar_timings_para_ficheiro_def total_vista_vazio)
  qed
qed

text \<open>
  The claim as it is worded fails where the old total is too large for a double. The
  old file holds \<open>12 * 2^1024\<close> minutes, a positive total; the product
  \<open>total_anterior * 0.5\<close> of the guard raises \<open>OverflowError\<close>, so the save is not
  refused: the exception leaves \<open>limpar_timings\<close>.
\<close>

theorem limpar_transborda:
  "ficheiro (o_disco processo_enorme) = Some (Documento doc_enorme) \<and>
   total_minutos_timings doc_enorme = Inr (12 * 2 ^ 1024) \<and>
   (0 :: int) < 12 * 2 ^ 1024 \<and>
   snd (limpar_timings sistema_ok ''APAGAR'' processo_enorme) = Inl OverflowError"
proof -
  have f: "ficheiro (o_disco processo_enorme) = Some (Documento doc_enorme)"
    by (simp add: processo_enorme_def)
  have p: "(0 :: int) < 12 * 2 ^ 1024" by simp
  have "(2 :: int) ^ 1024 \<le> 12 * 2 ^ 1024" by simp
  then have m: "float_de (of_int (12 * 2 ^ 1024)) = MaisInf" by (rule float_de_transborda)
  let ?p1 = "copia_de_seguranca sistema_ok (processo_enorme\<lparr>timings_dados := []\<rparr>)"
  have f1: "ficheiro (o_disco ?p1) = Some (Documento doc_enorme)" using f by simp
  have "guardar_timings_para_ficheiro sistema_ok [] (o_disco ?p1) = Inl OverflowError"
    unfolding guardar_vazio [OF f1 total_enorme p] m by simp
  then have "snd (limpar_timings sistema_ok ''APAGAR'' processo_enorme) = Inl OverflowError"
    by (simp add: limpar_timings_def persistir_timings_def Let_def)
  with f total_enorme p show ?thesis by simp
qed

text \<open>
  Claim C10, as the code has it. When the ledger file holds a readable document with a
  positive total \<open>T\<close>, the confirmed clear-all empties the ledger in memory and leaves the
  ledger file and its temporary neighbour as they were, with no operation done on them.
  When the double nearest to \<open>T\<close> is finite, as it is for every \<open>T\<close> below \<open>2^1023\<close>, the
  save that follows is refused by the guard and the request is answered with the
  redirect.
\<close>

theorem limpar_rejeitado:
  assumes "ficheiro (o_disco p) = Some (Documento antigo)"
    and "total_minutos_timings antigo = Inr T" and "0 < T"
  shows "timings_dados (fst (limpar_timings io ''APAGAR'' p)) = [] \<and>
     ficheiro (o_disco (fst (limpar_timings io ''APAGAR'' p))) = ficheiro (o_disco p) \<and>
     tmp (o_disco (fst (limpar_timings io ''APAGAR'' p))) = tmp (o_disco p) \<and>
     operacoes (o_disco (fst (limpar_timings io ''APAGAR'' p))) = operacoes (o_disco p) \<and>
     (T < 2 ^ 1023 \<longrightarrow> (\<exists>f. float_de (of_int T) = Finito f)) \<and>
     ((\<exists>f. float_de (of_int T) = Finito f) \<longrightarrow>
        snd (limpar_timings io ''APAGAR'' p) = Inr Redirecionado \<and>
        guardar_timings_para_ficheiro io (timings_dados (fst (limpar_timings io ''APAGAR'' p)))
            (o_disco (fst (limpar_timings io ''APAGAR'' p)))
          = Inr (o_disco (fst (limpar_timings io ''APAGAR'' p)), False))"
proof -
  let ?p1 = "copia_de_seguranca io (p\<lparr>timings_dados := []\<rparr>)"
  have f: "ficheiro (o_disco ?p1) = Some (Documento antigo)"
    using assms(1) by simp
  note g = guardar_vazio [OF f assms(2,3), of io]
  have fin: "T < 2 ^ 1023 \<longrightarrow> (\<exists>f. float_de (of_int T) = Finito f)"
    using float_de_finito [OF assms(3)] by blast
  from float_de_inteiro_casos [OF assms(3)] show ?thesis
  proof
    assume m: "float_de (of_int T) = MaisInf"
    have "limpar_timings io ''APAGAR'' p = (?p1, Inl OverflowError)"
      by (simp add: limpar_timings_def persistir_timings_def Let_def g m)
    then show ?thesis using m fin by simp
  next
    assume "\<exists>f. float_de (of_int T) = Finito f"
    then obtain f where fl: "float_de (of_int T) = Finito f" by blast
    have g1: "guardar_timings_para_ficheiro io [] (o_disco ?p1) = Inr (o_disco ?p1, False)"
      by (simp add: g fl)
    have "limpar_timings io ''APAGAR'' p = (?p1, Inr Redirecionado)"
      by (simp add: limpar_timings_def persistir_timings_def Let_def g1)
    then show ?thesis using fl g1 by simp
  qed
qed

text \<open>A ledger of 10 minutes is cleared over an old file of 100 minutes.\<close>

theorem limpar_rejeitado_witness:
  "ficheiro (o_disco processo_pequeno) = Some (Documento (doc_de_total 100)) \<and>
   total_minutos_timings (doc_de_total 100) = Inr 100 \<and>
   timings_dados (fst (limpar_timings sistema_ok ''APAGAR'' processo_pequeno)) = [] \<and>
   ficheiro (o_disco (fst (limpar_timings sistema_ok ''APAGAR'' processo_pequeno)))
     = Some (Documento (doc_de_total 100)) \<and>
   operacoes (o_disco (fst (limpar_timings sistema_ok ''APAGAR'' processo_pequeno))) = [] \<and>
   snd (limpar_timings sistema_ok ''APAGAR'' processo_pequeno) = Inr Redirecionado"
proof -
  have f: "ficheiro (o_disco processo_pequeno) = Some (Documento (doc_de_total 100))"
    "operacoes (o_disco processo_pequeno) = []"
    by (simp_all add: processo_pequeno_def disco_com_def)
  have t: "total_minutos_timings (doc_de_total 100) = Inr 100" by (rule totais_pequenos)
  have p: "(0::int) < 100" "(100::int) < 2 ^ 1023" by simp_all
  from limpar_rejeitado [OF f(1) t p(1), of sistema_ok] p(2) f t show ?thesis by simp
qed

end
